theory Spec2Isabelle
  imports Main "HOL-Library.Char_ord" "HOL-Library.List_Lexorder" "HOL-Library.Multiset"
begin

section \<open>JavaScript values\<close>

text \<open>
  A thrown value is an \<^verbatim>\<open>Error\<close> object: its \<^verbatim>\<open>message\<close> and, for the
  errors built by \<^verbatim>\<open>addProdi\<close> and \<^verbatim>\<open>addFakultas\<close>, the
  \<^verbatim>\<open>originalError\<close> attached to it.
\<close>

datatype js_error = JsError (message: string) (originalError: "js_error option")

text \<open>\<^verbatim>\<open>Error.prototype.toString\<close> for an object whose name is \<^verbatim>\<open>Error\<close>.\<close>

definition toString :: "js_error \<Rightarrow> string" where
  "toString error = (if message error = [] then ''Error'' else ''Error: '' @ message error)"

text \<open>
  \<^verbatim>\<open>error?.message || String(error)\<close>: the message, or the string form of the error
  when the message is the empty string.
\<close>

definition errorMsg :: "js_error \<Rightarrow> string" where
  "errorMsg error = (if message error \<noteq> [] then message error else toString error)"

text \<open>\<^verbatim>\<open>String.prototype.startsWith\<close> and \<^verbatim>\<open>String.prototype.includes\<close>.\<close>

fun startsWith :: "string \<Rightarrow> string \<Rightarrow> bool" where
  "startsWith s [] = True"
| "startsWith [] (c # sub) = False"
| "startsWith (d # s) (c # sub) = (d = c \<and> startsWith s sub)"

fun str_includes :: "string \<Rightarrow> string \<Rightarrow> bool" where
  "str_includes [] sub = (sub = [])"
| "str_includes (d # s) sub = (startsWith (d # s) sub \<or> str_includes s sub)"

text \<open>
  How an awaited call of the storage library ends: its promise fulfils, fulfils with
  \<^verbatim>\<open>null\<close> (looked at only after \<^verbatim>\<open>openDatabaseAsync\<close>), or rejects.
\<close>

datatype outcome = Resolves | ResolvesNull | Rejects js_error

text \<open>
  What the caller of an asynchronous function observes: a value, a thrown error, or a
  promise that is not settled.
\<close>

datatype 'a completion = Returns 'a | Throws js_error | Pending

text \<open>
  Console output, kept by level and leading text; the further arguments of a
  \<^verbatim>\<open>console\<close> call are not recorded.
\<close>

datatype console_line = ConsoleLog string | ConsoleError string

section \<open>The connection guard\<close>

text \<open>
  A connection handle is named by the number of the \<^verbatim>\<open>openDatabaseAsync\<close> call that
  produced it; every call of the library yields a new object. A promise of the
  initialising closure is named by its position in the list of closures started so far.
\<close>

type_synonym handle = nat
type_synonym pid = nat

text \<open>
  One run of the asynchronous closure assigned to \<^verbatim>\<open>initPromise\<close>, stopped at an
  \<^verbatim>\<open>await\<close> or settled. The local variable \<^verbatim>\<open>database\<close> is \<^verbatim>\<open>null\<close> while
  the open call is awaited and holds the handle carried by the constructor afterwards.
  \<open>AwaitClose\<close> is the \<^verbatim>\<open>await database.closeAsync()\<close> of the catch block, with the
  caught error.
\<close>

datatype attempt =
    AwaitOpen
  | AwaitCreateMahasiswa handle
  | AwaitCreateUsers handle
  | AwaitAlter handle
  | AwaitCreateProdi handle
  | AwaitCreateFakultas handle
  | AwaitClose handle js_error
  | Fulfilled handle
  | Rejected js_error

text \<open>The module variables \<^verbatim>\<open>db\<close> and \<^verbatim>\<open>initPromise\<close>, the closures, the console.\<close>

record guard =
  db :: "handle option"
  initPromise :: "pid option"
  attempts :: "attempt list"
  console :: "console_line list"

definition uninitialized :: guard where
  "uninitialized = \<lparr>db = None, initPromise = None, attempts = [], console = []\<rparr>"

definition console_log :: "string list \<Rightarrow> guard \<Rightarrow> guard" where
  "console_log texts g = g\<lparr>console := console g @ map ConsoleLog texts\<rparr>"

definition console_error :: "string list \<Rightarrow> guard \<Rightarrow> guard" where
  "console_error texts g = g\<lparr>console := console g @ map ConsoleError texts\<rparr>"

definition set_attempt :: "pid \<Rightarrow> attempt \<Rightarrow> guard \<Rightarrow> guard" where
  "set_attempt p a g = g\<lparr>attempts := (attempts g)[p := a]\<rparr>"

text \<open>The error thrown at the end of the catch block.\<close>

definition init_failure :: "js_error \<Rightarrow> js_error" where
  "init_failure error = JsError (''Database initialization failed: '' @ errorMsg error) None"

text \<open>
  The catch block of the closure up to its \<^verbatim>\<open>await\<close>: four error lines, both module
  variables reset, then the close call if \<^verbatim>\<open>database\<close> is set, else the throw.
\<close>

definition enter_catch :: "pid \<Rightarrow> handle option \<Rightarrow> js_error \<Rightarrow> guard \<Rightarrow> guard" where
  "enter_catch p database error g =
    (let g1 = console_error [''Error initializing database:'', ''Error type:'',
                             ''Error message:'', ''Error stack:''] g;
         g2 = g1\<lparr>initPromise := None, db := None\<rparr>
     in case database of
          Some h \<Rightarrow> set_attempt p (AwaitClose h error) g2
        | None \<Rightarrow> set_attempt p (Rejected (init_failure error)) g2)"

text \<open>
  The inner catch around \<^verbatim>\<open>ALTER TABLE mahasiswa ADD COLUMN fakultas TEXT\<close>: a line on
  the console, at a level chosen by the message, and nothing thrown.
\<close>

definition alter_failed :: "js_error \<Rightarrow> guard \<Rightarrow> guard" where
  "alter_failed alterError g =
    (if str_includes (message alterError) ''duplicate column name''
        \<or> str_includes (message alterError) ''already exists''
     then console_log [''Fakultas column already exists in mahasiswa table''] g
     else console_error [''Error ensuring fakultas column on mahasiswa table:''] g)"

text \<open>
  The closure \<open>p\<close> continues from its \<^verbatim>\<open>await\<close> with the outcome of the awaited call
  and runs to its next \<^verbatim>\<open>await\<close> or to its end.
\<close>

fun resume :: "pid \<Rightarrow> attempt \<Rightarrow> outcome \<Rightarrow> guard \<Rightarrow> guard" where
  "resume p AwaitOpen Resolves g =
     console_log [''Database opened successfully'', ''Creating mahasiswa table...'']
       (set_attempt p (AwaitCreateMahasiswa p) g)"
| "resume p AwaitOpen ResolvesNull g =
     enter_catch p None (JsError ''Failed to open database: database object is null'' None)
       (console_log [''Database opened successfully''] g)"
| "resume p AwaitOpen (Rejects error) g = enter_catch p None error g"
| "resume p (AwaitCreateMahasiswa h) (Rejects error) g = enter_catch p (Some h) error g"
| "resume p (AwaitCreateMahasiswa h) out g =
     console_log [''Mahasiswa table created'', ''Creating users table...'']
       (set_attempt p (AwaitCreateUsers h) g)"
| "resume p (AwaitCreateUsers h) (Rejects error) g = enter_catch p (Some h) error g"
| "resume p (AwaitCreateUsers h) out g =
     console_log [''Users table created'',
                  ''Ensuring fakultas column exists in mahasiswa table...'']
       (set_attempt p (AwaitAlter h) g)"
| "resume p (AwaitAlter h) (Rejects alterError) g =
     console_log [''Creating prodi table...'']
       (alter_failed alterError (set_attempt p (AwaitCreateProdi h) g))"
| "resume p (AwaitAlter h) out g =
     console_log [''Fakultas column added to mahasiswa table'', ''Creating prodi table...'']
       (set_attempt p (AwaitCreateProdi h) g)"
| "resume p (AwaitCreateProdi h) (Rejects error) g = enter_catch p (Some h) error g"
| "resume p (AwaitCreateProdi h) out g =
     console_log [''Prodi table created'', ''Creating fakultas table...'']
       (set_attempt p (AwaitCreateFakultas h) g)"
| "resume p (AwaitCreateFakultas h) (Rejects error) g = enter_catch p (Some h) error g"
| "resume p (AwaitCreateFakultas h) out g =
     console_log [''Database initialized successfully'']
       ((set_attempt p (Fulfilled h) (console_log [''Fakultas table created''] g))
          \<lparr>db := Some h\<rparr>)"
| "resume p (AwaitClose h error) (Rejects closeError) g =
     set_attempt p (Rejected (init_failure error))
       (console_error [''Error closing database:''] g)"
| "resume p (AwaitClose h error) out g =
     set_attempt p (Rejected (init_failure error))
       (console_log [''Database closed after error''] g)"
| "resume p (Fulfilled h) out g = g"
| "resume p (Rejected error) out g = g"

text \<open>The awaited call of closure \<open>p\<close> ends; a closure that does not exist is not resumed.\<close>

definition io_done :: "pid \<Rightarrow> outcome \<Rightarrow> guard \<Rightarrow> guard" where
  "io_done p out g = (if p < length (attempts g) then resume p (attempts g ! p) out g else g)"

text \<open>
  What a caller of \<^verbatim>\<open>initDatabase\<close> or \<^verbatim>\<open>getDatabase\<close> is left with when the
  synchronous part of the call has run: the handle itself, or a promise to await.
\<close>

datatype caller_wait = Immediate handle | Awaiting pid

text \<open>
  \<^verbatim>\<open>initDatabase\<close> up to its \<^verbatim>\<open>await\<close>. A new closure runs synchronously up to
  \<^verbatim>\<open>await SQLite.openDatabaseAsync('mahasiswa.db')\<close>, which the library answers in a
  later turn, so \<^verbatim>\<open>initPromise\<close> is assigned before the closure continues.
\<close>

definition call_initDatabase :: "guard \<Rightarrow> caller_wait \<times> guard" where
  "call_initDatabase g =
    (case initPromise g of
       Some p \<Rightarrow>
         (Awaiting p, console_log [''Database initialization already in progress, waiting...''] g)
     | None \<Rightarrow>
        (case db g of
           Some h \<Rightarrow> (Immediate h, console_log [''Database already initialized''] g)
         | None \<Rightarrow>
            (let p = length (attempts g);
                 g1 = console_log [''Opening database...''] g
             in (Awaiting p, g1\<lparr>attempts := attempts g1 @ [AwaitOpen], initPromise := Some p\<rparr>))))"

text \<open>
  \<^verbatim>\<open>getDatabase\<close> up to its \<^verbatim>\<open>await\<close>. The two null checks that follow in the
  source cannot fire: \<^verbatim>\<open>initDatabase\<close> fulfils with a handle that passed the check
  after the open call, and the second test repeats the first.
\<close>

definition call_getDatabase :: "guard \<Rightarrow> caller_wait \<times> guard" where
  "call_getDatabase g =
    (case db g of
       None \<Rightarrow> call_initDatabase (console_log [''Database not initialized, initializing now...''] g)
     | Some h \<Rightarrow> (Immediate h, g))"

text \<open>What a caller has received so far.\<close>

fun caller_result :: "guard \<Rightarrow> caller_wait \<Rightarrow> handle completion" where
  "caller_result g (Immediate h) = Returns h"
| "caller_result g (Awaiting p) =
     (if p < length (attempts g)
      then (case attempts g ! p of
              Fulfilled h \<Rightarrow> Returns h
            | Rejected error \<Rightarrow> Throws error
            | _ \<Rightarrow> Pending)
      else Pending)"

subsection \<open>Interleaved callers\<close>

text \<open>
  JavaScript runs one turn at a time: the synchronous part of a call, or the continuation
  of one closure after its awaited call has ended. A schedule is any sequence of such
  turns; the system state is the guard and what each caller, in order of arrival, waits
  for.
\<close>

datatype event = CallInitDatabase | CallGetDatabase | IoDone pid outcome

fun step :: "guard \<times> caller_wait list \<Rightarrow> event \<Rightarrow> guard \<times> caller_wait list" where
  "step (g, ws) CallInitDatabase = (case call_initDatabase g of (w, g') \<Rightarrow> (g', ws @ [w]))"
| "step (g, ws) CallGetDatabase = (case call_getDatabase g of (w, g') \<Rightarrow> (g', ws @ [w]))"
| "step (g, ws) (IoDone p out) = (io_done p out g, ws)"

definition run :: "event list \<Rightarrow> guard \<times> caller_wait list" where
  "run es = foldl step (uninitialized, []) es"

text \<open>A closure is in progress until it enters the catch block or returns.\<close>

fun in_progress :: "attempt \<Rightarrow> bool" where
  "in_progress AwaitOpen = True"
| "in_progress (AwaitCreateMahasiswa h) = True"
| "in_progress (AwaitCreateUsers h) = True"
| "in_progress (AwaitAlter h) = True"
| "in_progress (AwaitCreateProdi h) = True"
| "in_progress (AwaitCreateFakultas h) = True"
| "in_progress (AwaitClose h error) = False"
| "in_progress (Fulfilled h) = False"
| "in_progress (Rejected error) = False"

fun succeeded :: "attempt \<Rightarrow> bool" where
  "succeeded (Fulfilled h) = True"
| "succeeded a = False"

fun failed :: "attempt \<Rightarrow> bool" where
  "failed (AwaitClose h error) = True"
| "failed (Rejected error) = True"
| "failed a = False"

section \<open>The database file\<close>

text \<open>
  The objects of the TypeScript interfaces \<^verbatim>\<open>Mahasiswa\<close>, \<^verbatim>\<open>Prodi\<close>,
  \<^verbatim>\<open>Fakultas\<close> and \<^verbatim>\<open>User\<close>, which are also the rows that \<^verbatim>\<open>SELECT *\<close>
  returns (with the \<^verbatim>\<open>created_at\<close> column of every table). Field names carry the
  initial of the table. A field typed \<^verbatim>\<open>string | null\<close> or declared with \<^verbatim>\<open>?\<close> is an
  option, \<open>None\<close> standing for \<^verbatim>\<open>null\<close> and \<^verbatim>\<open>undefined\<close> alike and for SQL
  \<^verbatim>\<open>NULL\<close>. Every writing function takes its input without the id and never reads
  \<^verbatim>\<open>created_at\<close> from it, so both fields of an input are ignored. A \<^verbatim>\<open>number\<close> is
  an integer here.
\<close>

record Mahasiswa =
  m_id :: int
  m_nim :: string
  m_nama :: string
  m_jurusan :: string
  m_fakultas :: "string option"
  m_semester :: int
  m_email :: string
  m_created_at :: "string option"

record User =
  u_id :: int
  u_name :: string
  u_email :: string
  u_password :: string
  u_created_at :: "string option"

record Prodi =
  p_id :: int
  p_kode_prodi :: string
  p_nama_prodi :: string
  p_fakultas :: string
  p_akreditasi :: "string option"
  p_deskripsi :: "string option"
  p_created_at :: "string option"

record Fakultas =
  f_id :: int
  f_kode_fakultas :: string
  f_nama_fakultas :: string
  f_deskripsi :: "string option"
  f_created_at :: "string option"

text \<open>
  The four tables in rowid order, for each the largest rowid it ever held (the
  \<^verbatim>\<open>sqlite_sequence\<close> entry that \<^verbatim>\<open>AUTOINCREMENT\<close> keeps), and the value of
  \<^verbatim>\<open>CURRENT_TIMESTAMP\<close>.
\<close>

record store =
  mahasiswa_table :: "Mahasiswa list"
  mahasiswa_seq :: int
  users_table :: "User list"
  users_seq :: int
  prodi_table :: "Prodi list"
  prodi_seq :: int
  fakultas_table :: "Fakultas list"
  fakultas_seq :: int
  current_timestamp :: string

text \<open>
  \<^verbatim>\<open>INTEGER PRIMARY KEY AUTOINCREMENT\<close>: one more than the largest rowid that the
  table holds or ever held.
\<close>

definition next_rowid :: "int list \<Rightarrow> int \<Rightarrow> int" where
  "next_rowid ids sq = fold max ids sq + 1"

text \<open>The value of \<^verbatim>\<open>runAsync\<close>; the functions read \<^verbatim>\<open>lastInsertRowId\<close> only.\<close>

record run_result =
  lastInsertRowId :: int
  changes :: int

subsection \<open>Text comparison\<close>

text \<open>
  A character of the model is one of the 256 characters U+0000 to U+00FF, and a string a
  list of them, in the order of their code points. SQLite folds the 26 letters of ASCII
  and no other character when it compares for \<^verbatim>\<open>LIKE\<close>.
\<close>

definition ascii_lower :: "char \<Rightarrow> char" where
  "ascii_lower c =
     (case map_of (zip ''ABCDEFGHIJKLMNOPQRSTUVWXYZ'' ''abcdefghijklmnopqrstuvwxyz'') c of
        Some l \<Rightarrow> l
      | None \<Rightarrow> c)"

text \<open>
  \<^verbatim>\<open>String.prototype.toLowerCase\<close> follows the case mapping of Unicode. Among the
  characters of the model the capitals are the letters \<^verbatim>\<open>A\<close> to \<^verbatim>\<open>Z\<close> and the
  letters U+00C0 to U+00DE, the multiplication sign U+00D7 apart; each is mapped to the
  character 32 places after it, and every other character to itself.
\<close>

definition toLowerCase_char :: "char \<Rightarrow> char" where
  "toLowerCase_char c =
     (case map_of
             (zip (''ABCDEFGHIJKLMNOPQRSTUVWXYZ'' @
                   [CHR 0xC0, CHR 0xC1, CHR 0xC2, CHR 0xC3, CHR 0xC4, CHR 0xC5, CHR 0xC6,
                    CHR 0xC7, CHR 0xC8, CHR 0xC9, CHR 0xCA, CHR 0xCB, CHR 0xCC, CHR 0xCD,
                    CHR 0xCE, CHR 0xCF, CHR 0xD0, CHR 0xD1, CHR 0xD2, CHR 0xD3, CHR 0xD4,
                    CHR 0xD5, CHR 0xD6, CHR 0xD8, CHR 0xD9, CHR 0xDA, CHR 0xDB, CHR 0xDC,
                    CHR 0xDD, CHR 0xDE])
                  (''abcdefghijklmnopqrstuvwxyz'' @
                   [CHR 0xE0, CHR 0xE1, CHR 0xE2, CHR 0xE3, CHR 0xE4, CHR 0xE5, CHR 0xE6,
                    CHR 0xE7, CHR 0xE8, CHR 0xE9, CHR 0xEA, CHR 0xEB, CHR 0xEC, CHR 0xED,
                    CHR 0xEE, CHR 0xEF, CHR 0xF0, CHR 0xF1, CHR 0xF2, CHR 0xF3, CHR 0xF4,
                    CHR 0xF5, CHR 0xF6, CHR 0xF8, CHR 0xF9, CHR 0xFA, CHR 0xFB, CHR 0xFC,
                    CHR 0xFD, CHR 0xFE])) c of
        Some l \<Rightarrow> l
      | None \<Rightarrow> c)"

definition toLowerCase :: "string \<Rightarrow> string" where
  "toLowerCase s = map toLowerCase_char s"

text \<open>
  \<^verbatim>\<open>text LIKE pattern\<close> without an \<^verbatim>\<open>ESCAPE\<close> clause: \<^verbatim>\<open>%\<close> stands for any
  run of characters, \<^verbatim>\<open>_\<close> for any one character, every other character for itself
  up to the case of ASCII letters.
\<close>

fun sql_like :: "string \<Rightarrow> string \<Rightarrow> bool" where
  "sql_like [] [] = True"
| "sql_like (c # cs) [] = False"
| "sql_like [] (p # ps) = (p = CHR ''%'' \<and> sql_like [] ps)"
| "sql_like (c # cs) (p # ps) =
     (if p = CHR ''%'' then sql_like (c # cs) ps \<or> sql_like cs (p # ps)
      else if p = CHR ''_'' then sql_like cs ps
      else ascii_lower c = ascii_lower p \<and> sql_like cs ps)"

text \<open>A \<^verbatim>\<open>NULL\<close> column is not \<^verbatim>\<open>LIKE\<close> anything.\<close>

fun sql_like_nullable :: "string option \<Rightarrow> string \<Rightarrow> bool" where
  "sql_like_nullable None pattern = False"
| "sql_like_nullable (Some s) pattern = sql_like s pattern"

text \<open>The template literal \<^verbatim>\<open>`%${keyword}%`\<close>.\<close>

definition like_pattern :: "string \<Rightarrow> string" where
  "like_pattern keyword = ''%'' @ keyword @ ''%''"

text \<open>
  \<^verbatim>\<open>x ?? null\<close> replaces \<^verbatim>\<open>undefined\<close> by \<^verbatim>\<open>null\<close> and keeps every string;
  \<^verbatim>\<open>x || null\<close> also replaces the empty string.
\<close>

fun nullish_null :: "string option \<Rightarrow> string option" where
  "nullish_null None = None"
| "nullish_null (Some s) = Some s"

fun or_null :: "string option \<Rightarrow> string option" where
  "or_null None = None"
| "or_null (Some s) = (if s = [] then None else Some s)"

subsection \<open>Statements on \<^verbatim>\<open>mahasiswa\<close>\<close>

text \<open>
  Each statement of the source is a function of its bound parameters on the store. It
  fails with the engine's constraint error or yields its value and the new store.
  \<^verbatim>\<open>ORDER BY ... ASC\<close> compares text by code units; rows with equal keys stay in rowid
  order.
\<close>

definition sql_insert_mahasiswa ::
  "string \<Rightarrow> string \<Rightarrow> string \<Rightarrow> string option \<Rightarrow> int \<Rightarrow> string \<Rightarrow> store
     \<Rightarrow> js_error + run_result \<times> store" where
  "sql_insert_mahasiswa nim nama jurusan fak semester email s =
    (if list_ex (\<lambda>r. m_nim r = nim) (mahasiswa_table s)
     then Inl (JsError ''UNIQUE constraint failed: mahasiswa.nim'' None)
     else
       (let i = next_rowid (map m_id (mahasiswa_table s)) (mahasiswa_seq s);
            row = \<lparr>m_id = i, m_nim = nim, m_nama = nama, m_jurusan = jurusan,
                   m_fakultas = fak, m_semester = semester, m_email = email,
                   m_created_at = Some (current_timestamp s)\<rparr>
        in Inr (\<lparr>lastInsertRowId = i, changes = 1\<rparr>,
                s\<lparr>mahasiswa_table := mahasiswa_table s @ [row], mahasiswa_seq := i\<rparr>)))"

definition sql_select_mahasiswa_all :: "store \<Rightarrow> Mahasiswa list" where
  "sql_select_mahasiswa_all s = sort_key m_nama (mahasiswa_table s)"

definition sql_select_mahasiswa_by_id :: "int \<Rightarrow> store \<Rightarrow> Mahasiswa list" where
  "sql_select_mahasiswa_by_id i s = filter (\<lambda>r. m_id r = i) (mahasiswa_table s)"

definition sql_update_mahasiswa ::
  "string \<Rightarrow> string \<Rightarrow> string \<Rightarrow> string option \<Rightarrow> int \<Rightarrow> string \<Rightarrow> int \<Rightarrow> store
     \<Rightarrow> js_error + unit \<times> store" where
  "sql_update_mahasiswa nim nama jurusan fak semester email i s =
    (if list_ex (\<lambda>r. m_id r = i) (mahasiswa_table s)
        \<and> list_ex (\<lambda>r. m_id r \<noteq> i \<and> m_nim r = nim) (mahasiswa_table s)
     then Inl (JsError ''UNIQUE constraint failed: mahasiswa.nim'' None)
     else Inr ((), s\<lparr>mahasiswa_table :=
                   map (\<lambda>r. if m_id r = i
                             then r\<lparr>m_nim := nim, m_nama := nama, m_jurusan := jurusan,
                                    m_fakultas := fak, m_semester := semester,
                                    m_email := email\<rparr>
                             else r) (mahasiswa_table s)\<rparr>))"

definition sql_delete_mahasiswa :: "int \<Rightarrow> store \<Rightarrow> js_error + unit \<times> store" where
  "sql_delete_mahasiswa i s =
     Inr ((), s\<lparr>mahasiswa_table := filter (\<lambda>r. m_id r \<noteq> i) (mahasiswa_table s)\<rparr>)"

definition sql_search_mahasiswa ::
  "string \<Rightarrow> string \<Rightarrow> string \<Rightarrow> string \<Rightarrow> string \<Rightarrow> store \<Rightarrow> Mahasiswa list" where
  "sql_search_mahasiswa p1 p2 p3 p4 p5 s =
     sort_key m_nama
       (filter (\<lambda>r. sql_like (m_nama r) p1 \<or> sql_like (m_nim r) p2
                     \<or> sql_like (m_jurusan r) p3 \<or> sql_like_nullable (m_fakultas r) p4
                     \<or> sql_like (m_email r) p5)
          (mahasiswa_table s))"

subsection \<open>Statements on \<^verbatim>\<open>users\<close>\<close>

definition sql_insert_user ::
  "string \<Rightarrow> string \<Rightarrow> string \<Rightarrow> store \<Rightarrow> js_error + run_result \<times> store" where
  "sql_insert_user name email password s =
    (if list_ex (\<lambda>r. u_email r = email) (users_table s)
     then Inl (JsError ''UNIQUE constraint failed: users.email'' None)
     else
       (let i = next_rowid (map u_id (users_table s)) (users_seq s);
            row = \<lparr>u_id = i, u_name = name, u_email = email, u_password = password,
                   u_created_at = Some (current_timestamp s)\<rparr>
        in Inr (\<lparr>lastInsertRowId = i, changes = 1\<rparr>,
                s\<lparr>users_table := users_table s @ [row], users_seq := i\<rparr>)))"

definition sql_select_user_by_email :: "string \<Rightarrow> store \<Rightarrow> User list" where
  "sql_select_user_by_email email s = filter (\<lambda>r. u_email r = email) (users_table s)"

definition sql_delete_user :: "int \<Rightarrow> store \<Rightarrow> js_error + unit \<times> store" where
  "sql_delete_user i s = Inr ((), s\<lparr>users_table := filter (\<lambda>r. u_id r \<noteq> i) (users_table s)\<rparr>)"

subsection \<open>Statements on \<^verbatim>\<open>prodi\<close>\<close>

definition sql_insert_prodi ::
  "string \<Rightarrow> string \<Rightarrow> string \<Rightarrow> string option \<Rightarrow> string option \<Rightarrow> store
     \<Rightarrow> js_error + run_result \<times> store" where
  "sql_insert_prodi kode nama fak akreditasi deskripsi s =
    (if list_ex (\<lambda>r. p_kode_prodi r = kode) (prodi_table s)
     then Inl (JsError ''UNIQUE constraint failed: prodi.kode_prodi'' None)
     else
       (let i = next_rowid (map p_id (prodi_table s)) (prodi_seq s);
            row = \<lparr>p_id = i, p_kode_prodi = kode, p_nama_prodi = nama, p_fakultas = fak,
                   p_akreditasi = akreditasi, p_deskripsi = deskripsi,
                   p_created_at = Some (current_timestamp s)\<rparr>
        in Inr (\<lparr>lastInsertRowId = i, changes = 1\<rparr>,
                s\<lparr>prodi_table := prodi_table s @ [row], prodi_seq := i\<rparr>)))"

definition sql_select_prodi_all :: "store \<Rightarrow> Prodi list" where
  "sql_select_prodi_all s = sort_key p_nama_prodi (prodi_table s)"

definition sql_select_prodi_by_id :: "int \<Rightarrow> store \<Rightarrow> Prodi list" where
  "sql_select_prodi_by_id i s = filter (\<lambda>r. p_id r = i) (prodi_table s)"

definition sql_update_prodi ::
  "string \<Rightarrow> string \<Rightarrow> string \<Rightarrow> string option \<Rightarrow> string option \<Rightarrow> int \<Rightarrow> store
     \<Rightarrow> js_error + unit \<times> store" where
  "sql_update_prodi kode nama fak akreditasi deskripsi i s =
    (if list_ex (\<lambda>r. p_id r = i) (prodi_table s)
        \<and> list_ex (\<lambda>r. p_id r \<noteq> i \<and> p_kode_prodi r = kode) (prodi_table s)
     then Inl (JsError ''UNIQUE constraint failed: prodi.kode_prodi'' None)
     else Inr ((), s\<lparr>prodi_table :=
                   map (\<lambda>r. if p_id r = i
                             then r\<lparr>p_kode_prodi := kode, p_nama_prodi := nama,
                                    p_fakultas := fak, p_akreditasi := akreditasi,
                                    p_deskripsi := deskripsi\<rparr>
                             else r) (prodi_table s)\<rparr>))"

definition sql_delete_prodi :: "int \<Rightarrow> store \<Rightarrow> js_error + unit \<times> store" where
  "sql_delete_prodi i s = Inr ((), s\<lparr>prodi_table := filter (\<lambda>r. p_id r \<noteq> i) (prodi_table s)\<rparr>)"

definition sql_search_prodi ::
  "string \<Rightarrow> string \<Rightarrow> string \<Rightarrow> string \<Rightarrow> store \<Rightarrow> Prodi list" where
  "sql_search_prodi p1 p2 p3 p4 s =
     sort_key p_nama_prodi
       (filter (\<lambda>r. sql_like (p_nama_prodi r) p1 \<or> sql_like (p_kode_prodi r) p2
                     \<or> sql_like (p_fakultas r) p3 \<or> sql_like_nullable (p_akreditasi r) p4)
          (prodi_table s))"

subsection \<open>Statements on \<^verbatim>\<open>fakultas\<close>\<close>

definition sql_insert_fakultas ::
  "string \<Rightarrow> string \<Rightarrow> string option \<Rightarrow> store \<Rightarrow> js_error + run_result \<times> store" where
  "sql_insert_fakultas kode nama deskripsi s =
    (if list_ex (\<lambda>r. f_kode_fakultas r = kode) (fakultas_table s)
     then Inl (JsError ''UNIQUE constraint failed: fakultas.kode_fakultas'' None)
     else
       (let i = next_rowid (map f_id (fakultas_table s)) (fakultas_seq s);
            row = \<lparr>f_id = i, f_kode_fakultas = kode, f_nama_fakultas = nama,
                   f_deskripsi = deskripsi, f_created_at = Some (current_timestamp s)\<rparr>
        in Inr (\<lparr>lastInsertRowId = i, changes = 1\<rparr>,
                s\<lparr>fakultas_table := fakultas_table s @ [row], fakultas_seq := i\<rparr>)))"

definition sql_select_fakultas_all :: "store \<Rightarrow> Fakultas list" where
  "sql_select_fakultas_all s = sort_key f_nama_fakultas (fakultas_table s)"

definition sql_select_fakultas_by_id :: "int \<Rightarrow> store \<Rightarrow> Fakultas list" where
  "sql_select_fakultas_by_id i s = filter (\<lambda>r. f_id r = i) (fakultas_table s)"

definition sql_update_fakultas ::
  "string \<Rightarrow> string \<Rightarrow> string option \<Rightarrow> int \<Rightarrow> store \<Rightarrow> js_error + unit \<times> store" where
  "sql_update_fakultas kode nama deskripsi i s =
    (if list_ex (\<lambda>r. f_id r = i) (fakultas_table s)
        \<and> list_ex (\<lambda>r. f_id r \<noteq> i \<and> f_kode_fakultas r = kode) (fakultas_table s)
     then Inl (JsError ''UNIQUE constraint failed: fakultas.kode_fakultas'' None)
     else Inr ((), s\<lparr>fakultas_table :=
                   map (\<lambda>r. if f_id r = i
                             then r\<lparr>f_kode_fakultas := kode, f_nama_fakultas := nama,
                                    f_deskripsi := deskripsi\<rparr>
                             else r) (fakultas_table s)\<rparr>))"

definition sql_delete_fakultas :: "int \<Rightarrow> store \<Rightarrow> js_error + unit \<times> store" where
  "sql_delete_fakultas i s =
     Inr ((), s\<lparr>fakultas_table := filter (\<lambda>r. f_id r \<noteq> i) (fakultas_table s)\<rparr>)"

definition sql_search_fakultas :: "string \<Rightarrow> string \<Rightarrow> string \<Rightarrow> store \<Rightarrow> Fakultas list" where
  "sql_search_fakultas p1 p2 p3 s =
     sort_key f_nama_fakultas
       (filter (\<lambda>r. sql_like (f_nama_fakultas r) p1 \<or> sql_like (f_kode_fakultas r) p2
                     \<or> sql_like_nullable (f_deskripsi r) p3)
          (fakultas_table s))"

section \<open>Asynchronous functions run one after another\<close>

text \<open>
  The world of a call that runs alone: the guard, the store, and the outcomes that the
  storage library will give to the awaited calls, in the order in which they are issued.
  A call that finds no outcome left is never answered.
\<close>

record world =
  guard :: guard
  store :: store
  tape :: "outcome list"

type_synonym 'a prog = "world \<Rightarrow> 'a completion \<times> world"

definition return :: "'a \<Rightarrow> 'a prog" where
  "return a w = (Returns a, w)"

definition throw :: "js_error \<Rightarrow> 'a prog" where
  "throw error w = (Throws error, w)"

text \<open>\<^verbatim>\<open>const x = await m; k(x)\<close>\<close>

definition await :: "'a prog \<Rightarrow> ('a \<Rightarrow> 'b prog) \<Rightarrow> 'b prog" where
  "await m k w =
     (case m w of
        (Returns a, w') \<Rightarrow> k a w'
      | (Throws error, w') \<Rightarrow> (Throws error, w')
      | (Pending, w') \<Rightarrow> (Pending, w'))"

text \<open>\<^verbatim>\<open>try { body } catch (error) { handler(error) }\<close>\<close>

definition try_catch :: "'a prog \<Rightarrow> (js_error \<Rightarrow> 'a prog) \<Rightarrow> 'a prog" where
  "try_catch body handler w =
     (case body w of
        (Throws error, w') \<Rightarrow> handler error w'
      | r \<Rightarrow> r)"

definition console_error_line :: "string \<Rightarrow> unit prog" where
  "console_error_line l w = (Returns (), w\<lparr>guard := console_error [l] (guard w)\<rparr>)"

definition console_log_line :: "string \<Rightarrow> unit prog" where
  "console_log_line l w = (Returns (), w\<lparr>guard := console_log [l] (guard w)\<rparr>)"

text \<open>
  The closure \<open>p\<close> is given the outcomes of its awaited calls until its promise is
  settled.
\<close>

fun drive :: "pid \<Rightarrow> outcome list \<Rightarrow> guard \<Rightarrow> outcome list \<times> guard" where
  "drive p [] g = ([], g)"
| "drive p (out # outs) g =
     (if caller_result g (Awaiting p) = Pending then drive p outs (io_done p out g)
      else (out # outs, g))"

definition await_caller :: "caller_wait \<Rightarrow> handle prog" where
  "await_caller cw w =
     (case cw of
        Immediate h \<Rightarrow> (Returns h, w)
      | Awaiting p \<Rightarrow>
          (case drive p (tape w) (guard w) of
             (outs, g) \<Rightarrow> (caller_result g cw, w\<lparr>guard := g, tape := outs\<rparr>)))"

definition initDatabase :: "handle prog" where
  "initDatabase w =
     (case call_initDatabase (guard w) of (cw, g) \<Rightarrow> await_caller cw (w\<lparr>guard := g\<rparr>))"

definition getDatabase :: "handle prog" where
  "getDatabase w =
     (case call_getDatabase (guard w) of (cw, g) \<Rightarrow> await_caller cw (w\<lparr>guard := g\<rparr>))"

text \<open>
  A statement sent through a handle: the library rejects it with a fault of its own, or
  the engine executes it on the store.
\<close>

definition execute :: "handle \<Rightarrow> (store \<Rightarrow> js_error + 'a \<times> store) \<Rightarrow> 'a prog" where
  "execute database statement w =
     (case tape w of
        [] \<Rightarrow> (Pending, w)
      | Rejects error # outs \<Rightarrow> (Throws error, w\<lparr>tape := outs\<rparr>)
      | out # outs \<Rightarrow>
          (case statement (store w) of
             Inl error \<Rightarrow> (Throws error, w\<lparr>tape := outs\<rparr>)
           | Inr (a, s) \<Rightarrow> (Returns a, w\<lparr>store := s, tape := outs\<rparr>)))"

definition runAsync :: "handle \<Rightarrow> (store \<Rightarrow> js_error + 'a \<times> store) \<Rightarrow> 'a prog" where
  "runAsync database statement = execute database statement"

definition getAllAsync :: "handle \<Rightarrow> (store \<Rightarrow> 'r list) \<Rightarrow> 'r list prog" where
  "getAllAsync database query = execute database (\<lambda>s. Inr (query s, s))"

definition getFirstAsync :: "handle \<Rightarrow> (store \<Rightarrow> 'r list) \<Rightarrow> 'r option prog" where
  "getFirstAsync database query =
     execute database (\<lambda>s. Inr (case query s of [] \<Rightarrow> None | r # rs \<Rightarrow> Some r, s))"

text \<open>
  A recent-rows query for \<^verbatim>\<open>getRecentMahasiswa\<close>:
  \<^verbatim>\<open>ORDER BY datetime(created_at) DESC LIMIT ?\<close>. The timestamps are values of
  \<^verbatim>\<open>CURRENT_TIMESTAMP\<close>, which \<^verbatim>\<open>datetime\<close> leaves as they are and whose text
  order is their order in time; \<^verbatim>\<open>NULL\<close> sorts below every timestamp, and a negative
  limit is no limit.
\<close>

definition sql_select_mahasiswa_recent :: "int \<Rightarrow> store \<Rightarrow> Mahasiswa list" where
  "sql_select_mahasiswa_recent limit s =
     (let newest_first =
            rev (sort_key (\<lambda>r. case m_created_at r of None \<Rightarrow> [] | Some t \<Rightarrow> t)
                   (rev (mahasiswa_table s)))
      in if limit < 0 then newest_first else take (nat limit) newest_first)"

section \<open>The data-access functions\<close>

text \<open>
  Every function is the source's \<^verbatim>\<open>try\<close> block and its \<^verbatim>\<open>catch\<close> block. Where
  the source returns \<^verbatim>\<open>result || null\<close> the option is returned as it is.
\<close>

subsection \<open>Mahasiswa\<close>

definition addMahasiswa :: "Mahasiswa \<Rightarrow> int prog" where
  "addMahasiswa mahasiswa =
     try_catch
       (await getDatabase (\<lambda>database.
        await (runAsync database
                 (sql_insert_mahasiswa (m_nim mahasiswa) (m_nama mahasiswa)
                    (m_jurusan mahasiswa) (nullish_null (m_fakultas mahasiswa))
                    (m_semester mahasiswa) (m_email mahasiswa))) (\<lambda>result.
        return (lastInsertRowId result))))
       (\<lambda>error. await (console_error_line ''Error adding mahasiswa:'') (\<lambda>u. throw error))"

definition getAllMahasiswa :: "Mahasiswa list prog" where
  "getAllMahasiswa =
     try_catch
       (await getDatabase (\<lambda>database.
        await (getAllAsync database sql_select_mahasiswa_all) (\<lambda>result.
        return result)))
       (\<lambda>error. await (console_error_line ''Error getting all mahasiswa:'') (\<lambda>u. throw error))"

definition getMahasiswaById :: "int \<Rightarrow> Mahasiswa option prog" where
  "getMahasiswaById i =
     try_catch
       (await getDatabase (\<lambda>database.
        await (getFirstAsync database (sql_select_mahasiswa_by_id i)) (\<lambda>result.
        return result)))
       (\<lambda>error. await (console_error_line ''Error getting mahasiswa by id:'') (\<lambda>u. throw error))"

definition updateMahasiswa :: "int \<Rightarrow> Mahasiswa \<Rightarrow> unit prog" where
  "updateMahasiswa i mahasiswa =
     try_catch
       (await getDatabase (\<lambda>database.
        await (runAsync database
                 (sql_update_mahasiswa (m_nim mahasiswa) (m_nama mahasiswa)
                    (m_jurusan mahasiswa) (nullish_null (m_fakultas mahasiswa))
                    (m_semester mahasiswa) (m_email mahasiswa) i)) (\<lambda>result.
        return ())))
       (\<lambda>error. await (console_error_line ''Error updating mahasiswa:'') (\<lambda>u. throw error))"

definition deleteMahasiswa :: "int \<Rightarrow> unit prog" where
  "deleteMahasiswa i =
     try_catch
       (await getDatabase (\<lambda>database.
        await (runAsync database (sql_delete_mahasiswa i)) (\<lambda>result.
        return ())))
       (\<lambda>error. await (console_error_line ''Error deleting mahasiswa:'') (\<lambda>u. throw error))"

definition searchMahasiswa :: "string \<Rightarrow> Mahasiswa list prog" where
  "searchMahasiswa keyword =
     try_catch
       (await getDatabase (\<lambda>database.
        await (getAllAsync database
                 (sql_search_mahasiswa (like_pattern keyword) (like_pattern keyword)
                    (like_pattern keyword) (like_pattern keyword) (like_pattern keyword)))
          (\<lambda>result.
        return result)))
       (\<lambda>error. await (console_error_line ''Error searching mahasiswa:'') (\<lambda>u. throw error))"

definition getRecentMahasiswa :: "int \<Rightarrow> Mahasiswa list prog" where
  "getRecentMahasiswa limit =
     try_catch
       (await getDatabase (\<lambda>database.
        await (getAllAsync database (sql_select_mahasiswa_recent limit)) (\<lambda>result.
        return result)))
       (\<lambda>error. await (console_error_line ''Error getting recent mahasiswa:'') (\<lambda>u. throw error))"

subsection \<open>Users\<close>

definition addUser :: "User \<Rightarrow> int prog" where
  "addUser user =
     try_catch
       (await getDatabase (\<lambda>database.
        await (runAsync database
                 (sql_insert_user (u_name user) (toLowerCase (u_email user)) (u_password user)))
          (\<lambda>result.
        return (lastInsertRowId result))))
       (\<lambda>error. await (console_error_line ''Error adding user:'') (\<lambda>u. throw error))"

definition getUserByEmail :: "string \<Rightarrow> User option prog" where
  "getUserByEmail email =
     try_catch
       (await getDatabase (\<lambda>database.
        await (getFirstAsync database (sql_select_user_by_email (toLowerCase email)))
          (\<lambda>result.
        return result)))
       (\<lambda>error. await (console_error_line ''Error getting user by email:'') (\<lambda>u. throw error))"

definition authenticateUser :: "string \<Rightarrow> string \<Rightarrow> User option prog" where
  "authenticateUser email password =
     try_catch
       (await (getUserByEmail email) (\<lambda>found.
        case found of
          None \<Rightarrow> return None
        | Some user \<Rightarrow> return (if u_password user = password then Some user else None)))
       (\<lambda>error. await (console_error_line ''Error authenticating user:'') (\<lambda>u. throw error))"

definition deleteUser :: "int \<Rightarrow> unit prog" where
  "deleteUser i =
     try_catch
       (await getDatabase (\<lambda>database.
        await (runAsync database (sql_delete_user i)) (\<lambda>result.
        return ())))
       (\<lambda>error. await (console_error_line ''Error deleting user:'') (\<lambda>u. throw error))"

subsection \<open>Prodi\<close>

text \<open>
  The error that \<^verbatim>\<open>addProdi\<close> and \<^verbatim>\<open>addFakultas\<close> throw: a new object whose
  message is a prefix and \<^verbatim>\<open>error?.message || error?.toString() || 'Unknown error'\<close>,
  with the caught error attached. The test \<^verbatim>\<open>if (!database)\<close> after
  \<^verbatim>\<open>getDatabase\<close> cannot fire and is left out.
\<close>

definition formattedError :: "string \<Rightarrow> js_error \<Rightarrow> js_error" where
  "formattedError prefix error = JsError (prefix @ errorMsg error) (Some error)"

definition addProdi :: "Prodi \<Rightarrow> int prog" where
  "addProdi prodi =
     try_catch
       (await (console_log_line ''Getting database in addProdi...'') (\<lambda>u.
        await getDatabase (\<lambda>database.
        await (console_log_line ''Database object retrieved, inserting prodi data...'') (\<lambda>u.
        await (console_log_line ''Prodi data:'') (\<lambda>u.
        await (runAsync database
                 (sql_insert_prodi (p_kode_prodi prodi) (p_nama_prodi prodi)
                    (p_fakultas prodi) (or_null (p_akreditasi prodi))
                    (or_null (p_deskripsi prodi)))) (\<lambda>result.
        await (console_log_line ''Prodi added successfully with ID:'') (\<lambda>u.
        return (lastInsertRowId result))))))))
       (\<lambda>error. await (console_error_line ''Error adding prodi:'') (\<lambda>u.
                 throw (formattedError ''Failed to add prodi: '' error)))"

definition getAllProdi :: "Prodi list prog" where
  "getAllProdi =
     try_catch
       (await getDatabase (\<lambda>database.
        await (getAllAsync database sql_select_prodi_all) (\<lambda>result.
        return result)))
       (\<lambda>error. await (console_error_line ''Error getting all prodi:'') (\<lambda>u. throw error))"

definition getProdiById :: "int \<Rightarrow> Prodi option prog" where
  "getProdiById i =
     try_catch
       (await getDatabase (\<lambda>database.
        await (getFirstAsync database (sql_select_prodi_by_id i)) (\<lambda>result.
        return result)))
       (\<lambda>error. await (console_error_line ''Error getting prodi by id:'') (\<lambda>u. throw error))"

definition updateProdi :: "int \<Rightarrow> Prodi \<Rightarrow> unit prog" where
  "updateProdi i prodi =
     try_catch
       (await getDatabase (\<lambda>database.
        await (runAsync database
                 (sql_update_prodi (p_kode_prodi prodi) (p_nama_prodi prodi)
                    (p_fakultas prodi) (or_null (p_akreditasi prodi))
                    (or_null (p_deskripsi prodi)) i)) (\<lambda>result.
        return ())))
       (\<lambda>error. await (console_error_line ''Error updating prodi:'') (\<lambda>u. throw error))"

definition deleteProdi :: "int \<Rightarrow> unit prog" where
  "deleteProdi i =
     try_catch
       (await getDatabase (\<lambda>database.
        await (runAsync database (sql_delete_prodi i)) (\<lambda>result.
        return ())))
       (\<lambda>error. await (console_error_line ''Error deleting prodi:'') (\<lambda>u. throw error))"

definition searchProdi :: "string \<Rightarrow> Prodi list prog" where
  "searchProdi keyword =
     try_catch
       (await getDatabase (\<lambda>database.
        await (getAllAsync database
                 (sql_search_prodi (like_pattern keyword) (like_pattern keyword)
                    (like_pattern keyword) (like_pattern keyword))) (\<lambda>result.
        return result)))
       (\<lambda>error. await (console_error_line ''Error searching prodi:'') (\<lambda>u. throw error))"

subsection \<open>Fakultas\<close>

definition addFakultas :: "Fakultas \<Rightarrow> int prog" where
  "addFakultas fakultas =
     try_catch
       (await (console_log_line ''Getting database in addFakultas...'') (\<lambda>u.
        await getDatabase (\<lambda>database.
        await (console_log_line ''Database object retrieved, inserting fakultas data...'') (\<lambda>u.
        await (console_log_line ''Fakultas data:'') (\<lambda>u.
        await (runAsync database
                 (sql_insert_fakultas (f_kode_fakultas fakultas)
                    (f_nama_fakultas fakultas) (or_null (f_deskripsi fakultas))))
          (\<lambda>result.
        await (console_log_line ''Fakultas added successfully with ID:'') (\<lambda>u.
        return (lastInsertRowId result))))))))
       (\<lambda>error. await (console_error_line ''Error adding fakultas:'') (\<lambda>u.
                 throw (formattedError ''Failed to add fakultas: '' error)))"

definition getAllFakultas :: "Fakultas list prog" where
  "getAllFakultas =
     try_catch
       (await getDatabase (\<lambda>database.
        await (getAllAsync database sql_select_fakultas_all) (\<lambda>result.
        return result)))
       (\<lambda>error. await (console_error_line ''Error getting all fakultas:'') (\<lambda>u. throw error))"

definition getFakultasById :: "int \<Rightarrow> Fakultas option prog" where
  "getFakultasById i =
     try_catch
       (await getDatabase (\<lambda>database.
        await (getFirstAsync database (sql_select_fakultas_by_id i)) (\<lambda>result.
        return result)))
       (\<lambda>error. await (console_error_line ''Error getting fakultas by id:'') (\<lambda>u. throw error))"

definition updateFakultas :: "int \<Rightarrow> Fakultas \<Rightarrow> unit prog" where
  "updateFakultas i fakultas =
     try_catch
       (await getDatabase (\<lambda>database.
        await (runAsync database
                 (sql_update_fakultas (f_kode_fakultas fakultas)
                    (f_nama_fakultas fakultas) (or_null (f_deskripsi fakultas)) i))
          (\<lambda>result.
        return ())))
       (\<lambda>error. await (console_error_line ''Error updating fakultas:'') (\<lambda>u. throw error))"

definition deleteFakultas :: "int \<Rightarrow> unit prog" where
  "deleteFakultas i =
     try_catch
       (await getDatabase (\<lambda>database.
        await (runAsync database (sql_delete_fakultas i)) (\<lambda>result.
        return ())))
       (\<lambda>error. await (console_error_line ''Error deleting fakultas:'') (\<lambda>u. throw error))"

definition searchFakultas :: "string \<Rightarrow> Fakultas list prog" where
  "searchFakultas keyword =
     try_catch
       (await getDatabase (\<lambda>database.
        await (getAllAsync database
                 (sql_search_fakultas (like_pattern keyword) (like_pattern keyword)
                    (like_pattern keyword))) (\<lambda>result.
        return result)))
       (\<lambda>error. await (console_error_line ''Error searching fakultas:'') (\<lambda>u. throw error))"

section \<open>Example states\<close>

text \<open>
  A guard after one successful initialisation, a store with a few rows in each table (the
  students and programs not in name order), and a world in which the library answers the
  next two statements.
\<close>

definition example_guard :: guard where
  "example_guard = \<lparr>db = Some 0, initPromise = Some 0, attempts = [Fulfilled 0], console = []\<rparr>"

definition example_user :: User where
  "example_user = \<lparr>u_id = 1, u_name = ''A'', u_email = ''a@x.com'', u_password = ''p'',
                    u_created_at = Some ''2024-01-01 08:00:00''\<rparr>"

definition example_siti :: Mahasiswa where
  "example_siti =
     \<lparr>m_id = 1, m_nim = ''2301'', m_nama = ''Siti'', m_jurusan = ''Informatika'',
      m_fakultas = Some ''Teknik'', m_semester = 3, m_email = ''siti@kampus.ac.id'',
      m_created_at = Some ''2024-01-01 08:00:00''\<rparr>"

definition example_budi :: Mahasiswa where
  "example_budi =
     \<lparr>m_id = 2, m_nim = ''2302'', m_nama = ''Budi'', m_jurusan = ''Hukum'',
      m_fakultas = None, m_semester = 5, m_email = ''budi@kampus.ac.id'',
      m_created_at = Some ''2024-01-02 08:00:00''\<rparr>"

definition example_prodi_ti :: Prodi where
  "example_prodi_ti =
     \<lparr>p_id = 1, p_kode_prodi = ''TI'', p_nama_prodi = ''Teknik Informatika'',
      p_fakultas = ''Teknik'', p_akreditasi = Some ''A'', p_deskripsi = None,
      p_created_at = Some ''2024-01-01 08:00:00''\<rparr>"

definition example_prodi_hk :: Prodi where
  "example_prodi_hk =
     \<lparr>p_id = 2, p_kode_prodi = ''HK'', p_nama_prodi = ''Hukum'', p_fakultas = ''Hukum'',
      p_akreditasi = None, p_deskripsi = None, p_created_at = Some ''2024-01-02 08:00:00''\<rparr>"

definition example_fakultas_ft :: Fakultas where
  "example_fakultas_ft =
     \<lparr>f_id = 1, f_kode_fakultas = ''FT'', f_nama_fakultas = ''Teknik'', f_deskripsi = None,
      f_created_at = Some ''2024-01-01 08:00:00''\<rparr>"

definition example_fakultas_fh :: Fakultas where
  "example_fakultas_fh =
     \<lparr>f_id = 2, f_kode_fakultas = ''FH'', f_nama_fakultas = ''Hukum'',
      f_deskripsi = Some ''Ilmu hukum'', f_created_at = Some ''2024-01-02 08:00:00''\<rparr>"

definition example_store :: store where
  "example_store =
    \<lparr>mahasiswa_table = [example_siti, example_budi],
     mahasiswa_seq = 2,
     users_table = [example_user],
     users_seq = 1,
     prodi_table = [example_prodi_ti, example_prodi_hk],
     prodi_seq = 2,
     fakultas_table = [example_fakultas_ft, example_fakultas_fh],
     fakultas_seq = 2,
     current_timestamp = ''2024-02-01 09:30:00''\<rparr>"

definition example_world :: world where
  "example_world = \<lparr>guard = example_guard, store = example_store, tape = [Resolves, Resolves]\<rparr>"

text \<open>
  The same connection with a second user, whose email begins with the letter U+00E9
  (e with acute accent).
\<close>

definition example_accent_user :: User where
  "example_accent_user =
     \<lparr>u_id = 2, u_name = ''E'', u_email = CHR 0xE9 # ''cole@x.com'', u_password = ''q'',
      u_created_at = Some ''2024-01-02 08:00:00''\<rparr>"

definition example_accent_world :: world where
  "example_accent_world =
     \<lparr>guard = example_guard,
      store = example_store\<lparr>users_table := [example_user, example_accent_user]\<rparr>,
      tape = [Resolves, Resolves]\<rparr>"

text \<open>Inputs of the writing functions; their id and timestamp are not read.\<close>

definition example_new_mahasiswa :: Mahasiswa where
  "example_new_mahasiswa =
     \<lparr>m_id = 0, m_nim = ''2303'', m_nama = ''Agus'', m_jurusan = ''Informatika'',
      m_fakultas = None, m_semester = 1, m_email = ''agus@kampus.ac.id'',
      m_created_at = None\<rparr>"

definition example_blank_mahasiswa :: Mahasiswa where
  "example_blank_mahasiswa =
     \<lparr>m_id = 0, m_nim = ''2304'', m_nama = ''Dewi'', m_jurusan = ''Hukum'',
      m_fakultas = Some [], m_semester = 1, m_email = ''dewi@kampus.ac.id'',
      m_created_at = None\<rparr>"

definition example_new_prodi :: Prodi where
  "example_new_prodi =
     \<lparr>p_id = 0, p_kode_prodi = ''MI'', p_nama_prodi = ''Manajemen Informatika'',
      p_fakultas = ''Teknik'', p_akreditasi = Some ''B'', p_deskripsi = None,
      p_created_at = None\<rparr>"

definition example_blank_prodi :: Prodi where
  "example_blank_prodi =
     \<lparr>p_id = 0, p_kode_prodi = ''SI'', p_nama_prodi = ''Sistem Informasi'',
      p_fakultas = ''Teknik'', p_akreditasi = Some [], p_deskripsi = Some ''Baru'',
      p_created_at = None\<rparr>"

definition example_new_fakultas :: Fakultas where
  "example_new_fakultas =
     \<lparr>f_id = 0, f_kode_fakultas = ''FE'', f_nama_fakultas = ''Ekonomi'',
      f_deskripsi = None, f_created_at = None\<rparr>"

section \<open>Vocabulary of the search claims\<close>














section \<open>Vocabulary of the guard claims\<close>

text \<open>The value of the local variable \<^verbatim>\<open>database\<close> of a closure.\<close>

fun handle_of :: "attempt \<Rightarrow> handle option" where
  "handle_of AwaitOpen = None"
| "handle_of (AwaitCreateMahasiswa h) = Some h"
| "handle_of (AwaitCreateUsers h) = Some h"
| "handle_of (AwaitAlter h) = Some h"
| "handle_of (AwaitCreateProdi h) = Some h"
| "handle_of (AwaitCreateFakultas h) = Some h"
| "handle_of (AwaitClose h error) = Some h"
| "handle_of (Fulfilled h) = Some h"
| "handle_of (Rejected error) = None"

text \<open>
  The error that reaches the outer catch block when the awaited call of a closure ends
  with the given outcome: every rejection except that of the \<^verbatim>\<open>ALTER TABLE\<close>
  statement, and a \<^verbatim>\<open>null\<close> handle from the open call.
\<close>

fun fatal_failure :: "attempt \<Rightarrow> outcome \<Rightarrow> js_error option" where
  "fatal_failure AwaitOpen ResolvesNull =
     Some (JsError ''Failed to open database: database object is null'' None)"
| "fatal_failure AwaitOpen (Rejects error) = Some error"
| "fatal_failure (AwaitCreateMahasiswa h) (Rejects error) = Some error"
| "fatal_failure (AwaitCreateUsers h) (Rejects error) = Some error"
| "fatal_failure (AwaitCreateProdi h) (Rejects error) = Some error"
| "fatal_failure (AwaitCreateFakultas h) (Rejects error) = Some error"
| "fatal_failure a out = None"

text \<open>
  What holds of the guard in every state that a schedule reaches: a closure in progress
  is the one \<^verbatim>\<open>initPromise\<close> names and \<^verbatim>\<open>db\<close> is unset; a closure that returned
  is the one \<^verbatim>\<open>initPromise\<close> names and \<^verbatim>\<open>db\<close> holds its handle; every closure
  holds the handle of its own open call; \<^verbatim>\<open>initPromise\<close> names no closure that
  failed; and every caller waits for a closure that exists or holds the handle of one
  that returned.
\<close>

definition guard_inv :: "guard \<Rightarrow> bool" where
  "guard_inv g =
     ((\<forall>p < length (attempts g).
         (in_progress (attempts g ! p) \<longrightarrow> initPromise g = Some p \<and> db g = None)
       \<and> (succeeded (attempts g ! p) \<longrightarrow> initPromise g = Some p \<and> db g = Some p)
       \<and> (\<forall>h. handle_of (attempts g ! p) = Some h \<longrightarrow> h = p))
    \<and> (\<forall>p. initPromise g = Some p \<longrightarrow> p < length (attempts g) \<and> \<not> failed (attempts g ! p))
    \<and> (\<forall>h. db g = Some h \<longrightarrow> h < length (attempts g) \<and> attempts g ! h = Fulfilled h))"

fun wait_inv :: "guard \<Rightarrow> caller_wait \<Rightarrow> bool" where
  "wait_inv g (Immediate h) = (h < length (attempts g) \<and> attempts g ! h = Fulfilled h)"
| "wait_inv g (Awaiting p) = (p < length (attempts g))"

text \<open>
  A schedule in which the first initialisation fails at the open call and a second caller
  arrives afterwards, and a schedule of three callers without a failure.
\<close>

definition example_error :: js_error where
  "example_error = JsError ''disk I/O error'' None"

definition example_retry_schedule :: "event list" where
  "example_retry_schedule =
     [CallInitDatabase, IoDone 0 (Rejects example_error), CallInitDatabase,
      IoDone 1 Resolves, IoDone 1 Resolves, IoDone 1 Resolves, IoDone 1 Resolves,
      IoDone 1 Resolves, IoDone 1 Resolves]"

definition example_schedule :: "event list" where
  "example_schedule =
     [CallInitDatabase, CallGetDatabase, IoDone 0 Resolves, IoDone 0 Resolves,
      CallInitDatabase, IoDone 0 Resolves, IoDone 0 (Rejects (JsError
        ''duplicate column name: fakultas'' None)), IoDone 0 Resolves, IoDone 0 Resolves,
      CallGetDatabase]"

fun is_call :: "event \<Rightarrow> bool" where
  "is_call CallInitDatabase = True"
| "is_call CallGetDatabase = True"
| "is_call (IoDone p out) = False"

text \<open>A guard whose first closure awaits \<^verbatim>\<open>CREATE TABLE mahasiswa\<close>, and one whose first
  closure awaits the \<^verbatim>\<open>ALTER TABLE\<close> statement.\<close>

definition example_creating_guard :: guard where
  "example_creating_guard =
     \<lparr>db = None, initPromise = Some 0, attempts = [AwaitCreateMahasiswa 0], console = []\<rparr>"

definition example_altering_guard :: guard where
  "example_altering_guard =
     \<lparr>db = None, initPromise = Some 0, attempts = [AwaitAlter 0], console = []\<rparr>"

text \<open>
  Worlds of the failure claims: a connection that was never opened and whose open call
  will be rejected; the initialised connection with a rejection for its next statement;
  a closure at \<^verbatim>\<open>CREATE TABLE mahasiswa\<close> whose statement will be rejected and
  whose close call will be answered; and a connection that was never opened, all of whose
  steps but \<^verbatim>\<open>ALTER TABLE\<close> will succeed.
\<close>

definition example_idle_world :: world where
  "example_idle_world =
     \<lparr>guard = uninitialized, store = example_store, tape = [Rejects example_error]\<rparr>"

definition example_faulty_world :: world where
  "example_faulty_world = example_world\<lparr>tape := [Rejects example_error]\<rparr>"

definition example_creating_world :: world where
  "example_creating_world =
     \<lparr>guard = example_creating_guard, store = example_store,
      tape = [Rejects example_error, Resolves]\<rparr>"

definition example_alter_world :: world where
  "example_alter_world =
     \<lparr>guard = uninitialized, store = example_store,
      tape = [Resolves, Resolves, Resolves, Rejects example_error, Resolves, Resolves]\<rparr>"

text \<open>
  A schedule in which \<^verbatim>\<open>getDatabase\<close> is called while the first closure, whose
  \<^verbatim>\<open>CREATE TABLE mahasiswa\<close> was rejected, awaits its close call.
\<close>

definition example_window_schedule :: "event list" where
  "example_window_schedule =
     [CallInitDatabase, IoDone 0 Resolves, IoDone 0 (Rejects example_error),
      CallGetDatabase, IoDone 0 Resolves]"

text \<open>
  The closure whose outcome a caller receives: the one whose promise it awaits, or the one
  that opened the handle it was given (a handle carries the number of the closure that
  opened it).
\<close>

fun target :: "caller_wait \<Rightarrow> pid" where
  "target (Immediate h) = h"
| "target (Awaiting p) = p"

text \<open>
  A schedule of three callers whose initialisation fails at the open call, and a schedule
  of two callers whose initialisation has not gone beyond the open call.
\<close>

definition example_failing_schedule :: "event list" where
  "example_failing_schedule =
     [CallInitDatabase, CallGetDatabase, CallInitDatabase, IoDone 0 (Rejects example_error)]"

definition example_waiting_schedule :: "event list" where
  "example_waiting_schedule = [CallInitDatabase, CallGetDatabase]"

section \<open>Calls on an initialised guard\<close>

lemma getDatabase_ready: "db (guard w) = Some h \<Longrightarrow> getDatabase w = (Returns h, w)"
  by (simp add: getDatabase_def call_getDatabase_def await_caller_def)

lemma execute_resolves:
  "tape w = Resolves # outs \<Longrightarrow>
   execute database statement w =
     (case statement (store w) of
        Inl error \<Rightarrow> (Throws error, w\<lparr>tape := outs\<rparr>)
      | Inr (a, s) \<Rightarrow> (Returns a, w\<lparr>store := s, tape := outs\<rparr>))"
  by (simp add: execute_def)

lemma execute_rejects:
  "tape w = Rejects error # outs \<Longrightarrow>
   execute database statement w = (Throws error, w\<lparr>tape := outs\<rparr>)"
  by (simp add: execute_def)

text \<open>The three shapes that the bodies of the functions take.\<close>

lemma query_all_ready:
  "db (guard w) = Some h \<Longrightarrow> tape w = Resolves # outs \<Longrightarrow>
   try_catch (await getDatabase (\<lambda>database.
              await (getAllAsync database query) (\<lambda>result. return result))) handler w
     = (Returns (query (store w)), w\<lparr>tape := outs\<rparr>)"
  by (simp add: try_catch_def await_def getDatabase_ready getAllAsync_def execute_resolves
      return_def)

lemma query_first_ready:
  "db (guard w) = Some h \<Longrightarrow> tape w = Resolves # outs \<Longrightarrow>
   try_catch (await getDatabase (\<lambda>database.
              await (getFirstAsync database query) (\<lambda>result. return result))) handler w
     = (Returns (case query (store w) of [] \<Rightarrow> None | r # rs \<Rightarrow> Some r), w\<lparr>tape := outs\<rparr>)"
  by (simp add: try_catch_def await_def getDatabase_ready getFirstAsync_def execute_resolves
      return_def)

lemma run_ready:
  "db (guard w) = Some h \<Longrightarrow> tape w = Resolves # outs \<Longrightarrow>
   try_catch (await getDatabase (\<lambda>database.
              await (runAsync database statement) (\<lambda>result. return (f result)))) handler w
     = (case statement (store w) of
          Inl error \<Rightarrow> handler error (w\<lparr>tape := outs\<rparr>)
        | Inr (a, s) \<Rightarrow> (Returns (f a), w\<lparr>store := s, tape := outs\<rparr>))"
  by (simp add: try_catch_def await_def getDatabase_ready runAsync_def execute_resolves
      return_def split: sum.split)

lemma first_of_filter: "(case filter P xs of [] \<Rightarrow> None | r # rs \<Rightarrow> Some r) = find P xs"
  by (induction xs) auto

subsection \<open>Listing\<close>

lemma getAllMahasiswa_ready:
  "db (guard w) = Some h \<Longrightarrow> tape w = Resolves # outs \<Longrightarrow>
   getAllMahasiswa w =
     (Returns (sort_key m_nama (mahasiswa_table (store w))), w\<lparr>tape := outs\<rparr>)"
  unfolding getAllMahasiswa_def by (simp add: query_all_ready sql_select_mahasiswa_all_def)

lemma getAllProdi_ready:
  "db (guard w) = Some h \<Longrightarrow> tape w = Resolves # outs \<Longrightarrow>
   getAllProdi w =
     (Returns (sort_key p_nama_prodi (prodi_table (store w))), w\<lparr>tape := outs\<rparr>)"
  unfolding getAllProdi_def by (simp add: query_all_ready sql_select_prodi_all_def)

lemma getAllFakultas_ready:
  "db (guard w) = Some h \<Longrightarrow> tape w = Resolves # outs \<Longrightarrow>
   getAllFakultas w =
     (Returns (sort_key f_nama_fakultas (fakultas_table (store w))), w\<lparr>tape := outs\<rparr>)"
  unfolding getAllFakultas_def by (simp add: query_all_ready sql_select_fakultas_all_def)

lemma example_world_ready: "db (guard example_world) = Some 0"
  by (simp add: example_world_def example_guard_def)

lemma example_world_tape: "tape example_world = Resolves # [Resolves]"
  by (simp add: example_world_def)

text \<open>
  C9. On an initialised connection that answers the statement, \<^verbatim>\<open>getAllMahasiswa\<close>,
  \<^verbatim>\<open>getAllProdi\<close> and \<^verbatim>\<open>getAllFakultas\<close> return every row of their table, each
  row once, in ascending order of \<^verbatim>\<open>nama\<close>, \<^verbatim>\<open>nama_prodi\<close> and
  \<^verbatim>\<open>nama_fakultas\<close>, whatever the order in which the rows were inserted.
\<close>

theorem getAll_sorted_by_name:
  assumes "db (guard w) = Some h" and "tape w = Resolves # outs"
  shows "(\<exists>rows. getAllMahasiswa w = (Returns rows, w\<lparr>tape := outs\<rparr>)
            \<and> sorted (map m_nama rows) \<and> mset rows = mset (mahasiswa_table (store w)))
       \<and> (\<exists>rows. getAllProdi w = (Returns rows, w\<lparr>tape := outs\<rparr>)
            \<and> sorted (map p_nama_prodi rows) \<and> mset rows = mset (prodi_table (store w)))
       \<and> (\<exists>rows. getAllFakultas w = (Returns rows, w\<lparr>tape := outs\<rparr>)
            \<and> sorted (map f_nama_fakultas rows)
            \<and> mset rows = mset (fakultas_table (store w)))"
  using assms by (simp add: getAllMahasiswa_ready getAllProdi_ready getAllFakultas_ready)

theorem getAll_sorted_by_name_witness:
  "db (guard example_world) = Some 0 \<and> tape example_world = Resolves # [Resolves]
   \<and> (\<exists>rows. getAllMahasiswa example_world = (Returns rows, example_world\<lparr>tape := [Resolves]\<rparr>)
         \<and> sorted (map m_nama rows)
         \<and> mset rows = mset (mahasiswa_table (store example_world)))
   \<and> (\<exists>rows. getAllProdi example_world = (Returns rows, example_world\<lparr>tape := [Resolves]\<rparr>)
         \<and> sorted (map p_nama_prodi rows)
         \<and> mset rows = mset (prodi_table (store example_world)))
   \<and> (\<exists>rows. getAllFakultas example_world = (Returns rows, example_world\<lparr>tape := [Resolves]\<rparr>)
         \<and> sorted (map f_nama_fakultas rows)
         \<and> mset rows = mset (fakultas_table (store example_world)))"
  using getAll_sorted_by_name [OF example_world_ready example_world_tape]
    example_world_ready example_world_tape
  by blast

subsection \<open>Authentication\<close>

lemma getUserByEmail_ready:
  "db (guard w) = Some h \<Longrightarrow> tape w = Resolves # outs \<Longrightarrow>
   getUserByEmail email w =
     (Returns (find (\<lambda>r. u_email r = toLowerCase email) (users_table (store w))),
      w\<lparr>tape := outs\<rparr>)"
  unfolding getUserByEmail_def
  by (simp add: query_first_ready sql_select_user_by_email_def first_of_filter)

lemma authenticateUser_ready:
  "db (guard w) = Some h \<Longrightarrow> tape w = Resolves # outs \<Longrightarrow>
   authenticateUser email password w =
     (Returns (case find (\<lambda>r. u_email r = toLowerCase email) (users_table (store w)) of
                 None \<Rightarrow> None
               | Some user \<Rightarrow> if u_password user = password then Some user else None),
      w\<lparr>tape := outs\<rparr>)"
  by (simp add: authenticateUser_def try_catch_def await_def getUserByEmail_ready return_def
      split: option.split)

text \<open>
  C7. On an initialised connection that answers the statement, \<^verbatim>\<open>authenticateUser\<close>
  looks for the row of \<^verbatim>\<open>users\<close> whose email is the argument in lower case, as
  \<^verbatim>\<open>String.prototype.toLowerCase\<close> returns it. With no such row it returns
  \<^verbatim>\<open>null\<close>. With such a row it returns that row when the password given is equal
  to the stored one and \<^verbatim>\<open>null\<close> when it is not.
\<close>

theorem authenticateUser_by_lowercased_email:
  assumes "db (guard w) = Some h" and "tape w = Resolves # outs"
  shows "(find (\<lambda>r. u_email r = toLowerCase email) (users_table (store w)) = None
            \<longrightarrow> authenticateUser email password w = (Returns None, w\<lparr>tape := outs\<rparr>))
       \<and> (\<forall>user. find (\<lambda>r. u_email r = toLowerCase email) (users_table (store w)) = Some user
            \<longrightarrow> (u_password user = password
                   \<longrightarrow> authenticateUser email password w
                         = (Returns (Some user), w\<lparr>tape := outs\<rparr>))
               \<and> (u_password user \<noteq> password
                   \<longrightarrow> authenticateUser email password w
                         = (Returns None, w\<lparr>tape := outs\<rparr>)))"
  using assms by (simp add: authenticateUser_ready)

lemma example_find_user:
  "find (\<lambda>r. u_email r = toLowerCase ''A@X.com'') (users_table (store example_world))
     = Some example_user"
  by (simp add: example_world_def example_store_def toLowerCase_def toLowerCase_char_def
      example_user_def)

lemma example_find_nobody:
  "find (\<lambda>r. u_email r = toLowerCase ''b@x.com'') (users_table (store example_world)) = None"
  by (simp add: example_world_def example_store_def toLowerCase_def toLowerCase_char_def
      example_user_def)

lemma example_find_accent_user:
  "find (\<lambda>r. u_email r = toLowerCase (CHR 0xC9 # ''COLE@x.com''))
     (users_table (store example_accent_world)) = Some example_accent_user"
  by (simp add: example_accent_world_def example_store_def toLowerCase_def
      toLowerCase_char_def example_user_def example_accent_user_def)

theorem authenticateUser_by_lowercased_email_witness:
  "db (guard example_world) = Some 0 \<and> tape example_world = Resolves # [Resolves]
   \<and> find (\<lambda>r. u_email r = toLowerCase ''b@x.com'') (users_table (store example_world)) = None
   \<and> authenticateUser ''b@x.com'' ''p'' example_world
        = (Returns None, example_world\<lparr>tape := [Resolves]\<rparr>)
   \<and> find (\<lambda>r. u_email r = toLowerCase ''A@X.com'') (users_table (store example_world))
        = Some example_user
   \<and> u_password example_user = ''p''
   \<and> authenticateUser ''A@X.com'' ''p'' example_world
        = (Returns (Some example_user), example_world\<lparr>tape := [Resolves]\<rparr>)
   \<and> u_password example_user \<noteq> ''wrong''
   \<and> authenticateUser ''A@X.com'' ''wrong'' example_world
        = (Returns None, example_world\<lparr>tape := [Resolves]\<rparr>)
   \<and> db (guard example_accent_world) = Some 0
   \<and> tape example_accent_world = Resolves # [Resolves]
   \<and> toLowerCase (CHR 0xC9 # ''COLE@x.com'') = CHR 0xE9 # ''cole@x.com''
   \<and> find (\<lambda>r. u_email r = toLowerCase (CHR 0xC9 # ''COLE@x.com''))
         (users_table (store example_accent_world)) = Some example_accent_user
   \<and> u_password example_accent_user = ''q''
   \<and> authenticateUser (CHR 0xC9 # ''COLE@x.com'') ''q'' example_accent_world
        = (Returns (Some example_accent_user), example_accent_world\<lparr>tape := [Resolves]\<rparr>)"
proof -
  have pw: "u_password example_user = ''p''" "u_password example_user \<noteq> ''wrong''"
    "u_password example_accent_user = ''q''"
    by (simp_all add: example_user_def example_accent_user_def)
  have accent: "db (guard example_accent_world) = Some 0"
    "tape example_accent_world = Resolves # [Resolves]"
    by (simp_all add: example_accent_world_def example_guard_def)
  have lower: "toLowerCase (CHR 0xC9 # ''COLE@x.com'') = CHR 0xE9 # ''cole@x.com''"
    by (simp add: toLowerCase_def toLowerCase_char_def)
  from authenticateUser_by_lowercased_email
         [OF example_world_ready example_world_tape, of "''b@x.com''" "''p''"]
       authenticateUser_by_lowercased_email
         [OF example_world_ready example_world_tape, of "''A@X.com''" "''p''"]
       authenticateUser_by_lowercased_email
         [OF example_world_ready example_world_tape, of "''A@X.com''" "''wrong''"]
       authenticateUser_by_lowercased_email
         [OF accent, of "CHR 0xC9 # ''COLE@x.com''" "''q''"]
       example_find_user example_find_nobody example_find_accent_user pw
       example_world_ready example_world_tape accent lower
  show ?thesis by blast
qed

subsection \<open>Searching\<close>








text \<open>\<open>str_includes\<close> is the contiguous-part relation, so the vocabulary says what it should.\<close>

lemma startsWith_iff: "startsWith s sub = (\<exists>suf. s = sub @ suf)"
  by (induction s sub rule: startsWith.induct) auto

lemma str_includes_iff: "str_includes s sub = (\<exists>pre suf. s = pre @ sub @ suf)"
proof (induction s)
  case Nil
  then show ?case by auto
next
  case (Cons d s)
  show ?case
  proof
    assume "str_includes (d # s) sub"
    then consider "startsWith (d # s) sub" | "str_includes s sub" by auto
    then show "\<exists>pre suf. d # s = pre @ sub @ suf"
    proof cases
      case 1
      then obtain suf where "d # s = sub @ suf" by (auto simp: startsWith_iff)
      then have "d # s = [] @ sub @ suf" by simp
      then show ?thesis by blast
    next
      case 2
      with Cons obtain pre suf where "s = pre @ sub @ suf" by auto
      then have "d # s = (d # pre) @ sub @ suf" by simp
      then show ?thesis by blast
    qed
  next
    assume "\<exists>pre suf. d # s = pre @ sub @ suf"
    then obtain pre suf where eq: "d # s = pre @ sub @ suf" by blast
    show "str_includes (d # s) sub"
    proof (cases pre)
      case Nil
      with eq have "startsWith (d # s) sub" by (auto simp: startsWith_iff)
      then show ?thesis by simp
    next
      case (Cons a pre')
      with eq have "s = pre' @ sub @ suf" by simp
      with Cons.IH have "str_includes s sub" by blast
      then show ?thesis by simp
    qed
  qed
qed
























subsection \<open>Rowids and lookups\<close>

lemma console_log_fields [simp]:
  "db (console_log ts g) = db g" "initPromise (console_log ts g) = initPromise g"
  "attempts (console_log ts g) = attempts g"
  by (simp_all add: console_log_def)

lemma console_error_fields [simp]:
  "db (console_error ts g) = db g" "initPromise (console_error ts g) = initPromise g"
  "attempts (console_error ts g) = attempts g"
  by (simp_all add: console_error_def)

lemma fold_max_ge: "(sq::int) \<le> fold max ids sq \<and> (\<forall>x\<in>set ids. x \<le> fold max ids sq)"
proof (induction ids arbitrary: sq)
  case Nil
  show ?case by simp
next
  case (Cons a ids)
  from Cons [of "max a sq"] show ?case by auto
qed

text \<open>The rowid given to a new row is the rowid of no row of the table.\<close>

lemma next_rowid_fresh: "\<not> list_ex (\<lambda>r. key r = next_rowid (map key rows) sq) rows"
proof -
  have "\<forall>x\<in>set (map key rows). x < next_rowid (map key rows) sq"
    using fold_max_ge [of sq "map key rows"] by (auto simp: next_rowid_def)
  then show ?thesis by (auto simp: list_ex_iff)
qed

lemma find_snoc_fresh: "\<not> list_ex P xs \<Longrightarrow> P x \<Longrightarrow> find P (xs @ [x]) = Some x"
  by (induction xs) auto

lemma find_map_update:
  "(\<And>r. key (upd r) = key r) \<Longrightarrow>
   find (\<lambda>r. key r = i) (map (\<lambda>r. if key r = i then upd r else r) xs)
     = map_option upd (find (\<lambda>r. key r = i) xs)"
  by (induction xs) auto

lemma find_filter_other: "find (\<lambda>r. key r = i) (filter (\<lambda>r. key r \<noteq> i) xs) = None"
  by (induction xs) auto

lemma find_key:
  "find (\<lambda>r. key r = i) xs = Some old \<Longrightarrow> key old = i \<and> list_ex (\<lambda>r. key r = i) xs"
  by (induction xs) (auto split: if_splits)

subsection \<open>Writing and reading back: Mahasiswa\<close>

lemma getMahasiswaById_ready:
  "db (guard w) = Some h \<Longrightarrow> tape w = Resolves # outs \<Longrightarrow>
   getMahasiswaById i w =
     (Returns (find (\<lambda>r. m_id r = i) (mahasiswa_table (store w))), w\<lparr>tape := outs\<rparr>)"
  unfolding getMahasiswaById_def
  by (simp add: query_first_ready sql_select_mahasiswa_by_id_def first_of_filter)

lemma mahasiswa_row_inserted:
  "\<lparr>m_id = i, m_nim = m_nim mahasiswa, m_nama = m_nama mahasiswa, m_jurusan = m_jurusan mahasiswa, m_fakultas = nullish_null (m_fakultas mahasiswa), m_semester = m_semester mahasiswa, m_email = m_email mahasiswa, m_created_at = t\<rparr>
     = mahasiswa\<lparr>m_id := i, m_created_at := t\<rparr>"
  by (cases mahasiswa; cases "m_fakultas mahasiswa") simp_all

lemma mahasiswa_row_updated:
  "(r::Mahasiswa)\<lparr>m_nim := m_nim mahasiswa, m_nama := m_nama mahasiswa, m_jurusan := m_jurusan mahasiswa, m_fakultas := nullish_null (m_fakultas mahasiswa), m_semester := m_semester mahasiswa, m_email := m_email mahasiswa\<rparr>
     = mahasiswa\<lparr>m_id := m_id r, m_created_at := m_created_at r\<rparr>"
  by (cases mahasiswa; cases r; cases "m_fakultas mahasiswa") simp_all

lemma sql_insert_mahasiswa_fresh:
  "\<not> list_ex (\<lambda>r. m_nim r = m_nim mahasiswa) (mahasiswa_table (store w)) \<Longrightarrow>
   sql_insert_mahasiswa (m_nim mahasiswa) (m_nama mahasiswa) (m_jurusan mahasiswa) (nullish_null (m_fakultas mahasiswa)) (m_semester mahasiswa) (m_email mahasiswa) (store w)
        = Inr (\<lparr>lastInsertRowId = next_rowid (map m_id (mahasiswa_table (store w))) (mahasiswa_seq (store w)), changes = 1\<rparr>,
               (store w)\<lparr>mahasiswa_table := (mahasiswa_table (store w)) @
                   [mahasiswa\<lparr>m_id := next_rowid (map m_id (mahasiswa_table (store w))) (mahasiswa_seq (store w)), m_created_at := Some (current_timestamp (store w))\<rparr>],
                 mahasiswa_seq := next_rowid (map m_id (mahasiswa_table (store w))) (mahasiswa_seq (store w))\<rparr>)"
  by (simp add: sql_insert_mahasiswa_def Let_def mahasiswa_row_inserted)

lemma addMahasiswa_ready:
  assumes "db (guard w) = Some h" and "tape w = Resolves # outs"
    and "\<not> list_ex (\<lambda>r. m_nim r = m_nim mahasiswa) (mahasiswa_table (store w))"
  shows "addMahasiswa mahasiswa w =
     (Returns (next_rowid (map m_id (mahasiswa_table (store w))) (mahasiswa_seq (store w))),
      w\<lparr>store := (store w)\<lparr>mahasiswa_table := (mahasiswa_table (store w)) @
                   [mahasiswa\<lparr>m_id := next_rowid (map m_id (mahasiswa_table (store w))) (mahasiswa_seq (store w)), m_created_at := Some (current_timestamp (store w))\<rparr>],
                 mahasiswa_seq := next_rowid (map m_id (mahasiswa_table (store w))) (mahasiswa_seq (store w))\<rparr>,
        tape := outs\<rparr>)"
  using assms(1,2) sql_insert_mahasiswa_fresh [OF assms(3)]
  unfolding addMahasiswa_def by (simp add: run_ready)

lemma create_then_get_mahasiswa:
  assumes "db (guard w) = Some h" and "tape w = Resolves # Resolves # outs"
    and "\<not> list_ex (\<lambda>r. m_nim r = m_nim mahasiswa) (mahasiswa_table (store w))"
  shows "\<exists>i w1. addMahasiswa mahasiswa w = (Returns i, w1)
           \<and> getMahasiswaById i w1
               = (Returns (Some (mahasiswa\<lparr>m_id := i, m_created_at := Some (current_timestamp (store w))\<rparr>)),
                  w1\<lparr>tape := outs\<rparr>)"
proof -
  let ?i = "next_rowid (map m_id (mahasiswa_table (store w))) (mahasiswa_seq (store w))"
  let ?row = "mahasiswa\<lparr>m_id := ?i, m_created_at := Some (current_timestamp (store w))\<rparr>"
  let ?w1 = "w\<lparr>store := (store w)\<lparr>mahasiswa_table := (mahasiswa_table (store w)) @ [?row], mahasiswa_seq := ?i\<rparr>,
                 tape := Resolves # outs\<rparr>"
  have add: "addMahasiswa mahasiswa w = (Returns ?i, ?w1)"
    by (rule addMahasiswa_ready [OF assms])
  have "find (\<lambda>r. m_id r = ?i) ((mahasiswa_table (store w)) @ [?row]) = Some ?row"
    by (rule find_snoc_fresh) (simp_all add: next_rowid_fresh)
  then have "getMahasiswaById ?i ?w1 = (Returns (Some ?row), ?w1\<lparr>tape := outs\<rparr>)"
    using assms(1) by (simp add: getMahasiswaById_ready [where h = h and outs = outs])
  with add show ?thesis by blast
qed

lemma updateMahasiswa_ready:
  assumes "db (guard w) = Some h" and "tape w = Resolves # outs"
    and "\<not> list_ex (\<lambda>r. m_id r \<noteq> i \<and> m_nim r = m_nim mahasiswa) (mahasiswa_table (store w))"
  shows "updateMahasiswa i mahasiswa w =
     (Returns (),
      w\<lparr>store := (store w)\<lparr>mahasiswa_table :=
            map (\<lambda>r. if m_id r = i
                      then mahasiswa\<lparr>m_id := m_id r, m_created_at := m_created_at r\<rparr>
                      else r) (mahasiswa_table (store w))\<rparr>,
        tape := outs\<rparr>)"
proof -
  have "sql_update_mahasiswa (m_nim mahasiswa) (m_nama mahasiswa) (m_jurusan mahasiswa) (nullish_null (m_fakultas mahasiswa)) (m_semester mahasiswa) (m_email mahasiswa) i (store w)
        = Inr ((), (store w)\<lparr>mahasiswa_table :=
            map (\<lambda>r. if m_id r = i
                      then mahasiswa\<lparr>m_id := m_id r, m_created_at := m_created_at r\<rparr>
                      else r) (mahasiswa_table (store w))\<rparr>)"
    using assms(3) by (simp add: sql_update_mahasiswa_def mahasiswa_row_updated)
  with assms(1,2) show ?thesis
    unfolding updateMahasiswa_def by (simp add: run_ready)
qed

lemma update_then_get_mahasiswa:
  assumes "db (guard w) = Some h" and "tape w = Resolves # Resolves # outs"
    and "find (\<lambda>r. m_id r = i) (mahasiswa_table (store w)) = Some old"
    and "\<not> list_ex (\<lambda>r. m_id r \<noteq> i \<and> m_nim r = m_nim mahasiswa) (mahasiswa_table (store w))"
  shows "\<exists>w1. updateMahasiswa i mahasiswa w = (Returns (), w1)
           \<and> getMahasiswaById i w1
               = (Returns (Some (mahasiswa\<lparr>m_id := i, m_created_at := m_created_at old\<rparr>)),
                  w1\<lparr>tape := outs\<rparr>)"
proof -
  let ?upd = "\<lambda>r. mahasiswa\<lparr>m_id := m_id r, m_created_at := m_created_at r\<rparr>"
  let ?w1 = "w\<lparr>store := (store w)\<lparr>mahasiswa_table :=
               map (\<lambda>r. if m_id r = i then ?upd r else r) (mahasiswa_table (store w))\<rparr>,
             tape := Resolves # outs\<rparr>"
  have upd: "updateMahasiswa i mahasiswa w = (Returns (), ?w1)"
    by (rule updateMahasiswa_ready [OF assms(1,2,4)])
  have "find (\<lambda>r. m_id r = i)
          (map (\<lambda>r. if m_id r = i then ?upd r else r) (mahasiswa_table (store w)))
        = map_option ?upd (find (\<lambda>r. m_id r = i) (mahasiswa_table (store w)))"
    by (rule find_map_update) simp
  with assms(3) find_key [OF assms(3)]
  have "find (\<lambda>r. m_id r = i)
          (map (\<lambda>r. if m_id r = i then ?upd r else r) (mahasiswa_table (store w)))
        = Some (mahasiswa\<lparr>m_id := i, m_created_at := m_created_at old\<rparr>)"
    by simp
  then have "getMahasiswaById i ?w1
               = (Returns (Some (mahasiswa\<lparr>m_id := i, m_created_at := m_created_at old\<rparr>)),
                  ?w1\<lparr>tape := outs\<rparr>)"
    using assms(1) by (simp add: getMahasiswaById_ready [where h = h and outs = outs])
  with upd show ?thesis by blast
qed

lemma deleteMahasiswa_ready:
  assumes "db (guard w) = Some h" and "tape w = Resolves # outs"
  shows "deleteMahasiswa i w =
     (Returns (),
      w\<lparr>store := (store w)\<lparr>mahasiswa_table := filter (\<lambda>r. m_id r \<noteq> i) (mahasiswa_table (store w))\<rparr>,
        tape := outs\<rparr>)"
  using assms unfolding deleteMahasiswa_def
  by (simp add: run_ready sql_delete_mahasiswa_def)

lemma delete_then_get_mahasiswa:
  assumes "db (guard w) = Some h" and "tape w = Resolves # Resolves # outs"
  shows "\<exists>w1. deleteMahasiswa i w = (Returns (), w1)
           \<and> getMahasiswaById i w1 = (Returns None, w1\<lparr>tape := outs\<rparr>)"
proof -
  let ?w1 = "w\<lparr>store := (store w)\<lparr>mahasiswa_table := filter (\<lambda>r. m_id r \<noteq> i) (mahasiswa_table (store w))\<rparr>,
             tape := Resolves # outs\<rparr>"
  have del: "deleteMahasiswa i w = (Returns (), ?w1)"
    by (rule deleteMahasiswa_ready [OF assms])
  have "getMahasiswaById i ?w1 = (Returns None, ?w1\<lparr>tape := outs\<rparr>)"
    using assms(1)
    by (simp add: getMahasiswaById_ready [where h = h and outs = outs] find_filter_other)
  with del show ?thesis by blast
qed

subsection \<open>Writing and reading back: Prodi\<close>

lemma getProdiById_ready:
  "db (guard w) = Some h \<Longrightarrow> tape w = Resolves # outs \<Longrightarrow>
   getProdiById i w =
     (Returns (find (\<lambda>r. p_id r = i) (prodi_table (store w))), w\<lparr>tape := outs\<rparr>)"
  unfolding getProdiById_def
  by (simp add: query_first_ready sql_select_prodi_by_id_def first_of_filter)

lemma prodi_row_inserted:
  "\<lparr>p_id = i, p_kode_prodi = p_kode_prodi prodi, p_nama_prodi = p_nama_prodi prodi, p_fakultas = p_fakultas prodi, p_akreditasi = or_null (p_akreditasi prodi), p_deskripsi = or_null (p_deskripsi prodi), p_created_at = t\<rparr>
     = prodi\<lparr>p_id := i, p_akreditasi := or_null (p_akreditasi prodi), p_deskripsi := or_null (p_deskripsi prodi), p_created_at := t\<rparr>"
  by (cases prodi) simp_all

lemma prodi_row_updated:
  "(r::Prodi)\<lparr>p_kode_prodi := p_kode_prodi prodi, p_nama_prodi := p_nama_prodi prodi, p_fakultas := p_fakultas prodi, p_akreditasi := or_null (p_akreditasi prodi), p_deskripsi := or_null (p_deskripsi prodi)\<rparr>
     = prodi\<lparr>p_id := p_id r, p_akreditasi := or_null (p_akreditasi prodi), p_deskripsi := or_null (p_deskripsi prodi), p_created_at := p_created_at r\<rparr>"
  by (cases prodi; cases r) simp_all

lemma sql_insert_prodi_fresh:
  "\<not> list_ex (\<lambda>r. p_kode_prodi r = p_kode_prodi prodi) (prodi_table (store w)) \<Longrightarrow>
   sql_insert_prodi (p_kode_prodi prodi) (p_nama_prodi prodi) (p_fakultas prodi) (or_null (p_akreditasi prodi)) (or_null (p_deskripsi prodi)) (store w)
        = Inr (\<lparr>lastInsertRowId = next_rowid (map p_id (prodi_table (store w))) (prodi_seq (store w)), changes = 1\<rparr>,
               (store w)\<lparr>prodi_table := (prodi_table (store w)) @
                   [prodi\<lparr>p_id := next_rowid (map p_id (prodi_table (store w))) (prodi_seq (store w)), p_akreditasi := or_null (p_akreditasi prodi), p_deskripsi := or_null (p_deskripsi prodi), p_created_at := Some (current_timestamp (store w))\<rparr>],
                 prodi_seq := next_rowid (map p_id (prodi_table (store w))) (prodi_seq (store w))\<rparr>)"
  by (simp add: sql_insert_prodi_def Let_def prodi_row_inserted)

lemma addProdi_answered:
  assumes "db (guard w) = Some h" and "tape w = Resolves # outs"
  shows "addProdi prodi w =
     (case sql_insert_prodi (p_kode_prodi prodi) (p_nama_prodi prodi) (p_fakultas prodi) (or_null (p_akreditasi prodi)) (or_null (p_deskripsi prodi)) (store w) of
        Inl error \<Rightarrow>
          (Throws (formattedError ''Failed to add prodi: '' error),
           w\<lparr>guard := console_error [''Error adding prodi:'']
                 (console_log [''Getting database in addProdi...'',
                               ''Database object retrieved, inserting prodi data...'',
                               ''Prodi data:''] (guard w)),
             tape := outs\<rparr>)
      | Inr (result, s) \<Rightarrow>
          (Returns (lastInsertRowId result),
           w\<lparr>guard := console_log [''Getting database in addProdi...'',
                               ''Database object retrieved, inserting prodi data...'',
                               ''Prodi data:'', ''Prodi added successfully with ID:''] (guard w),
             store := s, tape := outs\<rparr>))"
  using assms
  by (simp add: addProdi_def try_catch_def await_def console_log_line_def getDatabase_ready
      runAsync_def execute_resolves return_def throw_def console_error_line_def
      console_log_def console_error_def
      split: sum.split)

lemma addProdi_ready:
  assumes "db (guard w) = Some h" and "tape w = Resolves # outs"
    and "\<not> list_ex (\<lambda>r. p_kode_prodi r = p_kode_prodi prodi) (prodi_table (store w))"
  shows "addProdi prodi w =
     (Returns (next_rowid (map p_id (prodi_table (store w))) (prodi_seq (store w))),
      w\<lparr>guard := console_log [''Getting database in addProdi...'',
                               ''Database object retrieved, inserting prodi data...'',
                               ''Prodi data:'', ''Prodi added successfully with ID:''] (guard w),
        store := (store w)\<lparr>prodi_table := (prodi_table (store w)) @
                   [prodi\<lparr>p_id := next_rowid (map p_id (prodi_table (store w))) (prodi_seq (store w)), p_akreditasi := or_null (p_akreditasi prodi), p_deskripsi := or_null (p_deskripsi prodi), p_created_at := Some (current_timestamp (store w))\<rparr>],
                 prodi_seq := next_rowid (map p_id (prodi_table (store w))) (prodi_seq (store w))\<rparr>,
        tape := outs\<rparr>)"
  using sql_insert_prodi_fresh [OF assms(3)]
  by (simp add: addProdi_answered [OF assms(1,2)])

lemma create_then_get_prodi:
  assumes "db (guard w) = Some h" and "tape w = Resolves # Resolves # outs"
    and "\<not> list_ex (\<lambda>r. p_kode_prodi r = p_kode_prodi prodi) (prodi_table (store w))"
  shows "\<exists>i w1. addProdi prodi w = (Returns i, w1)
           \<and> getProdiById i w1
               = (Returns (Some (prodi\<lparr>p_id := i, p_akreditasi := or_null (p_akreditasi prodi), p_deskripsi := or_null (p_deskripsi prodi), p_created_at := Some (current_timestamp (store w))\<rparr>)),
                  w1\<lparr>tape := outs\<rparr>)"
proof -
  let ?i = "next_rowid (map p_id (prodi_table (store w))) (prodi_seq (store w))"
  let ?row = "prodi\<lparr>p_id := ?i, p_akreditasi := or_null (p_akreditasi prodi), p_deskripsi := or_null (p_deskripsi prodi), p_created_at := Some (current_timestamp (store w))\<rparr>"
  let ?w1 = "w\<lparr>guard := console_log [''Getting database in addProdi...'',
                               ''Database object retrieved, inserting prodi data...'',
                               ''Prodi data:'', ''Prodi added successfully with ID:''] (guard w),
                 store := (store w)\<lparr>prodi_table := (prodi_table (store w)) @ [?row], prodi_seq := ?i\<rparr>,
                 tape := Resolves # outs\<rparr>"
  have add: "addProdi prodi w = (Returns ?i, ?w1)"
    by (rule addProdi_ready [OF assms])
  have "find (\<lambda>r. p_id r = ?i) ((prodi_table (store w)) @ [?row]) = Some ?row"
    by (rule find_snoc_fresh) (simp_all add: next_rowid_fresh)
  then have "getProdiById ?i ?w1 = (Returns (Some ?row), ?w1\<lparr>tape := outs\<rparr>)"
    using assms(1) by (simp add: getProdiById_ready [where h = h and outs = outs])
  with add show ?thesis by blast
qed

lemma updateProdi_ready:
  assumes "db (guard w) = Some h" and "tape w = Resolves # outs"
    and "\<not> list_ex (\<lambda>r. p_id r \<noteq> i \<and> p_kode_prodi r = p_kode_prodi prodi) (prodi_table (store w))"
  shows "updateProdi i prodi w =
     (Returns (),
      w\<lparr>store := (store w)\<lparr>prodi_table :=
            map (\<lambda>r. if p_id r = i
                      then prodi\<lparr>p_id := p_id r, p_akreditasi := or_null (p_akreditasi prodi), p_deskripsi := or_null (p_deskripsi prodi), p_created_at := p_created_at r\<rparr>
                      else r) (prodi_table (store w))\<rparr>,
        tape := outs\<rparr>)"
proof -
  have "sql_update_prodi (p_kode_prodi prodi) (p_nama_prodi prodi) (p_fakultas prodi) (or_null (p_akreditasi prodi)) (or_null (p_deskripsi prodi)) i (store w)
        = Inr ((), (store w)\<lparr>prodi_table :=
            map (\<lambda>r. if p_id r = i
                      then prodi\<lparr>p_id := p_id r, p_akreditasi := or_null (p_akreditasi prodi), p_deskripsi := or_null (p_deskripsi prodi), p_created_at := p_created_at r\<rparr>
                      else r) (prodi_table (store w))\<rparr>)"
    using assms(3) by (simp add: sql_update_prodi_def prodi_row_updated)
  with assms(1,2) show ?thesis
    unfolding updateProdi_def by (simp add: run_ready)
qed

lemma update_then_get_prodi:
  assumes "db (guard w) = Some h" and "tape w = Resolves # Resolves # outs"
    and "find (\<lambda>r. p_id r = i) (prodi_table (store w)) = Some old"
    and "\<not> list_ex (\<lambda>r. p_id r \<noteq> i \<and> p_kode_prodi r = p_kode_prodi prodi) (prodi_table (store w))"
  shows "\<exists>w1. updateProdi i prodi w = (Returns (), w1)
           \<and> getProdiById i w1
               = (Returns (Some (prodi\<lparr>p_id := i, p_akreditasi := or_null (p_akreditasi prodi), p_deskripsi := or_null (p_deskripsi prodi), p_created_at := p_created_at old\<rparr>)),
                  w1\<lparr>tape := outs\<rparr>)"
proof -
  let ?upd = "\<lambda>r. prodi\<lparr>p_id := p_id r, p_akreditasi := or_null (p_akreditasi prodi), p_deskripsi := or_null (p_deskripsi prodi), p_created_at := p_created_at r\<rparr>"
  let ?w1 = "w\<lparr>store := (store w)\<lparr>prodi_table :=
               map (\<lambda>r. if p_id r = i then ?upd r else r) (prodi_table (store w))\<rparr>,
             tape := Resolves # outs\<rparr>"
  have upd: "updateProdi i prodi w = (Returns (), ?w1)"
    by (rule updateProdi_ready [OF assms(1,2,4)])
  have "find (\<lambda>r. p_id r = i)
          (map (\<lambda>r. if p_id r = i then ?upd r else r) (prodi_table (store w)))
        = map_option ?upd (find (\<lambda>r. p_id r = i) (prodi_table (store w)))"
    by (rule find_map_update) simp
  with assms(3) find_key [OF assms(3)]
  have "find (\<lambda>r. p_id r = i)
          (map (\<lambda>r. if p_id r = i then ?upd r else r) (prodi_table (store w)))
        = Some (prodi\<lparr>p_id := i, p_akreditasi := or_null (p_akreditasi prodi), p_deskripsi := or_null (p_deskripsi prodi), p_created_at := p_created_at old\<rparr>)"
    by simp
  then have "getProdiById i ?w1
               = (Returns (Some (prodi\<lparr>p_id := i, p_akreditasi := or_null (p_akreditasi prodi), p_deskripsi := or_null (p_deskripsi prodi), p_created_at := p_created_at old\<rparr>)),
                  ?w1\<lparr>tape := outs\<rparr>)"
    using assms(1) by (simp add: getProdiById_ready [where h = h and outs = outs])
  with upd show ?thesis by blast
qed

lemma deleteProdi_ready:
  assumes "db (guard w) = Some h" and "tape w = Resolves # outs"
  shows "deleteProdi i w =
     (Returns (),
      w\<lparr>store := (store w)\<lparr>prodi_table := filter (\<lambda>r. p_id r \<noteq> i) (prodi_table (store w))\<rparr>,
        tape := outs\<rparr>)"
  using assms unfolding deleteProdi_def
  by (simp add: run_ready sql_delete_prodi_def)

lemma delete_then_get_prodi:
  assumes "db (guard w) = Some h" and "tape w = Resolves # Resolves # outs"
  shows "\<exists>w1. deleteProdi i w = (Returns (), w1)
           \<and> getProdiById i w1 = (Returns None, w1\<lparr>tape := outs\<rparr>)"
proof -
  let ?w1 = "w\<lparr>store := (store w)\<lparr>prodi_table := filter (\<lambda>r. p_id r \<noteq> i) (prodi_table (store w))\<rparr>,
             tape := Resolves # outs\<rparr>"
  have del: "deleteProdi i w = (Returns (), ?w1)"
    by (rule deleteProdi_ready [OF assms])
  have "getProdiById i ?w1 = (Returns None, ?w1\<lparr>tape := outs\<rparr>)"
    using assms(1)
    by (simp add: getProdiById_ready [where h = h and outs = outs] find_filter_other)
  with del show ?thesis by blast
qed

subsection \<open>Writing and reading back: Fakultas\<close>

lemma getFakultasById_ready:
  "db (guard w) = Some h \<Longrightarrow> tape w = Resolves # outs \<Longrightarrow>
   getFakultasById i w =
     (Returns (find (\<lambda>r. f_id r = i) (fakultas_table (store w))), w\<lparr>tape := outs\<rparr>)"
  unfolding getFakultasById_def
  by (simp add: query_first_ready sql_select_fakultas_by_id_def first_of_filter)

lemma fakultas_row_inserted:
  "\<lparr>f_id = i, f_kode_fakultas = f_kode_fakultas fakultas, f_nama_fakultas = f_nama_fakultas fakultas, f_deskripsi = or_null (f_deskripsi fakultas), f_created_at = t\<rparr>
     = fakultas\<lparr>f_id := i, f_deskripsi := or_null (f_deskripsi fakultas), f_created_at := t\<rparr>"
  by (cases fakultas) simp_all

lemma fakultas_row_updated:
  "(r::Fakultas)\<lparr>f_kode_fakultas := f_kode_fakultas fakultas, f_nama_fakultas := f_nama_fakultas fakultas, f_deskripsi := or_null (f_deskripsi fakultas)\<rparr>
     = fakultas\<lparr>f_id := f_id r, f_deskripsi := or_null (f_deskripsi fakultas), f_created_at := f_created_at r\<rparr>"
  by (cases fakultas; cases r) simp_all

lemma sql_insert_fakultas_fresh:
  "\<not> list_ex (\<lambda>r. f_kode_fakultas r = f_kode_fakultas fakultas) (fakultas_table (store w)) \<Longrightarrow>
   sql_insert_fakultas (f_kode_fakultas fakultas) (f_nama_fakultas fakultas) (or_null (f_deskripsi fakultas)) (store w)
        = Inr (\<lparr>lastInsertRowId = next_rowid (map f_id (fakultas_table (store w))) (fakultas_seq (store w)), changes = 1\<rparr>,
               (store w)\<lparr>fakultas_table := (fakultas_table (store w)) @
                   [fakultas\<lparr>f_id := next_rowid (map f_id (fakultas_table (store w))) (fakultas_seq (store w)), f_deskripsi := or_null (f_deskripsi fakultas), f_created_at := Some (current_timestamp (store w))\<rparr>],
                 fakultas_seq := next_rowid (map f_id (fakultas_table (store w))) (fakultas_seq (store w))\<rparr>)"
  by (simp add: sql_insert_fakultas_def Let_def fakultas_row_inserted)

lemma addFakultas_answered:
  assumes "db (guard w) = Some h" and "tape w = Resolves # outs"
  shows "addFakultas fakultas w =
     (case sql_insert_fakultas (f_kode_fakultas fakultas) (f_nama_fakultas fakultas) (or_null (f_deskripsi fakultas)) (store w) of
        Inl error \<Rightarrow>
          (Throws (formattedError ''Failed to add fakultas: '' error),
           w\<lparr>guard := console_error [''Error adding fakultas:'']
                 (console_log [''Getting database in addFakultas...'',
                               ''Database object retrieved, inserting fakultas data...'',
                               ''Fakultas data:''] (guard w)),
             tape := outs\<rparr>)
      | Inr (result, s) \<Rightarrow>
          (Returns (lastInsertRowId result),
           w\<lparr>guard := console_log [''Getting database in addFakultas...'',
                               ''Database object retrieved, inserting fakultas data...'',
                               ''Fakultas data:'', ''Fakultas added successfully with ID:''] (guard w),
             store := s, tape := outs\<rparr>))"
  using assms
  by (simp add: addFakultas_def try_catch_def await_def console_log_line_def getDatabase_ready
      runAsync_def execute_resolves return_def throw_def console_error_line_def
      console_log_def console_error_def
      split: sum.split)

lemma addFakultas_ready:
  assumes "db (guard w) = Some h" and "tape w = Resolves # outs"
    and "\<not> list_ex (\<lambda>r. f_kode_fakultas r = f_kode_fakultas fakultas) (fakultas_table (store w))"
  shows "addFakultas fakultas w =
     (Returns (next_rowid (map f_id (fakultas_table (store w))) (fakultas_seq (store w))),
      w\<lparr>guard := console_log [''Getting database in addFakultas...'',
                               ''Database object retrieved, inserting fakultas data...'',
                               ''Fakultas data:'', ''Fakultas added successfully with ID:''] (guard w),
        store := (store w)\<lparr>fakultas_table := (fakultas_table (store w)) @
                   [fakultas\<lparr>f_id := next_rowid (map f_id (fakultas_table (store w))) (fakultas_seq (store w)), f_deskripsi := or_null (f_deskripsi fakultas), f_created_at := Some (current_timestamp (store w))\<rparr>],
                 fakultas_seq := next_rowid (map f_id (fakultas_table (store w))) (fakultas_seq (store w))\<rparr>,
        tape := outs\<rparr>)"
  using sql_insert_fakultas_fresh [OF assms(3)]
  by (simp add: addFakultas_answered [OF assms(1,2)])

lemma create_then_get_fakultas:
  assumes "db (guard w) = Some h" and "tape w = Resolves # Resolves # outs"
    and "\<not> list_ex (\<lambda>r. f_kode_fakultas r = f_kode_fakultas fakultas) (fakultas_table (store w))"
  shows "\<exists>i w1. addFakultas fakultas w = (Returns i, w1)
           \<and> getFakultasById i w1
               = (Returns (Some (fakultas\<lparr>f_id := i, f_deskripsi := or_null (f_deskripsi fakultas), f_created_at := Some (current_timestamp (store w))\<rparr>)),
                  w1\<lparr>tape := outs\<rparr>)"
proof -
  let ?i = "next_rowid (map f_id (fakultas_table (store w))) (fakultas_seq (store w))"
  let ?row = "fakultas\<lparr>f_id := ?i, f_deskripsi := or_null (f_deskripsi fakultas), f_created_at := Some (current_timestamp (store w))\<rparr>"
  let ?w1 = "w\<lparr>guard := console_log [''Getting database in addFakultas...'',
                               ''Database object retrieved, inserting fakultas data...'',
                               ''Fakultas data:'', ''Fakultas added successfully with ID:''] (guard w),
                 store := (store w)\<lparr>fakultas_table := (fakultas_table (store w)) @ [?row], fakultas_seq := ?i\<rparr>,
                 tape := Resolves # outs\<rparr>"
  have add: "addFakultas fakultas w = (Returns ?i, ?w1)"
    by (rule addFakultas_ready [OF assms])
  have "find (\<lambda>r. f_id r = ?i) ((fakultas_table (store w)) @ [?row]) = Some ?row"
    by (rule find_snoc_fresh) (simp_all add: next_rowid_fresh)
  then have "getFakultasById ?i ?w1 = (Returns (Some ?row), ?w1\<lparr>tape := outs\<rparr>)"
    using assms(1) by (simp add: getFakultasById_ready [where h = h and outs = outs])
  with add show ?thesis by blast
qed

lemma updateFakultas_ready:
  assumes "db (guard w) = Some h" and "tape w = Resolves # outs"
    and "\<not> list_ex (\<lambda>r. f_id r \<noteq> i \<and> f_kode_fakultas r = f_kode_fakultas fakultas) (fakultas_table (store w))"
  shows "updateFakultas i fakultas w =
     (Returns (),
      w\<lparr>store := (store w)\<lparr>fakultas_table :=
            map (\<lambda>r. if f_id r = i
                      then fakultas\<lparr>f_id := f_id r, f_deskripsi := or_null (f_deskripsi fakultas), f_created_at := f_created_at r\<rparr>
                      else r) (fakultas_table (store w))\<rparr>,
        tape := outs\<rparr>)"
proof -
  have "sql_update_fakultas (f_kode_fakultas fakultas) (f_nama_fakultas fakultas) (or_null (f_deskripsi fakultas)) i (store w)
        = Inr ((), (store w)\<lparr>fakultas_table :=
            map (\<lambda>r. if f_id r = i
                      then fakultas\<lparr>f_id := f_id r, f_deskripsi := or_null (f_deskripsi fakultas), f_created_at := f_created_at r\<rparr>
                      else r) (fakultas_table (store w))\<rparr>)"
    using assms(3) by (simp add: sql_update_fakultas_def fakultas_row_updated)
  with assms(1,2) show ?thesis
    unfolding updateFakultas_def by (simp add: run_ready)
qed

lemma update_then_get_fakultas:
  assumes "db (guard w) = Some h" and "tape w = Resolves # Resolves # outs"
    and "find (\<lambda>r. f_id r = i) (fakultas_table (store w)) = Some old"
    and "\<not> list_ex (\<lambda>r. f_id r \<noteq> i \<and> f_kode_fakultas r = f_kode_fakultas fakultas) (fakultas_table (store w))"
  shows "\<exists>w1. updateFakultas i fakultas w = (Returns (), w1)
           \<and> getFakultasById i w1
               = (Returns (Some (fakultas\<lparr>f_id := i, f_deskripsi := or_null (f_deskripsi fakultas), f_created_at := f_created_at old\<rparr>)),
                  w1\<lparr>tape := outs\<rparr>)"
proof -
  let ?upd = "\<lambda>r. fakultas\<lparr>f_id := f_id r, f_deskripsi := or_null (f_deskripsi fakultas), f_created_at := f_created_at r\<rparr>"
  let ?w1 = "w\<lparr>store := (store w)\<lparr>fakultas_table :=
               map (\<lambda>r. if f_id r = i then ?upd r else r) (fakultas_table (store w))\<rparr>,
             tape := Resolves # outs\<rparr>"
  have upd: "updateFakultas i fakultas w = (Returns (), ?w1)"
    by (rule updateFakultas_ready [OF assms(1,2,4)])
  have "find (\<lambda>r. f_id r = i)
          (map (\<lambda>r. if f_id r = i then ?upd r else r) (fakultas_table (store w)))
        = map_option ?upd (find (\<lambda>r. f_id r = i) (fakultas_table (store w)))"
    by (rule find_map_update) simp
  with assms(3) find_key [OF assms(3)]
  have "find (\<lambda>r. f_id r = i)
          (map (\<lambda>r. if f_id r = i then ?upd r else r) (fakultas_table (store w)))
        = Some (fakultas\<lparr>f_id := i, f_deskripsi := or_null (f_deskripsi fakultas), f_created_at := f_created_at old\<rparr>)"
    by simp
  then have "getFakultasById i ?w1
               = (Returns (Some (fakultas\<lparr>f_id := i, f_deskripsi := or_null (f_deskripsi fakultas), f_created_at := f_created_at old\<rparr>)),
                  ?w1\<lparr>tape := outs\<rparr>)"
    using assms(1) by (simp add: getFakultasById_ready [where h = h and outs = outs])
  with upd show ?thesis by blast
qed

lemma deleteFakultas_ready:
  assumes "db (guard w) = Some h" and "tape w = Resolves # outs"
  shows "deleteFakultas i w =
     (Returns (),
      w\<lparr>store := (store w)\<lparr>fakultas_table := filter (\<lambda>r. f_id r \<noteq> i) (fakultas_table (store w))\<rparr>,
        tape := outs\<rparr>)"
  using assms unfolding deleteFakultas_def
  by (simp add: run_ready sql_delete_fakultas_def)

lemma delete_then_get_fakultas:
  assumes "db (guard w) = Some h" and "tape w = Resolves # Resolves # outs"
  shows "\<exists>w1. deleteFakultas i w = (Returns (), w1)
           \<and> getFakultasById i w1 = (Returns None, w1\<lparr>tape := outs\<rparr>)"
proof -
  let ?w1 = "w\<lparr>store := (store w)\<lparr>fakultas_table := filter (\<lambda>r. f_id r \<noteq> i) (fakultas_table (store w))\<rparr>,
             tape := Resolves # outs\<rparr>"
  have del: "deleteFakultas i w = (Returns (), ?w1)"
    by (rule deleteFakultas_ready [OF assms])
  have "getFakultasById i ?w1 = (Returns None, ?w1\<lparr>tape := outs\<rparr>)"
    using assms(1)
    by (simp add: getFakultasById_ready [where h = h and outs = outs] find_filter_other)
  with del show ?thesis by blast
qed
subsection \<open>The example store\<close>

lemma example_world_tape2: "tape example_world = Resolves # Resolves # []"
  by (simp add: example_world_def)

lemma example_tables:
  "mahasiswa_table (store example_world) = [example_siti, example_budi]"
  "prodi_table (store example_world) = [example_prodi_ti, example_prodi_hk]"
  "fakultas_table (store example_world) = [example_fakultas_ft, example_fakultas_fh]"
  "mahasiswa_seq (store example_world) = 2"
  "prodi_seq (store example_world) = 2"
  "fakultas_seq (store example_world) = 2"
  "current_timestamp (store example_world) = ''2024-02-01 09:30:00''"
  by (simp_all add: example_world_def example_store_def)

lemma example_row_keys:
  "m_id example_siti = 1" "m_id example_budi = 2"
  "m_nim example_siti = ''2301''" "m_nim example_budi = ''2302''"
  "p_id example_prodi_ti = 1" "p_id example_prodi_hk = 2"
  "p_kode_prodi example_prodi_ti = ''TI''" "p_kode_prodi example_prodi_hk = ''HK''"
  "f_id example_fakultas_ft = 1" "f_id example_fakultas_fh = 2"
  "f_kode_fakultas example_fakultas_ft = ''FT''" "f_kode_fakultas example_fakultas_fh = ''FH''"
  by (simp_all add: example_siti_def example_budi_def example_prodi_ti_def
      example_prodi_hk_def example_fakultas_ft_def example_fakultas_fh_def)

lemma example_input_keys:
  "m_nim example_new_mahasiswa = ''2303''" "m_nim example_blank_mahasiswa = ''2304''"
  "p_kode_prodi example_new_prodi = ''MI''" "p_kode_prodi example_blank_prodi = ''SI''"
  "f_kode_fakultas example_new_fakultas = ''FE''"
  by (simp_all add: example_new_mahasiswa_def example_blank_mahasiswa_def
      example_new_prodi_def example_blank_prodi_def example_new_fakultas_def)

lemma example_next_rowid: "next_rowid [1, 2] 2 = 3"
  by (simp add: next_rowid_def)

text \<open>
  C3, as amended. On an initialised connection that answers both statements: a create
  whose unique key is not yet in the table returns an id, and \<^verbatim>\<open>getById\<close> of that
  id returns the input with the id and the creation timestamp set; an update of an
  existing id whose unique key no other row holds is followed by a \<^verbatim>\<open>getById\<close> that
  returns the input with the id and the row's old timestamp; a delete is followed by a
  \<^verbatim>\<open>getById\<close> that returns \<^verbatim>\<open>null\<close>. For students every field comes back as
  given. For programs and faculties \<^verbatim>\<open>akreditasi\<close> and \<^verbatim>\<open>deskripsi\<close> come back
  as \<^verbatim>\<open>null\<close> when they were given as the empty string, and as given otherwise.
\<close>

theorem write_then_read_back:
  assumes "db (guard w) = Some h" and "tape w = Resolves # Resolves # outs"
  shows
    "(\<not> list_ex (\<lambda>r. m_nim r = m_nim mahasiswa) (mahasiswa_table (store w))
        \<longrightarrow> (\<exists>i w1. addMahasiswa mahasiswa w = (Returns i, w1)
              \<and> getMahasiswaById i w1
                  = (Returns (Some (mahasiswa\<lparr>m_id := i,
                        m_created_at := Some (current_timestamp (store w))\<rparr>)),
                     w1\<lparr>tape := outs\<rparr>)))
     \<and> (\<forall>old. find (\<lambda>r. m_id r = mid) (mahasiswa_table (store w)) = Some old
            \<and> \<not> list_ex (\<lambda>r. m_id r \<noteq> mid \<and> m_nim r = m_nim mahasiswa)
                  (mahasiswa_table (store w))
        \<longrightarrow> (\<exists>w1. updateMahasiswa mid mahasiswa w = (Returns (), w1)
              \<and> getMahasiswaById mid w1
                  = (Returns (Some (mahasiswa\<lparr>m_id := mid,
                        m_created_at := m_created_at old\<rparr>)), w1\<lparr>tape := outs\<rparr>)))
     \<and> (\<exists>w1. deleteMahasiswa mid w = (Returns (), w1)
              \<and> getMahasiswaById mid w1 = (Returns None, w1\<lparr>tape := outs\<rparr>))
     \<and> (\<not> list_ex (\<lambda>r. p_kode_prodi r = p_kode_prodi prodi) (prodi_table (store w))
        \<longrightarrow> (\<exists>i w1. addProdi prodi w = (Returns i, w1)
              \<and> getProdiById i w1
                  = (Returns (Some (prodi\<lparr>p_id := i,
                        p_akreditasi := or_null (p_akreditasi prodi),
                        p_deskripsi := or_null (p_deskripsi prodi),
                        p_created_at := Some (current_timestamp (store w))\<rparr>)),
                     w1\<lparr>tape := outs\<rparr>)))
     \<and> (\<forall>old. find (\<lambda>r. p_id r = prid) (prodi_table (store w)) = Some old
            \<and> \<not> list_ex (\<lambda>r. p_id r \<noteq> prid \<and> p_kode_prodi r = p_kode_prodi prodi)
                  (prodi_table (store w))
        \<longrightarrow> (\<exists>w1. updateProdi prid prodi w = (Returns (), w1)
              \<and> getProdiById prid w1
                  = (Returns (Some (prodi\<lparr>p_id := prid,
                        p_akreditasi := or_null (p_akreditasi prodi),
                        p_deskripsi := or_null (p_deskripsi prodi),
                        p_created_at := p_created_at old\<rparr>)), w1\<lparr>tape := outs\<rparr>)))
     \<and> (\<exists>w1. deleteProdi prid w = (Returns (), w1)
              \<and> getProdiById prid w1 = (Returns None, w1\<lparr>tape := outs\<rparr>))
     \<and> (\<not> list_ex (\<lambda>r. f_kode_fakultas r = f_kode_fakultas fakultas)
            (fakultas_table (store w))
        \<longrightarrow> (\<exists>i w1. addFakultas fakultas w = (Returns i, w1)
              \<and> getFakultasById i w1
                  = (Returns (Some (fakultas\<lparr>f_id := i,
                        f_deskripsi := or_null (f_deskripsi fakultas),
                        f_created_at := Some (current_timestamp (store w))\<rparr>)),
                     w1\<lparr>tape := outs\<rparr>)))
     \<and> (\<forall>old. find (\<lambda>r. f_id r = fkid) (fakultas_table (store w)) = Some old
            \<and> \<not> list_ex (\<lambda>r. f_id r \<noteq> fkid \<and> f_kode_fakultas r = f_kode_fakultas fakultas)
                  (fakultas_table (store w))
        \<longrightarrow> (\<exists>w1. updateFakultas fkid fakultas w = (Returns (), w1)
              \<and> getFakultasById fkid w1
                  = (Returns (Some (fakultas\<lparr>f_id := fkid,
                        f_deskripsi := or_null (f_deskripsi fakultas),
                        f_created_at := f_created_at old\<rparr>)), w1\<lparr>tape := outs\<rparr>)))
     \<and> (\<exists>w1. deleteFakultas fkid w = (Returns (), w1)
              \<and> getFakultasById fkid w1 = (Returns None, w1\<lparr>tape := outs\<rparr>))"
  using create_then_get_mahasiswa [OF assms] update_then_get_mahasiswa [OF assms]
    delete_then_get_mahasiswa [OF assms]
    create_then_get_prodi [OF assms] update_then_get_prodi [OF assms]
    delete_then_get_prodi [OF assms]
    create_then_get_fakultas [OF assms] update_then_get_fakultas [OF assms]
    delete_then_get_fakultas [OF assms]
  by blast
lemma example_no_clash:
  "\<not> list_ex (\<lambda>r. m_nim r = m_nim example_new_mahasiswa) (mahasiswa_table (store example_world))"
  "\<not> list_ex (\<lambda>r. m_id r \<noteq> 2 \<and> m_nim r = m_nim example_new_mahasiswa)
        (mahasiswa_table (store example_world))"
  "\<not> list_ex (\<lambda>r. m_nim r = m_nim example_blank_mahasiswa)
        (mahasiswa_table (store example_world))"
  "\<not> list_ex (\<lambda>r. p_kode_prodi r = p_kode_prodi example_new_prodi)
        (prodi_table (store example_world))"
  "\<not> list_ex (\<lambda>r. p_id r \<noteq> 2 \<and> p_kode_prodi r = p_kode_prodi example_new_prodi)
        (prodi_table (store example_world))"
  "\<not> list_ex (\<lambda>r. p_kode_prodi r = p_kode_prodi example_blank_prodi)
        (prodi_table (store example_world))"
  "\<not> list_ex (\<lambda>r. f_kode_fakultas r = f_kode_fakultas example_new_fakultas)
        (fakultas_table (store example_world))"
  "\<not> list_ex (\<lambda>r. f_id r \<noteq> 2 \<and> f_kode_fakultas r = f_kode_fakultas example_new_fakultas)
        (fakultas_table (store example_world))"
  by (simp_all add: example_tables example_row_keys example_input_keys)

lemma example_find_rows:
  "find (\<lambda>r. m_id r = 2) (mahasiswa_table (store example_world)) = Some example_budi"
  "find (\<lambda>r. p_id r = 2) (prodi_table (store example_world)) = Some example_prodi_hk"
  "find (\<lambda>r. f_id r = 2) (fakultas_table (store example_world)) = Some example_fakultas_fh"
  by (simp_all add: example_tables example_row_keys)

theorem write_then_read_back_witness:
  "db (guard example_world) = Some 0 \<and> tape example_world = Resolves # Resolves # []
   \<and> \<not> list_ex (\<lambda>r. m_nim r = m_nim example_new_mahasiswa)
          (mahasiswa_table (store example_world))
   \<and> (\<exists>i w1. addMahasiswa example_new_mahasiswa example_world = (Returns i, w1)
         \<and> getMahasiswaById i w1
             = (Returns (Some (example_new_mahasiswa\<lparr>m_id := i,
                   m_created_at := Some (current_timestamp (store example_world))\<rparr>)),
                w1\<lparr>tape := []\<rparr>))
   \<and> find (\<lambda>r. m_id r = 2) (mahasiswa_table (store example_world)) = Some example_budi
   \<and> \<not> list_ex (\<lambda>r. m_id r \<noteq> 2 \<and> m_nim r = m_nim example_new_mahasiswa)
          (mahasiswa_table (store example_world))
   \<and> (\<exists>w1. updateMahasiswa 2 example_new_mahasiswa example_world = (Returns (), w1)
         \<and> getMahasiswaById 2 w1
             = (Returns (Some (example_new_mahasiswa\<lparr>m_id := 2,
                   m_created_at := m_created_at example_budi\<rparr>)), w1\<lparr>tape := []\<rparr>))
   \<and> (\<exists>w1. deleteMahasiswa 2 example_world = (Returns (), w1)
         \<and> getMahasiswaById 2 w1 = (Returns None, w1\<lparr>tape := []\<rparr>))
   \<and> \<not> list_ex (\<lambda>r. p_kode_prodi r = p_kode_prodi example_new_prodi)
          (prodi_table (store example_world))
   \<and> (\<exists>i w1. addProdi example_new_prodi example_world = (Returns i, w1)
         \<and> getProdiById i w1
             = (Returns (Some (example_new_prodi\<lparr>p_id := i,
                   p_akreditasi := or_null (p_akreditasi example_new_prodi),
                   p_deskripsi := or_null (p_deskripsi example_new_prodi),
                   p_created_at := Some (current_timestamp (store example_world))\<rparr>)),
                w1\<lparr>tape := []\<rparr>))
   \<and> find (\<lambda>r. p_id r = 2) (prodi_table (store example_world)) = Some example_prodi_hk
   \<and> \<not> list_ex (\<lambda>r. p_id r \<noteq> 2 \<and> p_kode_prodi r = p_kode_prodi example_new_prodi)
          (prodi_table (store example_world))
   \<and> (\<exists>w1. updateProdi 2 example_new_prodi example_world = (Returns (), w1)
         \<and> getProdiById 2 w1
             = (Returns (Some (example_new_prodi\<lparr>p_id := 2,
                   p_akreditasi := or_null (p_akreditasi example_new_prodi),
                   p_deskripsi := or_null (p_deskripsi example_new_prodi),
                   p_created_at := p_created_at example_prodi_hk\<rparr>)), w1\<lparr>tape := []\<rparr>))
   \<and> \<not> list_ex (\<lambda>r. f_kode_fakultas r = f_kode_fakultas example_new_fakultas)
          (fakultas_table (store example_world))
   \<and> (\<exists>i w1. addFakultas example_new_fakultas example_world = (Returns i, w1)
         \<and> getFakultasById i w1
             = (Returns (Some (example_new_fakultas\<lparr>f_id := i,
                   f_deskripsi := or_null (f_deskripsi example_new_fakultas),
                   f_created_at := Some (current_timestamp (store example_world))\<rparr>)),
                w1\<lparr>tape := []\<rparr>))
   \<and> find (\<lambda>r. f_id r = 2) (fakultas_table (store example_world)) = Some example_fakultas_fh
   \<and> \<not> list_ex (\<lambda>r. f_id r \<noteq> 2 \<and> f_kode_fakultas r = f_kode_fakultas example_new_fakultas)
          (fakultas_table (store example_world))
   \<and> (\<exists>w1. updateFakultas 2 example_new_fakultas example_world = (Returns (), w1)
         \<and> getFakultasById 2 w1
             = (Returns (Some (example_new_fakultas\<lparr>f_id := 2,
                   f_deskripsi := or_null (f_deskripsi example_new_fakultas),
                   f_created_at := f_created_at example_fakultas_fh\<rparr>)),
                w1\<lparr>tape := []\<rparr>))"
  using write_then_read_back [OF example_world_ready example_world_tape2,
      where mahasiswa = example_new_mahasiswa and mid = 2
        and prodi = example_new_prodi and prid = 2
        and fakultas = example_new_fakultas and fkid = 2]
    example_world_ready example_world_tape2 example_no_clash example_find_rows
  by blast

text \<open>
  C3 as it is written fails for a program whose \<^verbatim>\<open>akreditasi\<close> is the empty string:
  the create returns id 3, and \<^verbatim>\<open>getProdiById(3)\<close> returns a row whose
  \<^verbatim>\<open>akreditasi\<close> is \<^verbatim>\<open>null\<close>.
\<close>

theorem empty_akreditasi_counterexample:
  "fst (addProdi example_blank_prodi example_world) = Returns 3
   \<and> fst (getProdiById 3 (snd (addProdi example_blank_prodi example_world)))
       = Returns (Some (example_blank_prodi\<lparr>p_id := 3, p_akreditasi := None,
                          p_created_at := Some ''2024-02-01 09:30:00''\<rparr>))
   \<and> p_akreditasi example_blank_prodi = Some []"
proof -
  have i: "next_rowid (map p_id (prodi_table (store example_world)))
             (prodi_seq (store example_world)) = 3"
    by (simp add: example_tables example_row_keys example_next_rowid)
  have added: "fst (addProdi example_blank_prodi example_world) = Returns 3"
    by (simp add: addProdi_ready [OF example_world_ready example_world_tape2
          example_no_clash(6)] i)
  from create_then_get_prodi [OF example_world_ready example_world_tape2 example_no_clash(6)]
  obtain j w1 where
    a: "addProdi example_blank_prodi example_world = (Returns j, w1)"
    and g: "getProdiById j w1
              = (Returns (Some (example_blank_prodi\<lparr>p_id := j,
                    p_akreditasi := or_null (p_akreditasi example_blank_prodi),
                    p_deskripsi := or_null (p_deskripsi example_blank_prodi),
                    p_created_at := Some (current_timestamp (store example_world))\<rparr>)),
                 w1\<lparr>tape := []\<rparr>)"
    by blast
  from a added have j: "j = 3" and w1: "w1 = snd (addProdi example_blank_prodi example_world)"
    by simp_all
  have stored: "example_blank_prodi\<lparr>p_id := 3,
                    p_akreditasi := or_null (p_akreditasi example_blank_prodi),
                    p_deskripsi := or_null (p_deskripsi example_blank_prodi),
                    p_created_at := Some (current_timestamp (store example_world))\<rparr>
                = example_blank_prodi\<lparr>p_id := 3, p_akreditasi := None,
                          p_created_at := Some ''2024-02-01 09:30:00''\<rparr>"
    by (simp add: example_blank_prodi_def example_tables)
  from g have "fst (getProdiById 3 (snd (addProdi example_blank_prodi example_world)))
       = Returns (Some (example_blank_prodi\<lparr>p_id := 3, p_akreditasi := None,
                          p_created_at := Some ''2024-02-01 09:30:00''\<rparr>))"
    unfolding j w1 stored by simp
  with added show ?thesis by (simp add: example_blank_prodi_def)
qed
lemma or_null_never_empty: "or_null x \<noteq> Some []"
  by (cases x) simp_all

text \<open>
  C6, as amended. On an initialised connection that answers both statements, the row read
  back after a create or an update holds, for \<^verbatim>\<open>akreditasi\<close> and \<^verbatim>\<open>deskripsi\<close>
  of a program and \<^verbatim>\<open>deskripsi\<close> of a faculty, \<^verbatim>\<open>null\<close> when the field was not
  given or was given as the empty string and the given text otherwise, hence never the
  empty string; for \<^verbatim>\<open>fakultas\<close> of a student it holds \<^verbatim>\<open>null\<close> when the field
  was not given and the given text otherwise, the empty string included.
\<close>

theorem optional_fields_stored:
  assumes "db (guard w) = Some h" and "tape w = Resolves # Resolves # outs"
  shows
    "(\<not> list_ex (\<lambda>r. p_kode_prodi r = p_kode_prodi prodi) (prodi_table (store w))
        \<longrightarrow> (\<exists>i w1 row. addProdi prodi w = (Returns i, w1)
              \<and> getProdiById i w1 = (Returns (Some row), w1\<lparr>tape := outs\<rparr>)
              \<and> p_akreditasi row = or_null (p_akreditasi prodi)
              \<and> p_deskripsi row = or_null (p_deskripsi prodi)
              \<and> p_akreditasi row \<noteq> Some [] \<and> p_deskripsi row \<noteq> Some []))
     \<and> (\<forall>old. find (\<lambda>r. p_id r = prid) (prodi_table (store w)) = Some old
            \<and> \<not> list_ex (\<lambda>r. p_id r \<noteq> prid \<and> p_kode_prodi r = p_kode_prodi prodi)
                  (prodi_table (store w))
        \<longrightarrow> (\<exists>w1 row. updateProdi prid prodi w = (Returns (), w1)
              \<and> getProdiById prid w1 = (Returns (Some row), w1\<lparr>tape := outs\<rparr>)
              \<and> p_akreditasi row = or_null (p_akreditasi prodi)
              \<and> p_deskripsi row = or_null (p_deskripsi prodi)
              \<and> p_akreditasi row \<noteq> Some [] \<and> p_deskripsi row \<noteq> Some []))
     \<and> (\<not> list_ex (\<lambda>r. f_kode_fakultas r = f_kode_fakultas fakultas)
            (fakultas_table (store w))
        \<longrightarrow> (\<exists>i w1 row. addFakultas fakultas w = (Returns i, w1)
              \<and> getFakultasById i w1 = (Returns (Some row), w1\<lparr>tape := outs\<rparr>)
              \<and> f_deskripsi row = or_null (f_deskripsi fakultas)
              \<and> f_deskripsi row \<noteq> Some []))
     \<and> (\<forall>old. find (\<lambda>r. f_id r = fkid) (fakultas_table (store w)) = Some old
            \<and> \<not> list_ex (\<lambda>r. f_id r \<noteq> fkid \<and> f_kode_fakultas r = f_kode_fakultas fakultas)
                  (fakultas_table (store w))
        \<longrightarrow> (\<exists>w1 row. updateFakultas fkid fakultas w = (Returns (), w1)
              \<and> getFakultasById fkid w1 = (Returns (Some row), w1\<lparr>tape := outs\<rparr>)
              \<and> f_deskripsi row = or_null (f_deskripsi fakultas)
              \<and> f_deskripsi row \<noteq> Some []))
     \<and> (\<not> list_ex (\<lambda>r. m_nim r = m_nim mahasiswa) (mahasiswa_table (store w))
        \<longrightarrow> (\<exists>i w1 row. addMahasiswa mahasiswa w = (Returns i, w1)
              \<and> getMahasiswaById i w1 = (Returns (Some row), w1\<lparr>tape := outs\<rparr>)
              \<and> m_fakultas row = m_fakultas mahasiswa))
     \<and> (\<forall>old. find (\<lambda>r. m_id r = mid) (mahasiswa_table (store w)) = Some old
            \<and> \<not> list_ex (\<lambda>r. m_id r \<noteq> mid \<and> m_nim r = m_nim mahasiswa)
                  (mahasiswa_table (store w))
        \<longrightarrow> (\<exists>w1 row. updateMahasiswa mid mahasiswa w = (Returns (), w1)
              \<and> getMahasiswaById mid w1 = (Returns (Some row), w1\<lparr>tape := outs\<rparr>)
              \<and> m_fakultas row = m_fakultas mahasiswa))
     \<and> or_null None = None"
proof -
  have p1: "\<not> list_ex (\<lambda>r. p_kode_prodi r = p_kode_prodi prodi) (prodi_table (store w))
        \<longrightarrow> (\<exists>i w1 row. addProdi prodi w = (Returns i, w1)
              \<and> getProdiById i w1 = (Returns (Some row), w1\<lparr>tape := outs\<rparr>)
              \<and> p_akreditasi row = or_null (p_akreditasi prodi)
              \<and> p_deskripsi row = or_null (p_deskripsi prodi)
              \<and> p_akreditasi row \<noteq> Some [] \<and> p_deskripsi row \<noteq> Some [])"
  proof
    assume "\<not> list_ex (\<lambda>r. p_kode_prodi r = p_kode_prodi prodi) (prodi_table (store w))"
    from create_then_get_prodi [OF assms this] obtain i w1 where
      "addProdi prodi w = (Returns i, w1)"
      "getProdiById i w1
         = (Returns (Some (prodi\<lparr>p_id := i, p_akreditasi := or_null (p_akreditasi prodi),
                             p_deskripsi := or_null (p_deskripsi prodi),
                             p_created_at := Some (current_timestamp (store w))\<rparr>)),
            w1\<lparr>tape := outs\<rparr>)"
      by blast
    then show "\<exists>i w1 row. addProdi prodi w = (Returns i, w1)
              \<and> getProdiById i w1 = (Returns (Some row), w1\<lparr>tape := outs\<rparr>)
              \<and> p_akreditasi row = or_null (p_akreditasi prodi)
              \<and> p_deskripsi row = or_null (p_deskripsi prodi)
              \<and> p_akreditasi row \<noteq> Some [] \<and> p_deskripsi row \<noteq> Some []"
      by (intro exI [of _ i] exI [of _ w1]
          exI [of _ "prodi\<lparr>p_id := i, p_akreditasi := or_null (p_akreditasi prodi),
                             p_deskripsi := or_null (p_deskripsi prodi),
                             p_created_at := Some (current_timestamp (store w))\<rparr>"])
         (simp add: or_null_never_empty)
  qed
  have p2: "\<forall>old. find (\<lambda>r. p_id r = prid) (prodi_table (store w)) = Some old
            \<and> \<not> list_ex (\<lambda>r. p_id r \<noteq> prid \<and> p_kode_prodi r = p_kode_prodi prodi)
                  (prodi_table (store w))
        \<longrightarrow> (\<exists>w1 row. updateProdi prid prodi w = (Returns (), w1)
              \<and> getProdiById prid w1 = (Returns (Some row), w1\<lparr>tape := outs\<rparr>)
              \<and> p_akreditasi row = or_null (p_akreditasi prodi)
              \<and> p_deskripsi row = or_null (p_deskripsi prodi)
              \<and> p_akreditasi row \<noteq> Some [] \<and> p_deskripsi row \<noteq> Some [])"
  proof (intro allI impI, elim conjE)
    fix old
    assume "find (\<lambda>r. p_id r = prid) (prodi_table (store w)) = Some old"
      and "\<not> list_ex (\<lambda>r. p_id r \<noteq> prid \<and> p_kode_prodi r = p_kode_prodi prodi)
                  (prodi_table (store w))"
    from update_then_get_prodi [OF assms this] obtain w1 where
      "updateProdi prid prodi w = (Returns (), w1)"
      "getProdiById prid w1
         = (Returns (Some (prodi\<lparr>p_id := prid, p_akreditasi := or_null (p_akreditasi prodi),
                             p_deskripsi := or_null (p_deskripsi prodi),
                             p_created_at := p_created_at old\<rparr>)),
            w1\<lparr>tape := outs\<rparr>)"
      by blast
    then show "\<exists>w1 row. updateProdi prid prodi w = (Returns (), w1)
              \<and> getProdiById prid w1 = (Returns (Some row), w1\<lparr>tape := outs\<rparr>)
              \<and> p_akreditasi row = or_null (p_akreditasi prodi)
              \<and> p_deskripsi row = or_null (p_deskripsi prodi)
              \<and> p_akreditasi row \<noteq> Some [] \<and> p_deskripsi row \<noteq> Some []"
      by (intro exI [of _ w1]
          exI [of _ "prodi\<lparr>p_id := prid, p_akreditasi := or_null (p_akreditasi prodi),
                             p_deskripsi := or_null (p_deskripsi prodi),
                             p_created_at := p_created_at old\<rparr>"])
         (simp add: or_null_never_empty)
  qed
  have f1: "\<not> list_ex (\<lambda>r. f_kode_fakultas r = f_kode_fakultas fakultas)
            (fakultas_table (store w))
        \<longrightarrow> (\<exists>i w1 row. addFakultas fakultas w = (Returns i, w1)
              \<and> getFakultasById i w1 = (Returns (Some row), w1\<lparr>tape := outs\<rparr>)
              \<and> f_deskripsi row = or_null (f_deskripsi fakultas)
              \<and> f_deskripsi row \<noteq> Some [])"
  proof
    assume "\<not> list_ex (\<lambda>r. f_kode_fakultas r = f_kode_fakultas fakultas)
            (fakultas_table (store w))"
    from create_then_get_fakultas [OF assms this] obtain i w1 where
      "addFakultas fakultas w = (Returns i, w1)"
      "getFakultasById i w1
         = (Returns (Some (fakultas\<lparr>f_id := i, f_deskripsi := or_null (f_deskripsi fakultas),
                             f_created_at := Some (current_timestamp (store w))\<rparr>)),
            w1\<lparr>tape := outs\<rparr>)"
      by blast
    then show "\<exists>i w1 row. addFakultas fakultas w = (Returns i, w1)
              \<and> getFakultasById i w1 = (Returns (Some row), w1\<lparr>tape := outs\<rparr>)
              \<and> f_deskripsi row = or_null (f_deskripsi fakultas)
              \<and> f_deskripsi row \<noteq> Some []"
      by (intro exI [of _ i] exI [of _ w1]
          exI [of _ "fakultas\<lparr>f_id := i, f_deskripsi := or_null (f_deskripsi fakultas),
                             f_created_at := Some (current_timestamp (store w))\<rparr>"])
         (simp add: or_null_never_empty)
  qed
  have f2: "\<forall>old. find (\<lambda>r. f_id r = fkid) (fakultas_table (store w)) = Some old
            \<and> \<not> list_ex (\<lambda>r. f_id r \<noteq> fkid \<and> f_kode_fakultas r = f_kode_fakultas fakultas)
                  (fakultas_table (store w))
        \<longrightarrow> (\<exists>w1 row. updateFakultas fkid fakultas w = (Returns (), w1)
              \<and> getFakultasById fkid w1 = (Returns (Some row), w1\<lparr>tape := outs\<rparr>)
              \<and> f_deskripsi row = or_null (f_deskripsi fakultas)
              \<and> f_deskripsi row \<noteq> Some [])"
  proof (intro allI impI, elim conjE)
    fix old
    assume "find (\<lambda>r. f_id r = fkid) (fakultas_table (store w)) = Some old"
      and "\<not> list_ex (\<lambda>r. f_id r \<noteq> fkid \<and> f_kode_fakultas r = f_kode_fakultas fakultas)
                  (fakultas_table (store w))"
    from update_then_get_fakultas [OF assms this] obtain w1 where
      "updateFakultas fkid fakultas w = (Returns (), w1)"
      "getFakultasById fkid w1
         = (Returns (Some (fakultas\<lparr>f_id := fkid,
                             f_deskripsi := or_null (f_deskripsi fakultas),
                             f_created_at := f_created_at old\<rparr>)),
            w1\<lparr>tape := outs\<rparr>)"
      by blast
    then show "\<exists>w1 row. updateFakultas fkid fakultas w = (Returns (), w1)
              \<and> getFakultasById fkid w1 = (Returns (Some row), w1\<lparr>tape := outs\<rparr>)
              \<and> f_deskripsi row = or_null (f_deskripsi fakultas)
              \<and> f_deskripsi row \<noteq> Some []"
      by (intro exI [of _ w1]
          exI [of _ "fakultas\<lparr>f_id := fkid, f_deskripsi := or_null (f_deskripsi fakultas),
                             f_created_at := f_created_at old\<rparr>"])
         (simp add: or_null_never_empty)
  qed
  have m1: "\<not> list_ex (\<lambda>r. m_nim r = m_nim mahasiswa) (mahasiswa_table (store w))
        \<longrightarrow> (\<exists>i w1 row. addMahasiswa mahasiswa w = (Returns i, w1)
              \<and> getMahasiswaById i w1 = (Returns (Some row), w1\<lparr>tape := outs\<rparr>)
              \<and> m_fakultas row = m_fakultas mahasiswa)"
  proof
    assume "\<not> list_ex (\<lambda>r. m_nim r = m_nim mahasiswa) (mahasiswa_table (store w))"
    from create_then_get_mahasiswa [OF assms this] obtain i w1 where
      "addMahasiswa mahasiswa w = (Returns i, w1)"
      "getMahasiswaById i w1
         = (Returns (Some (mahasiswa\<lparr>m_id := i,
                             m_created_at := Some (current_timestamp (store w))\<rparr>)),
            w1\<lparr>tape := outs\<rparr>)"
      by blast
    then show "\<exists>i w1 row. addMahasiswa mahasiswa w = (Returns i, w1)
              \<and> getMahasiswaById i w1 = (Returns (Some row), w1\<lparr>tape := outs\<rparr>)
              \<and> m_fakultas row = m_fakultas mahasiswa"
      by (intro exI [of _ i] exI [of _ w1]
          exI [of _ "mahasiswa\<lparr>m_id := i,
                             m_created_at := Some (current_timestamp (store w))\<rparr>"]) simp
  qed
  have m2: "\<forall>old. find (\<lambda>r. m_id r = mid) (mahasiswa_table (store w)) = Some old
            \<and> \<not> list_ex (\<lambda>r. m_id r \<noteq> mid \<and> m_nim r = m_nim mahasiswa)
                  (mahasiswa_table (store w))
        \<longrightarrow> (\<exists>w1 row. updateMahasiswa mid mahasiswa w = (Returns (), w1)
              \<and> getMahasiswaById mid w1 = (Returns (Some row), w1\<lparr>tape := outs\<rparr>)
              \<and> m_fakultas row = m_fakultas mahasiswa)"
  proof (intro allI impI, elim conjE)
    fix old
    assume "find (\<lambda>r. m_id r = mid) (mahasiswa_table (store w)) = Some old"
      and "\<not> list_ex (\<lambda>r. m_id r \<noteq> mid \<and> m_nim r = m_nim mahasiswa)
                  (mahasiswa_table (store w))"
    from update_then_get_mahasiswa [OF assms this] obtain w1 where
      "updateMahasiswa mid mahasiswa w = (Returns (), w1)"
      "getMahasiswaById mid w1
         = (Returns (Some (mahasiswa\<lparr>m_id := mid, m_created_at := m_created_at old\<rparr>)),
            w1\<lparr>tape := outs\<rparr>)"
      by blast
    then show "\<exists>w1 row. updateMahasiswa mid mahasiswa w = (Returns (), w1)
              \<and> getMahasiswaById mid w1 = (Returns (Some row), w1\<lparr>tape := outs\<rparr>)
              \<and> m_fakultas row = m_fakultas mahasiswa"
      by (intro exI [of _ w1]
          exI [of _ "mahasiswa\<lparr>m_id := mid, m_created_at := m_created_at old\<rparr>"]) simp
  qed
  from p1 p2 f1 f2 m1 m2 show ?thesis by simp
qed

theorem optional_fields_stored_witness:
  "db (guard example_world) = Some 0 \<and> tape example_world = Resolves # Resolves # []
   \<and> \<not> list_ex (\<lambda>r. p_kode_prodi r = p_kode_prodi example_new_prodi)
          (prodi_table (store example_world))
   \<and> (\<exists>i w1 row. addProdi example_new_prodi example_world = (Returns i, w1)
         \<and> getProdiById i w1 = (Returns (Some row), w1\<lparr>tape := []\<rparr>)
         \<and> p_akreditasi row = or_null (p_akreditasi example_new_prodi)
         \<and> p_deskripsi row = or_null (p_deskripsi example_new_prodi)
         \<and> p_akreditasi row \<noteq> Some [] \<and> p_deskripsi row \<noteq> Some [])
   \<and> p_deskripsi example_new_prodi = None
   \<and> find (\<lambda>r. p_id r = 2) (prodi_table (store example_world)) = Some example_prodi_hk
   \<and> \<not> list_ex (\<lambda>r. p_id r \<noteq> 2 \<and> p_kode_prodi r = p_kode_prodi example_new_prodi)
          (prodi_table (store example_world))
   \<and> (\<exists>w1 row. updateProdi 2 example_new_prodi example_world = (Returns (), w1)
         \<and> getProdiById 2 w1 = (Returns (Some row), w1\<lparr>tape := []\<rparr>)
         \<and> p_akreditasi row = or_null (p_akreditasi example_new_prodi)
         \<and> p_deskripsi row = or_null (p_deskripsi example_new_prodi)
         \<and> p_akreditasi row \<noteq> Some [] \<and> p_deskripsi row \<noteq> Some [])
   \<and> \<not> list_ex (\<lambda>r. f_kode_fakultas r = f_kode_fakultas example_new_fakultas)
          (fakultas_table (store example_world))
   \<and> (\<exists>i w1 row. addFakultas example_new_fakultas example_world = (Returns i, w1)
         \<and> getFakultasById i w1 = (Returns (Some row), w1\<lparr>tape := []\<rparr>)
         \<and> f_deskripsi row = or_null (f_deskripsi example_new_fakultas)
         \<and> f_deskripsi row \<noteq> Some [])
   \<and> find (\<lambda>r. f_id r = 2) (fakultas_table (store example_world)) = Some example_fakultas_fh
   \<and> \<not> list_ex (\<lambda>r. f_id r \<noteq> 2 \<and> f_kode_fakultas r = f_kode_fakultas example_new_fakultas)
          (fakultas_table (store example_world))
   \<and> (\<exists>w1 row. updateFakultas 2 example_new_fakultas example_world = (Returns (), w1)
         \<and> getFakultasById 2 w1 = (Returns (Some row), w1\<lparr>tape := []\<rparr>)
         \<and> f_deskripsi row = or_null (f_deskripsi example_new_fakultas)
         \<and> f_deskripsi row \<noteq> Some [])
   \<and> \<not> list_ex (\<lambda>r. m_nim r = m_nim example_new_mahasiswa)
          (mahasiswa_table (store example_world))
   \<and> (\<exists>i w1 row. addMahasiswa example_new_mahasiswa example_world = (Returns i, w1)
         \<and> getMahasiswaById i w1 = (Returns (Some row), w1\<lparr>tape := []\<rparr>)
         \<and> m_fakultas row = m_fakultas example_new_mahasiswa)
   \<and> m_fakultas example_new_mahasiswa = None
   \<and> find (\<lambda>r. m_id r = 2) (mahasiswa_table (store example_world)) = Some example_budi
   \<and> \<not> list_ex (\<lambda>r. m_id r \<noteq> 2 \<and> m_nim r = m_nim example_new_mahasiswa)
          (mahasiswa_table (store example_world))
   \<and> (\<exists>w1 row. updateMahasiswa 2 example_new_mahasiswa example_world = (Returns (), w1)
         \<and> getMahasiswaById 2 w1 = (Returns (Some row), w1\<lparr>tape := []\<rparr>)
         \<and> m_fakultas row = m_fakultas example_new_mahasiswa)"
proof -
  have none: "p_deskripsi example_new_prodi = None" "m_fakultas example_new_mahasiswa = None"
    by (simp_all add: example_new_prodi_def example_new_mahasiswa_def)
  from optional_fields_stored [OF example_world_ready example_world_tape2,
      where mahasiswa = example_new_mahasiswa and mid = 2
        and prodi = example_new_prodi and prid = 2
        and fakultas = example_new_fakultas and fkid = 2]
    example_world_ready example_world_tape2 example_no_clash example_find_rows none
  show ?thesis by blast
qed

text \<open>
  C6 as it is written fails for a student whose \<^verbatim>\<open>fakultas\<close> is the empty string:
  the create returns id 3, and the row read back holds the empty string.
\<close>

theorem empty_fakultas_counterexample:
  "fst (addMahasiswa example_blank_mahasiswa example_world) = Returns 3
   \<and> fst (getMahasiswaById 3 (snd (addMahasiswa example_blank_mahasiswa example_world)))
       = Returns (Some (example_blank_mahasiswa\<lparr>m_id := 3,
                          m_created_at := Some ''2024-02-01 09:30:00''\<rparr>))
   \<and> m_fakultas (example_blank_mahasiswa\<lparr>m_id := 3,
                     m_created_at := Some ''2024-02-01 09:30:00''\<rparr>) = Some []"
proof -
  have i: "next_rowid (map m_id (mahasiswa_table (store example_world)))
             (mahasiswa_seq (store example_world)) = 3"
    by (simp add: example_tables example_row_keys example_next_rowid)
  have added: "fst (addMahasiswa example_blank_mahasiswa example_world) = Returns 3"
    by (simp add: addMahasiswa_ready [OF example_world_ready example_world_tape2
          example_no_clash(3)] i)
  from create_then_get_mahasiswa
         [OF example_world_ready example_world_tape2 example_no_clash(3)]
  obtain j w1 where
    a: "addMahasiswa example_blank_mahasiswa example_world = (Returns j, w1)"
    and g: "getMahasiswaById j w1
              = (Returns (Some (example_blank_mahasiswa\<lparr>m_id := j,
                    m_created_at := Some (current_timestamp (store example_world))\<rparr>)),
                 w1\<lparr>tape := []\<rparr>)"
    by blast
  from a added have j: "j = 3"
    and w1: "w1 = snd (addMahasiswa example_blank_mahasiswa example_world)"
    by simp_all
  from g have "fst (getMahasiswaById 3 (snd (addMahasiswa example_blank_mahasiswa example_world)))
       = Returns (Some (example_blank_mahasiswa\<lparr>m_id := 3,
                          m_created_at := Some ''2024-02-01 09:30:00''\<rparr>))"
    unfolding j w1 by (simp add: example_tables)
  with added show ?thesis by (simp add: example_blank_mahasiswa_def)
qed

section \<open>The guard under every schedule\<close>

lemma attempt_kinds:
  "(in_progress a \<or> succeeded a \<or> failed a)
   \<and> \<not> (in_progress a \<and> succeeded a) \<and> \<not> (in_progress a \<and> failed a)
   \<and> \<not> (succeeded a \<and> failed a)"
  by (cases a) simp_all

lemma guard_inv_uninitialized: "guard_inv uninitialized"
  by (simp add: guard_inv_def uninitialized_def)

lemma guard_inv_console_log [simp]: "guard_inv (console_log ts g) = guard_inv g"
  by (simp add: guard_inv_def)

lemma guard_inv_console_error [simp]: "guard_inv (console_error ts g) = guard_inv g"
  by (simp add: guard_inv_def)

lemma set_attempt_fields [simp]:
  "db (set_attempt p a g) = db g" "initPromise (set_attempt p a g) = initPromise g"
  "attempts (set_attempt p a g) = (attempts g)[p := a]"
  "console (set_attempt p a g) = console g"
  by (simp_all add: set_attempt_def)

lemma guard_invI:
  assumes "\<And>p. p < length (attempts g) \<Longrightarrow> in_progress (attempts g ! p)
             \<Longrightarrow> initPromise g = Some p \<and> db g = None"
    and "\<And>p. p < length (attempts g) \<Longrightarrow> succeeded (attempts g ! p)
             \<Longrightarrow> initPromise g = Some p \<and> db g = Some p"
    and "\<And>p h. p < length (attempts g) \<Longrightarrow> handle_of (attempts g ! p) = Some h \<Longrightarrow> h = p"
    and "\<And>p. initPromise g = Some p
             \<Longrightarrow> p < length (attempts g) \<and> \<not> failed (attempts g ! p)"
    and "\<And>h. db g = Some h \<Longrightarrow> h < length (attempts g) \<and> attempts g ! h = Fulfilled h"
  shows "guard_inv g"
  unfolding guard_inv_def using assms by blast

lemma guard_inv_in_progress:
  "guard_inv g \<Longrightarrow> p < length (attempts g) \<Longrightarrow> in_progress (attempts g ! p)
   \<Longrightarrow> initPromise g = Some p \<and> db g = None"
  unfolding guard_inv_def by blast

lemma guard_inv_succeeded:
  "guard_inv g \<Longrightarrow> p < length (attempts g) \<Longrightarrow> succeeded (attempts g ! p)
   \<Longrightarrow> initPromise g = Some p \<and> db g = Some p"
  unfolding guard_inv_def by blast

lemma guard_inv_handle:
  "guard_inv g \<Longrightarrow> p < length (attempts g) \<Longrightarrow> handle_of (attempts g ! p) = Some h \<Longrightarrow> h = p"
  unfolding guard_inv_def by blast

lemma guard_inv_initPromise:
  "guard_inv g \<Longrightarrow> initPromise g = Some p
   \<Longrightarrow> p < length (attempts g) \<and> \<not> failed (attempts g ! p)"
  unfolding guard_inv_def by blast

lemma guard_inv_db:
  "guard_inv g \<Longrightarrow> db g = Some h \<Longrightarrow> h < length (attempts g) \<and> attempts g ! h = Fulfilled h"
  unfolding guard_inv_def by blast

lemma in_progress_not_others: "in_progress a \<Longrightarrow> \<not> succeeded a \<and> \<not> failed a"
  by (cases a) simp_all

lemma failed_not_others: "failed a \<Longrightarrow> \<not> succeeded a \<and> \<not> in_progress a"
  by (cases a) simp_all

lemma succeeded_iff: "succeeded a = (\<exists>h. a = Fulfilled h)"
  by (cases a) simp_all

text \<open>A closure in progress moves to its next await.\<close>

lemma guard_inv_advance:
  assumes inv: "guard_inv g" and p: "p < length (attempts g)"
    and cur: "in_progress (attempts g ! p)"
    and a: "in_progress a" and h: "handle_of a = Some p"
  shows "guard_inv (set_attempt p a g)"
proof (rule guard_invI)
  from guard_inv_in_progress [OF inv p cur]
  have ip: "initPromise g = Some p" and d: "db g = None" by simp_all
  have nth: "(attempts g)[p := a] ! q = (if q = p then a else attempts g ! q)" for q
    using p by (simp add: nth_list_update)
  fix q
  {
    assume "q < length (attempts (set_attempt p a g))"
      and "in_progress (attempts (set_attempt p a g) ! q)"
    then have "q < length (attempts g)" "q = p \<or> in_progress (attempts g ! q)"
      by (simp_all add: nth split: if_splits)
    with guard_inv_in_progress [OF inv, of q] ip d
    show "initPromise (set_attempt p a g) = Some q \<and> db (set_attempt p a g) = None"
      by auto
  }
  {
    assume "q < length (attempts (set_attempt p a g))"
      and "succeeded (attempts (set_attempt p a g) ! q)"
    with a in_progress_not_others [OF a]
    have "q < length (attempts g)" "succeeded (attempts g ! q)"
      by (simp_all add: nth split: if_splits)
    with guard_inv_succeeded [OF inv, of q]
    show "initPromise (set_attempt p a g) = Some q \<and> db (set_attempt p a g) = Some q"
      by simp
  }
  {
    fix k
    assume "q < length (attempts (set_attempt p a g))"
      and "handle_of (attempts (set_attempt p a g) ! q) = Some k"
    then have "q < length (attempts g)"
      "(q = p \<and> handle_of a = Some k) \<or> handle_of (attempts g ! q) = Some k"
      by (simp_all add: nth split: if_splits)
    with guard_inv_handle [OF inv, of q k] h show "k = q" by auto
  }
  {
    assume "initPromise (set_attempt p a g) = Some q"
    then have "initPromise g = Some q" by simp
    with guard_inv_initPromise [OF inv this] in_progress_not_others [OF a]
    show "q < length (attempts (set_attempt p a g))
            \<and> \<not> failed (attempts (set_attempt p a g) ! q)"
      by (simp add: nth)
  }
  {
    assume "db (set_attempt p a g) = Some q"
    with d show "q < length (attempts (set_attempt p a g))
                   \<and> attempts (set_attempt p a g) ! q = Fulfilled q"
      by simp
  }
qed

text \<open>A closure in progress enters the catch block.\<close>

lemma guard_inv_fail:
  assumes inv: "guard_inv g" and p: "p < length (attempts g)"
    and cur: "in_progress (attempts g ! p)"
    and a: "failed a" and h: "handle_of a = None \<or> handle_of a = Some p"
  shows "guard_inv (set_attempt p a (g\<lparr>initPromise := None, db := None\<rparr>))"
proof (rule guard_invI)
  from guard_inv_in_progress [OF inv p cur]
  have ip: "initPromise g = Some p" by simp
  have nth: "(attempts g)[p := a] ! q = (if q = p then a else attempts g ! q)" for q
    using p by (simp add: nth_list_update)
  have alone: "\<not> in_progress (attempts g ! q) \<and> \<not> succeeded (attempts g ! q)"
    if "q < length (attempts g)" "q \<noteq> p" for q
    using guard_inv_in_progress [OF inv that(1)] guard_inv_succeeded [OF inv that(1)] ip that(2)
    by auto
  fix q
  {
    assume "q < length (attempts (set_attempt p a (g\<lparr>initPromise := None, db := None\<rparr>)))"
      and "in_progress (attempts (set_attempt p a (g\<lparr>initPromise := None, db := None\<rparr>)) ! q)"
    with alone [of q] failed_not_others [OF a]
    show "initPromise (set_attempt p a (g\<lparr>initPromise := None, db := None\<rparr>)) = Some q
            \<and> db (set_attempt p a (g\<lparr>initPromise := None, db := None\<rparr>)) = None"
      by (simp add: nth split: if_splits)
  }
  {
    assume "q < length (attempts (set_attempt p a (g\<lparr>initPromise := None, db := None\<rparr>)))"
      and "succeeded (attempts (set_attempt p a (g\<lparr>initPromise := None, db := None\<rparr>)) ! q)"
    with alone [of q] failed_not_others [OF a]
    show "initPromise (set_attempt p a (g\<lparr>initPromise := None, db := None\<rparr>)) = Some q
            \<and> db (set_attempt p a (g\<lparr>initPromise := None, db := None\<rparr>)) = Some q"
      by (simp add: nth split: if_splits)
  }
  {
    fix k
    assume "q < length (attempts (set_attempt p a (g\<lparr>initPromise := None, db := None\<rparr>)))"
      and "handle_of (attempts (set_attempt p a (g\<lparr>initPromise := None, db := None\<rparr>)) ! q)
             = Some k"
    then have "q < length (attempts g)"
      "(q = p \<and> handle_of a = Some k) \<or> handle_of (attempts g ! q) = Some k"
      by (simp_all add: nth split: if_splits)
    with guard_inv_handle [OF inv, of q k] h show "k = q" by auto
  }
  {
    assume "initPromise (set_attempt p a (g\<lparr>initPromise := None, db := None\<rparr>)) = Some q"
    then show "q < length (attempts (set_attempt p a (g\<lparr>initPromise := None, db := None\<rparr>)))
         \<and> \<not> failed (attempts (set_attempt p a (g\<lparr>initPromise := None, db := None\<rparr>)) ! q)"
      by simp
  }
  {
    assume "db (set_attempt p a (g\<lparr>initPromise := None, db := None\<rparr>)) = Some q"
    then show "q < length (attempts (set_attempt p a (g\<lparr>initPromise := None, db := None\<rparr>)))
         \<and> attempts (set_attempt p a (g\<lparr>initPromise := None, db := None\<rparr>)) ! q = Fulfilled q"
      by simp
  }
qed

lemma guard_inv_enter_catch:
  assumes inv: "guard_inv g" and p: "p < length (attempts g)"
    and cur: "in_progress (attempts g ! p)"
    and h: "database = None \<or> database = Some p"
  shows "guard_inv (enter_catch p database error g)"
proof (cases database)
  case None
  have "guard_inv (set_attempt p (Rejected (init_failure error))
          ((console_error [''Error initializing database:'', ''Error type:'',
              ''Error message:'', ''Error stack:''] g)\<lparr>initPromise := None, db := None\<rparr>))"
    by (rule guard_inv_fail) (simp_all add: inv p cur)
  with None show ?thesis by (simp add: enter_catch_def Let_def)
next
  case (Some k)
  with h have k: "k = p" by simp
  have "guard_inv (set_attempt p (AwaitClose p error)
          ((console_error [''Error initializing database:'', ''Error type:'',
              ''Error message:'', ''Error stack:''] g)\<lparr>initPromise := None, db := None\<rparr>))"
    by (rule guard_inv_fail) (simp_all add: inv p cur)
  with Some k show ?thesis by (simp add: enter_catch_def Let_def)
qed

text \<open>The last statement succeeds and the closure returns.\<close>

lemma guard_inv_succeed:
  assumes inv: "guard_inv g" and p: "p < length (attempts g)"
    and cur: "attempts g ! p = AwaitCreateFakultas h"
  shows "guard_inv ((set_attempt p (Fulfilled h) g)\<lparr>db := Some h\<rparr>)"
proof (rule guard_invI)
  from cur have prog: "in_progress (attempts g ! p)" by simp
  from guard_inv_in_progress [OF inv p prog]
  have ip: "initPromise g = Some p" by simp
  from guard_inv_handle [OF inv p, of h] cur have hp: "h = p" by simp
  have nth: "(attempts g)[p := Fulfilled h] ! q = (if q = p then Fulfilled h else attempts g ! q)"
    for q using p by (simp add: nth_list_update)
  have alone: "\<not> in_progress (attempts g ! q) \<and> \<not> succeeded (attempts g ! q)"
    if "q < length (attempts g)" "q \<noteq> p" for q
    using guard_inv_in_progress [OF inv that(1)] guard_inv_succeeded [OF inv that(1)] ip that(2)
    by auto
  fix q
  {
    assume "q < length (attempts ((set_attempt p (Fulfilled h) g)\<lparr>db := Some h\<rparr>))"
      and "in_progress (attempts ((set_attempt p (Fulfilled h) g)\<lparr>db := Some h\<rparr>) ! q)"
    with alone [of q]
    show "initPromise ((set_attempt p (Fulfilled h) g)\<lparr>db := Some h\<rparr>) = Some q
            \<and> db ((set_attempt p (Fulfilled h) g)\<lparr>db := Some h\<rparr>) = None"
      by (simp add: nth split: if_splits)
  }
  {
    assume "q < length (attempts ((set_attempt p (Fulfilled h) g)\<lparr>db := Some h\<rparr>))"
      and "succeeded (attempts ((set_attempt p (Fulfilled h) g)\<lparr>db := Some h\<rparr>) ! q)"
    then have "q < length (attempts g)" "q = p \<or> succeeded (attempts g ! q)"
      by (simp_all add: nth split: if_splits)
    with alone [of q] have "q = p" by blast
    with ip hp
    show "initPromise ((set_attempt p (Fulfilled h) g)\<lparr>db := Some h\<rparr>) = Some q
            \<and> db ((set_attempt p (Fulfilled h) g)\<lparr>db := Some h\<rparr>) = Some q"
      by simp
  }
  {
    fix k
    assume "q < length (attempts ((set_attempt p (Fulfilled h) g)\<lparr>db := Some h\<rparr>))"
      and "handle_of (attempts ((set_attempt p (Fulfilled h) g)\<lparr>db := Some h\<rparr>) ! q) = Some k"
    then have "q < length (attempts g)"
      "(q = p \<and> h = k) \<or> handle_of (attempts g ! q) = Some k"
      by (simp_all add: nth split: if_splits)
    with guard_inv_handle [OF inv, of q k] hp show "k = q" by auto
  }
  {
    assume "initPromise ((set_attempt p (Fulfilled h) g)\<lparr>db := Some h\<rparr>) = Some q"
    with ip p
    show "q < length (attempts ((set_attempt p (Fulfilled h) g)\<lparr>db := Some h\<rparr>))
         \<and> \<not> failed (attempts ((set_attempt p (Fulfilled h) g)\<lparr>db := Some h\<rparr>) ! q)"
      by (simp add: nth)
  }
  {
    assume "db ((set_attempt p (Fulfilled h) g)\<lparr>db := Some h\<rparr>) = Some q"
    with hp p
    show "q < length (attempts ((set_attempt p (Fulfilled h) g)\<lparr>db := Some h\<rparr>))
         \<and> attempts ((set_attempt p (Fulfilled h) g)\<lparr>db := Some h\<rparr>) ! q = Fulfilled q"
      by (simp add: nth)
  }
qed

text \<open>The close call of a failed closure ends.\<close>

lemma guard_inv_close:
  assumes inv: "guard_inv g" and p: "p < length (attempts g)"
    and cur: "failed (attempts g ! p)"
  shows "guard_inv (set_attempt p (Rejected error) g)"
proof (rule guard_invI)
  have nth: "(attempts g)[p := Rejected error] ! q
               = (if q = p then Rejected error else attempts g ! q)" for q
    using p by (simp add: nth_list_update)
  fix q
  {
    assume "q < length (attempts (set_attempt p (Rejected error) g))"
      and "in_progress (attempts (set_attempt p (Rejected error) g) ! q)"
    then have "q < length (attempts g)" "in_progress (attempts g ! q)"
      by (simp_all add: nth split: if_splits)
    with guard_inv_in_progress [OF inv, of q]
    show "initPromise (set_attempt p (Rejected error) g) = Some q
            \<and> db (set_attempt p (Rejected error) g) = None"
      by simp
  }
  {
    assume "q < length (attempts (set_attempt p (Rejected error) g))"
      and "succeeded (attempts (set_attempt p (Rejected error) g) ! q)"
    then have "q < length (attempts g)" "succeeded (attempts g ! q)"
      by (simp_all add: nth split: if_splits)
    with guard_inv_succeeded [OF inv, of q]
    show "initPromise (set_attempt p (Rejected error) g) = Some q
            \<and> db (set_attempt p (Rejected error) g) = Some q"
      by simp
  }
  {
    fix k
    assume "q < length (attempts (set_attempt p (Rejected error) g))"
      and "handle_of (attempts (set_attempt p (Rejected error) g) ! q) = Some k"
    then have "q < length (attempts g)" "handle_of (attempts g ! q) = Some k"
      by (simp_all add: nth split: if_splits)
    with guard_inv_handle [OF inv, of q k] show "k = q" by simp
  }
  {
    assume "initPromise (set_attempt p (Rejected error) g) = Some q"
    then have "initPromise g = Some q" by simp
    from guard_inv_initPromise [OF inv this] cur
    show "q < length (attempts (set_attempt p (Rejected error) g))
         \<and> \<not> failed (attempts (set_attempt p (Rejected error) g) ! q)"
      by (auto simp: nth)
  }
  {
    assume "db (set_attempt p (Rejected error) g) = Some q"
    then have "db g = Some q" by simp
    from guard_inv_db [OF inv this] cur
    show "q < length (attempts (set_attempt p (Rejected error) g))
         \<and> attempts (set_attempt p (Rejected error) g) ! q = Fulfilled q"
      by (auto simp: nth)
  }
qed

lemma guard_inv_resume:
  assumes inv: "guard_inv g" and p: "p < length (attempts g)"
  shows "guard_inv (resume p (attempts g ! p) out g)"
proof (cases "attempts g ! p")
  case AwaitOpen
  then have prog: "in_progress (attempts g ! p)" by simp
  show ?thesis
  proof (cases out)
    case Resolves
    with AwaitOpen guard_inv_advance [OF inv p prog, of "AwaitCreateMahasiswa p"]
    show ?thesis by simp
  next
    case ResolvesNull
    have "guard_inv (enter_catch p None
            (JsError ''Failed to open database: database object is null'' None)
            (console_log [''Database opened successfully''] g))"
      by (rule guard_inv_enter_catch) (simp_all add: inv p prog)
    with AwaitOpen ResolvesNull show ?thesis by simp
  next
    case (Rejects error)
    with AwaitOpen guard_inv_enter_catch [OF inv p prog, of None error]
    show ?thesis by simp
  qed
next
  case (AwaitCreateMahasiswa h)
  then have prog: "in_progress (attempts g ! p)" by simp
  from guard_inv_handle [OF inv p, of h] AwaitCreateMahasiswa have h: "h = p" by simp
  show ?thesis
    using AwaitCreateMahasiswa h guard_inv_advance [OF inv p prog, of "AwaitCreateUsers p"]
      guard_inv_enter_catch [OF inv p prog, of "Some p"]
    by (cases out) simp_all
next
  case (AwaitCreateUsers h)
  then have prog: "in_progress (attempts g ! p)" by simp
  from guard_inv_handle [OF inv p, of h] AwaitCreateUsers have h: "h = p" by simp
  show ?thesis
    using AwaitCreateUsers h guard_inv_advance [OF inv p prog, of "AwaitAlter p"]
      guard_inv_enter_catch [OF inv p prog, of "Some p"]
    by (cases out) simp_all
next
  case (AwaitAlter h)
  then have prog: "in_progress (attempts g ! p)" by simp
  from guard_inv_handle [OF inv p, of h] AwaitAlter have h: "h = p" by simp
  have "guard_inv (alter_failed e g') = guard_inv g'" for e g'
    by (simp add: alter_failed_def)
  then show ?thesis
    using AwaitAlter h guard_inv_advance [OF inv p prog, of "AwaitCreateProdi p"]
    by (cases out) simp_all
next
  case (AwaitCreateProdi h)
  then have prog: "in_progress (attempts g ! p)" by simp
  from guard_inv_handle [OF inv p, of h] AwaitCreateProdi have h: "h = p" by simp
  show ?thesis
    using AwaitCreateProdi h guard_inv_advance [OF inv p prog, of "AwaitCreateFakultas p"]
      guard_inv_enter_catch [OF inv p prog, of "Some p"]
    by (cases out) simp_all
next
  case (AwaitCreateFakultas h)
  then have prog: "in_progress (attempts g ! p)" by simp
  have "guard_inv ((set_attempt p (Fulfilled h) (console_log [''Fakultas table created''] g))
          \<lparr>db := Some h\<rparr>)"
    by (rule guard_inv_succeed) (simp_all add: inv p AwaitCreateFakultas)
  from guard_inv_handle [OF inv p, of h] AwaitCreateFakultas have h: "h = p" by simp
  show ?thesis
    using AwaitCreateFakultas h guard_inv_enter_catch [OF inv p prog, of "Some p"]
      \<open>guard_inv ((set_attempt p (Fulfilled h) (console_log [''Fakultas table created''] g))
          \<lparr>db := Some h\<rparr>)\<close>
    by (cases out) simp_all
next
  case (AwaitClose h error)
  then have f: "failed (attempts g ! p)" by simp
  have "guard_inv (set_attempt p (Rejected (init_failure error)) (console_log ts g))"
    "guard_inv (set_attempt p (Rejected (init_failure error)) (console_error ts g))" for ts
    by (rule guard_inv_close; simp add: inv p f)+
  with AwaitClose show ?thesis by (cases out) simp_all
next
  case (Fulfilled h)
  with inv show ?thesis by simp
next
  case (Rejected error)
  with inv show ?thesis by simp
qed

lemma guard_inv_io_done: "guard_inv g \<Longrightarrow> guard_inv (io_done p out g)"
  by (simp add: io_done_def guard_inv_resume)

lemma guard_inv_idle:
  assumes inv: "guard_inv g" and idle: "initPromise g = None" and q: "q < length (attempts g)"
  shows "failed (attempts g ! q)"
  using guard_inv_in_progress [OF inv q] guard_inv_succeeded [OF inv q] idle
    attempt_kinds [of "attempts g ! q"]
  by auto

lemma guard_inv_start:
  assumes inv: "guard_inv g" and idle: "initPromise g = None" "db g = None"
  shows "guard_inv (g\<lparr>attempts := attempts g @ [AwaitOpen],
                       initPromise := Some (length (attempts g))\<rparr>)"
proof (rule guard_invI)
  let ?g = "g\<lparr>attempts := attempts g @ [AwaitOpen], initPromise := Some (length (attempts g))\<rparr>"
  have old: "attempts ?g ! q = attempts g ! q" "failed (attempts g ! q)"
    if "q < length (attempts g)" for q
    using that guard_inv_idle [OF inv idle(1) that] by (simp_all add: nth_append)
  have new: "attempts ?g ! length (attempts g) = AwaitOpen" by simp
  have split: "q < length (attempts g) \<or> q = length (attempts g)"
    if "q < length (attempts ?g)" for q
    using that by auto
  fix q
  {
    assume a: "q < length (attempts ?g)" and b: "in_progress (attempts ?g ! q)"
    from split [OF a] b old [of q] failed_not_others [of "attempts g ! q"] idle
    show "initPromise ?g = Some q \<and> db ?g = None" by auto
  }
  {
    assume a: "q < length (attempts ?g)" and b: "succeeded (attempts ?g ! q)"
    from split [OF a] b old [of q] failed_not_others [of "attempts g ! q"] new
    show "initPromise ?g = Some q \<and> db ?g = Some q" by auto
  }
  {
    fix k
    assume a: "q < length (attempts ?g)" and b: "handle_of (attempts ?g ! q) = Some k"
    from split [OF a] b old(1) [of q] guard_inv_handle [OF inv, of q k] new
    show "k = q" by auto
  }
  {
    assume "initPromise ?g = Some q"
    then have "q = length (attempts g)" by simp
    with new show "q < length (attempts ?g) \<and> \<not> failed (attempts ?g ! q)" by simp
  }
  {
    assume "db ?g = Some q"
    with idle show "q < length (attempts ?g) \<and> attempts ?g ! q = Fulfilled q" by simp
  }
qed

lemma guard_inv_field_eq:
  "db g' = db g \<Longrightarrow> initPromise g' = initPromise g \<Longrightarrow> attempts g' = attempts g
   \<Longrightarrow> guard_inv g' = guard_inv g"
  by (simp add: guard_inv_def)

lemma guard_inv_call_initDatabase:
  assumes inv: "guard_inv g"
  shows "guard_inv (snd (call_initDatabase g))"
proof (cases "initPromise g")
  case (Some p)
  with inv show ?thesis by (simp add: call_initDatabase_def)
next
  case None
  show ?thesis
  proof (cases "db g")
    case (Some h)
    with None inv show ?thesis by (simp add: call_initDatabase_def)
  next
    case dbnone: None
    have "guard_inv ((console_log [''Opening database...''] g)
            \<lparr>attempts := attempts (console_log [''Opening database...''] g) @ [AwaitOpen],
              initPromise := Some (length (attempts (console_log [''Opening database...''] g)))\<rparr>)"
      by (rule guard_inv_start) (simp_all add: inv None dbnone)
    with None dbnone show ?thesis by (simp add: call_initDatabase_def Let_def)
  qed
qed

lemma guard_inv_call_getDatabase:
  assumes inv: "guard_inv g"
  shows "guard_inv (snd (call_getDatabase g))"
proof (cases "db g")
  case None
  have "guard_inv (snd (call_initDatabase
          (console_log [''Database not initialized, initializing now...''] g)))"
    by (rule guard_inv_call_initDatabase) (simp add: inv)
  with None show ?thesis by (simp add: call_getDatabase_def)
next
  case (Some h)
  with inv show ?thesis by (simp add: call_getDatabase_def)
qed

text \<open>A turn of a closure changes that closure only, and a settled closure never.\<close>

lemma enter_catch_length [simp]:
  "length (attempts (enter_catch p database error g)) = length (attempts g)"
  by (cases database) (simp_all add: enter_catch_def Let_def)

lemma enter_catch_other [simp]:
  "q \<noteq> p \<Longrightarrow> attempts (enter_catch p database error g) ! q = attempts g ! q"
  by (cases database) (simp_all add: enter_catch_def Let_def)

lemma alter_failed_fields [simp]:
  "db (alter_failed e g) = db g" "initPromise (alter_failed e g) = initPromise g"
  "attempts (alter_failed e g) = attempts g"
  by (simp_all add: alter_failed_def)

lemma resume_length [simp]: "length (attempts (resume p a out g)) = length (attempts g)"
  by (cases a; cases out) simp_all

lemma resume_other: "q \<noteq> p \<Longrightarrow> attempts (resume p a out g) ! q = attempts g ! q"
  by (cases a; cases out) simp_all

lemma io_done_length [simp]: "length (attempts (io_done p out g)) = length (attempts g)"
  by (simp add: io_done_def)

lemma io_done_other: "q \<noteq> p \<Longrightarrow> attempts (io_done p out g) ! q = attempts g ! q"
  by (simp add: io_done_def resume_other)

lemma io_done_fulfilled:
  "attempts g ! q = Fulfilled h \<Longrightarrow> attempts (io_done p out g) ! q = Fulfilled h"
  by (cases "q = p") (simp_all add: io_done_other, simp add: io_done_def)

lemma io_done_rejected:
  "attempts g ! q = Rejected e \<Longrightarrow> attempts (io_done p out g) ! q = Rejected e"
  by (cases "q = p") (simp_all add: io_done_other, simp add: io_done_def)

lemma wait_inv_io_done: "wait_inv g w \<Longrightarrow> wait_inv (io_done p out g) w"
  by (cases w) (simp_all add: io_done_fulfilled)

lemma call_initDatabase_attempts:
  "attempts (snd (call_initDatabase g)) = attempts g
   \<or> attempts (snd (call_initDatabase g)) = attempts g @ [AwaitOpen]"
  by (simp add: call_initDatabase_def Let_def split: option.split)

lemma call_getDatabase_attempts:
  "attempts (snd (call_getDatabase g)) = attempts g
   \<or> attempts (snd (call_getDatabase g)) = attempts g @ [AwaitOpen]"
  using call_initDatabase_attempts
          [of "console_log [''Database not initialized, initializing now...''] g"]
  by (simp add: call_getDatabase_def split: option.split)

lemma wait_inv_grow:
  "wait_inv g w \<Longrightarrow> attempts g' = attempts g \<or> attempts g' = attempts g @ [a]
   \<Longrightarrow> wait_inv g' w"
  by (cases w) (auto simp: nth_append)

lemma wait_inv_call_initDatabase:
  "guard_inv g \<Longrightarrow> wait_inv (snd (call_initDatabase g)) (fst (call_initDatabase g))"
  using guard_inv_initPromise [of g] guard_inv_db [of g]
  by (auto simp: call_initDatabase_def Let_def nth_append split: option.split)

lemma wait_inv_call_getDatabase:
  assumes inv: "guard_inv g"
  shows "wait_inv (snd (call_getDatabase g)) (fst (call_getDatabase g))"
proof (cases "db g")
  case None
  have "guard_inv (console_log [''Database not initialized, initializing now...''] g)"
    by (simp add: inv)
  from wait_inv_call_initDatabase [OF this] None show ?thesis
    by (simp add: call_getDatabase_def)
next
  case (Some h)
  with guard_inv_db [OF inv Some] show ?thesis by (simp add: call_getDatabase_def)
qed

lemma step_inv:
  assumes "guard_inv g" and "\<forall>w\<in>set ws. wait_inv g w"
  shows "guard_inv (fst (step (g, ws) e)) \<and> (\<forall>w\<in>set (snd (step (g, ws) e)). wait_inv (fst (step (g, ws) e)) w)"
proof (cases e)
  case CallInitDatabase
  with assms guard_inv_call_initDatabase [OF assms(1)] wait_inv_call_initDatabase [OF assms(1)]
    call_initDatabase_attempts [of g]
  show ?thesis
    by (auto simp: split_beta intro: wait_inv_grow)
next
  case CallGetDatabase
  with assms guard_inv_call_getDatabase [OF assms(1)] wait_inv_call_getDatabase [OF assms(1)]
    call_getDatabase_attempts [of g]
  show ?thesis
    by (auto simp: split_beta intro: wait_inv_grow)
next
  case (IoDone p out)
  with assms show ?thesis by (simp add: guard_inv_io_done wait_inv_io_done)
qed

lemma foldl_step_inv:
  "guard_inv (fst s) \<Longrightarrow> \<forall>w\<in>set (snd s). wait_inv (fst s) w \<Longrightarrow>
   guard_inv (fst (foldl step s es))
   \<and> (\<forall>w\<in>set (snd (foldl step s es)). wait_inv (fst (foldl step s es)) w)"
proof (induction es arbitrary: s)
  case Nil
  then show ?case by simp
next
  case (Cons e es)
  from step_inv [of "fst s" "snd s" e] Cons.prems
  have "guard_inv (fst (step s e))" "\<forall>w\<in>set (snd (step s e)). wait_inv (fst (step s e)) w"
    by simp_all
  from Cons.IH [OF this] show ?case by simp
qed

lemma run_inv:
  "guard_inv (fst (run es)) \<and> (\<forall>w\<in>set (snd (run es)). wait_inv (fst (run es)) w)"
  unfolding run_def by (rule foldl_step_inv) (simp_all add: guard_inv_uninitialized)

lemma at_most_one_filter:
  assumes "\<And>i j. i < length xs \<Longrightarrow> j < length xs \<Longrightarrow> P (xs ! i) \<Longrightarrow> P (xs ! j) \<Longrightarrow> i = j"
  shows "length (filter P xs) \<le> 1"
  using assms
proof (induction xs)
  case Nil
  then show ?case by simp
next
  case (Cons x xs)
  have step: "\<And>i j. i < length xs \<Longrightarrow> j < length xs \<Longrightarrow> P (xs ! i) \<Longrightarrow> P (xs ! j) \<Longrightarrow> i = j"
    using Cons.prems [of "Suc i" "Suc j" for i j] by simp
  show ?case
  proof (cases "P x")
    case False
    with Cons.IH [OF step] show ?thesis by simp
  next
    case True
    have "\<not> P (xs ! i)" if "i < length xs" for i
      using Cons.prems [of 0 "Suc i"] True that by auto
    then have "filter P xs = []"
      by (auto simp: filter_empty_conv in_set_conv_nth)
    with True show ?thesis by simp
  qed
qed

lemma returned_handle_is_db:
  assumes inv: "guard_inv g" and w: "wait_inv g w" and r: "caller_result g w = Returns h"
  shows "db g = Some h"
proof (cases w)
  case (Immediate k)
  with w r have "k < length (attempts g)" "succeeded (attempts g ! k)" "k = h" by simp_all
  with guard_inv_succeeded [OF inv, of k] show ?thesis by simp
next
  case (Awaiting p)
  with w r have p: "p < length (attempts g)" and f: "attempts g ! p = Fulfilled h"
    by (auto split: if_splits attempt.splits)
  with guard_inv_handle [OF inv p, of h] guard_inv_succeeded [OF inv p] show ?thesis by simp
qed

lemma no_failure_single:
  assumes inv: "guard_inv g" and ok: "list_all (\<lambda>a. \<not> failed a) (attempts g)"
  shows "length (attempts g) \<le> 1"
proof -
  have named: "initPromise g = Some q" if "q < length (attempts g)" for q
  proof -
    from ok that have "\<not> failed (attempts g ! q)" by (simp add: list_all_length)
    with attempt_kinds [of "attempts g ! q"]
      guard_inv_in_progress [OF inv that] guard_inv_succeeded [OF inv that]
    show ?thesis by blast
  qed
  show ?thesis
  proof (rule ccontr)
    assume "\<not> length (attempts g) \<le> 1"
    then have "0 < length (attempts g)" "1 < length (attempts g)" by arith+
    from named [OF this(1)] named [OF this(2)] show False by simp
  qed
qed

lemma no_failure_same_result:
  assumes inv: "guard_inv g" and ok: "list_all (\<lambda>a. \<not> failed a) (attempts g)"
    and w1: "wait_inv g w1" and w2: "wait_inv g w2"
  shows "caller_result g w1 = caller_result g w2"
proof -
  from no_failure_single [OF inv ok] have len: "length (attempts g) \<le> 1" .
  have r: "caller_result g w = caller_result g (Awaiting 0)" if "wait_inv g w" for w
  proof (cases w)
    case (Immediate h)
    with that len have "h = 0" by simp
    with Immediate that show ?thesis by simp
  next
    case (Awaiting p)
    with that len have "p = 0" by simp
    with Awaiting show ?thesis by simp
  qed
  from r [OF w1] r [OF w2] show ?thesis by simp
qed

lemma succeeded_call_initDatabase:
  assumes inv: "guard_inv g" and s: "list_ex succeeded (attempts g)"
  shows "attempts (snd (call_initDatabase g)) = attempts g"
proof -
  from s obtain q where "q < length (attempts g)" "succeeded (attempts g ! q)"
    by (auto simp: list_ex_length)
  from guard_inv_succeeded [OF inv this] show ?thesis
    by (simp add: call_initDatabase_def)
qed

lemma succeeded_call_getDatabase:
  assumes inv: "guard_inv g" and s: "list_ex succeeded (attempts g)"
  shows "attempts (snd (call_getDatabase g)) = attempts g"
proof -
  from s obtain q where "q < length (attempts g)" "succeeded (attempts g ! q)"
    by (auto simp: list_ex_length)
  from guard_inv_succeeded [OF inv this] show ?thesis
    by (simp add: call_getDatabase_def)
qed

lemma succeeded_io_done:
  assumes s: "list_ex succeeded (attempts g)"
  shows "list_ex succeeded (attempts (io_done p out g))"
proof -
  from s obtain q h where q: "q < length (attempts g)" "attempts g ! q = Fulfilled h"
    by (auto simp: list_ex_length succeeded_iff)
  from io_done_fulfilled [OF q(2), of p out] q(1)
  have "q < length (attempts (io_done p out g))" "succeeded (attempts (io_done p out g) ! q)"
    by simp_all
  then show ?thesis by (auto simp: list_ex_length)
qed

lemma succeeded_step:
  assumes inv: "guard_inv (fst s)" and ok: "list_ex succeeded (attempts (fst s))"
  shows "length (attempts (fst (step s e))) = length (attempts (fst s))
         \<and> list_ex succeeded (attempts (fst (step s e)))"
proof (cases s)
  case (Pair g ws)
  show ?thesis
  proof (cases e)
    case CallInitDatabase
    with Pair succeeded_call_initDatabase [of g] inv ok show ?thesis
      by (simp add: split_beta)
  next
    case CallGetDatabase
    with Pair succeeded_call_getDatabase [of g] inv ok show ?thesis
      by (simp add: split_beta)
  next
    case (IoDone p out)
    with Pair succeeded_io_done [of g p out] ok show ?thesis by simp
  qed
qed

lemma succeeded_foldl_step:
  "guard_inv (fst s) \<Longrightarrow> \<forall>w\<in>set (snd s). wait_inv (fst s) w \<Longrightarrow>
   list_ex succeeded (attempts (fst s)) \<Longrightarrow>
   length (attempts (fst (foldl step s es))) = length (attempts (fst s))"
proof (induction es arbitrary: s)
  case Nil
  show ?case by simp
next
  case (Cons e es)
  from step_inv [of "fst s" "snd s" e] Cons.prems
  have i: "guard_inv (fst (step s e))" "\<forall>w\<in>set (snd (step s e)). wait_inv (fst (step s e)) w"
    by simp_all
  from succeeded_step [OF Cons.prems(1,3), of e]
  have k: "length (attempts (fst (step s e))) = length (attempts (fst s))"
    "list_ex succeeded (attempts (fst (step s e)))" by simp_all
  from Cons.IH [OF i k(2)] k(1) show ?case by simp
qed

lemma run_append: "run (es @ es') = foldl step (run es) es'"
  by (simp add: run_def)

lemma callers_counted: "length (snd (foldl step s es)) = length (snd s) + length (filter is_call es)"
proof (induction es arbitrary: s)
  case Nil
  show ?case by simp
next
  case (Cons e es)
  have "length (snd (step s e)) = length (snd s) + (if is_call e then 1 else 0)"
    by (cases s; cases e) (simp_all add: split_beta)
  with Cons [of "step s e"] show ?case by simp
qed

lemma call_initDatabase_idle:
  assumes "db g = None" and "initPromise g = None"
  shows "fst (call_initDatabase g) = Awaiting (length (attempts g))
       \<and> attempts (snd (call_initDatabase g)) = attempts g @ [AwaitOpen]
       \<and> initPromise (snd (call_initDatabase g)) = Some (length (attempts g))"
  using assms by (simp add: call_initDatabase_def Let_def)

text \<open>A closure that has failed stays failed, and a new closure is started only when
  every closure before it has failed.\<close>

lemma failed_io_done:
  assumes "q < length (attempts g)" and "failed (attempts g ! q)"
  shows "failed (attempts (io_done p out g) ! q)"
proof (cases "q = p")
  case True
  with assms show ?thesis
    by (cases "attempts g ! p"; cases out) (simp_all add: io_done_def)
next
  case False
  with assms show ?thesis by (simp add: io_done_other)
qed

lemma call_initDatabase_cases:
  "attempts (snd (call_initDatabase g)) = attempts g
   \<or> (initPromise g = None \<and> attempts (snd (call_initDatabase g)) = attempts g @ [AwaitOpen])"
  by (simp add: call_initDatabase_def Let_def split: option.split)

lemma call_getDatabase_cases:
  "attempts (snd (call_getDatabase g)) = attempts g
   \<or> (initPromise g = None \<and> attempts (snd (call_getDatabase g)) = attempts g @ [AwaitOpen])"
  using call_initDatabase_cases
          [of "console_log [''Database not initialized, initializing now...''] g"]
  by (simp add: call_getDatabase_def split: option.split)

lemma older_failed_grow:
  assumes inv: "guard_inv g"
    and older: "\<And>q. Suc q < length (attempts g) \<Longrightarrow> failed (attempts g ! q)"
    and grow: "attempts g' = attempts g
               \<or> (initPromise g = None \<and> attempts g' = attempts g @ [AwaitOpen])"
    and q: "Suc q < length (attempts g')"
  shows "failed (attempts g' ! q)"
  using grow
proof
  assume "attempts g' = attempts g"
  with older q show ?thesis by simp
next
  assume new: "initPromise g = None \<and> attempts g' = attempts g @ [AwaitOpen]"
  with q have "q < length (attempts g)" by simp
  with guard_inv_idle [OF inv _ this] new show ?thesis by (simp add: nth_append)
qed

lemma older_failed_step:
  assumes inv: "guard_inv g"
    and older: "\<And>q. Suc q < length (attempts g) \<Longrightarrow> failed (attempts g ! q)"
    and q: "Suc q < length (attempts (fst (step (g, ws) e)))"
  shows "failed (attempts (fst (step (g, ws) e)) ! q)"
proof (cases e)
  case CallInitDatabase
  with q older_failed_grow [OF inv older call_initDatabase_cases [of g], of q]
  show ?thesis by (simp add: split_beta)
next
  case CallGetDatabase
  with q older_failed_grow [OF inv older call_getDatabase_cases [of g], of q]
  show ?thesis by (simp add: split_beta)
next
  case (IoDone p out)
  with q have "Suc q < length (attempts g)" by simp
  with older [OF this] failed_io_done [of q g p out] IoDone show ?thesis by simp
qed

lemma run_snoc: "run (es @ [e]) = step (run es) e"
  by (simp add: run_def)

lemma run_older_failed:
  "Suc q < length (attempts (fst (run es))) \<Longrightarrow> failed (attempts (fst (run es)) ! q)"
proof (induction es arbitrary: q rule: rev_induct)
  case Nil
  then show ?case by (simp add: run_def uninitialized_def)
next
  case (snoc e es)
  obtain g ws where r: "run es = (g, ws)" by (cases "run es")
  from run_inv [of es] r have inv: "guard_inv g" by simp
  from snoc.IH r have older: "\<And>q. Suc q < length (attempts g) \<Longrightarrow> failed (attempts g ! q)"
    by simp
  from snoc.prems older_failed_step [OF inv older, of q ws e] r show ?case
    by (simp add: run_snoc)
qed

text \<open>What a caller receives is what the closure it waits for has come to.\<close>

lemma result_by_target:
  "wait_inv g w \<Longrightarrow> caller_result g w = caller_result g (Awaiting (target w))"
  by (cases w) simp_all

lemma target_bound: "wait_inv g w \<Longrightarrow> target w < length (attempts g)"
  by (cases w) simp_all

text \<open>A caller that arrives while a closure has not failed joins it.\<close>

lemma join_unfailed:
  assumes inv: "guard_inv g" and p: "p < length (attempts g)"
    and ok: "\<not> failed (attempts g ! p)"
  shows "target (fst (call_initDatabase g)) = p
       \<and> attempts (snd (call_initDatabase g)) = attempts g
       \<and> target (fst (call_getDatabase g)) = p
       \<and> attempts (snd (call_getDatabase g)) = attempts g"
proof -
  from ok attempt_kinds [of "attempts g ! p"]
  consider "in_progress (attempts g ! p)" | "succeeded (attempts g ! p)" by blast
  then show ?thesis
  proof cases
    case 1
    from guard_inv_in_progress [OF inv p 1] show ?thesis
      by (simp add: call_initDatabase_def call_getDatabase_def)
  next
    case 2
    from guard_inv_succeeded [OF inv p 2] show ?thesis
      by (simp add: call_initDatabase_def call_getDatabase_def)
  qed
qed

text \<open>A caller that arrives when every closure has failed starts a new one.\<close>

lemma all_failed_idle:
  assumes inv: "guard_inv g" and all: "list_all failed (attempts g)"
  shows "db g = None \<and> initPromise g = None"
proof -
  have "initPromise g = None"
  proof (cases "initPromise g")
    case (Some p)
    from guard_inv_initPromise [OF inv Some] all have False
      by (auto simp: list_all_length)
    then show ?thesis ..
  qed simp
  moreover have "db g = None"
  proof (cases "db g")
    case (Some h)
    from guard_inv_db [OF inv Some] all have "failed (Fulfilled h)"
      by (auto simp: list_all_length)
    then show ?thesis by simp
  qed simp
  ultimately show ?thesis by simp
qed

lemma start_after_failures:
  assumes inv: "guard_inv g" and all: "list_all failed (attempts g)"
  shows "fst (call_initDatabase g) = Awaiting (length (attempts g))
       \<and> attempts (snd (call_initDatabase g)) = attempts g @ [AwaitOpen]
       \<and> fst (call_getDatabase g) = Awaiting (length (attempts g))
       \<and> attempts (snd (call_getDatabase g)) = attempts g @ [AwaitOpen]"
proof -
  from all_failed_idle [OF inv all] have idle: "db g = None" "initPromise g = None"
    by simp_all
  let ?l = "console_log [''Database not initialized, initializing now...''] g"
  have "call_getDatabase g = call_initDatabase ?l"
    using idle by (simp add: call_getDatabase_def)
  with call_initDatabase_idle [OF idle] call_initDatabase_idle [of ?l] idle
  show ?thesis by simp
qed

text \<open>What a caller has received it keeps.\<close>

lemma settled_step:
  assumes "caller_result (fst s) w \<noteq> Pending"
  shows "caller_result (fst (step s e)) w = caller_result (fst s) w"
proof (cases w)
  case (Immediate h)
  then show ?thesis by simp
next
  case (Awaiting p)
  obtain g ws where s: "s = (g, ws)" by (cases s)
  from assms Awaiting s have p: "p < length (attempts g)"
    and settled: "(\<exists>h. attempts g ! p = Fulfilled h) \<or> (\<exists>e. attempts g ! p = Rejected e)"
    by (auto split: if_splits attempt.splits)
  have same: "p < length (attempts g') \<and> attempts g' ! p = attempts g ! p"
    if "attempts g' = attempts g \<or> attempts g' = attempts g @ [AwaitOpen]" for g'
    using that p by (auto simp: nth_append)
  show ?thesis
  proof (cases e)
    case CallInitDatabase
    with same [OF call_initDatabase_attempts [of g]] s Awaiting p show ?thesis
      by (simp add: split_beta)
  next
    case CallGetDatabase
    with same [OF call_getDatabase_attempts [of g]] s Awaiting p show ?thesis
      by (simp add: split_beta)
  next
    case (IoDone q out)
    from settled have "attempts (io_done q out g) ! p = attempts g ! p"
      by (auto simp: io_done_fulfilled io_done_rejected)
    with IoDone s Awaiting p show ?thesis by simp
  qed
qed

lemma settled_foldl_step:
  "caller_result (fst s) w \<noteq> Pending \<Longrightarrow>
   caller_result (fst (foldl step s es)) w = caller_result (fst s) w"
proof (induction es arbitrary: s)
  case Nil
  show ?case by simp
next
  case (Cons e es)
  from settled_step [OF Cons.prems, of e]
  have k: "caller_result (fst (step s e)) w = caller_result (fst s) w" .
  with Cons.prems have "caller_result (fst (step s e)) w \<noteq> Pending" by simp
  from Cons.IH [OF this] k show ?case by simp
qed

text \<open>Six awaited calls that succeed bring a closure that has not failed to its return.\<close>

lemma io_done_resolves:
  "p < length (attempts g) \<Longrightarrow>
   attempts (io_done p Resolves g) ! p
     = (case attempts g ! p of
          AwaitOpen \<Rightarrow> AwaitCreateMahasiswa p
        | AwaitCreateMahasiswa h \<Rightarrow> AwaitCreateUsers h
        | AwaitCreateUsers h \<Rightarrow> AwaitAlter h
        | AwaitAlter h \<Rightarrow> AwaitCreateProdi h
        | AwaitCreateProdi h \<Rightarrow> AwaitCreateFakultas h
        | AwaitCreateFakultas h \<Rightarrow> Fulfilled h
        | AwaitClose h error \<Rightarrow> Rejected (init_failure error)
        | Fulfilled h \<Rightarrow> Fulfilled h
        | Rejected error \<Rightarrow> Rejected error)"
  by (cases "attempts g ! p") (simp_all add: io_done_def)

lemma six_successes:
  assumes inv: "guard_inv g" and p: "p < length (attempts g)"
    and ok: "\<not> failed (attempts g ! p)"
  shows "attempts (fst (foldl step (g, ws) (replicate 6 (IoDone p Resolves)))) ! p
           = Fulfilled p
       \<and> length (attempts (fst (foldl step (g, ws) (replicate 6 (IoDone p Resolves)))))
           = length (attempts g)"
proof -
  have six: "replicate 6 (IoDone p Resolves)
               = [IoDone p Resolves, IoDone p Resolves, IoDone p Resolves,
                  IoDone p Resolves, IoDone p Resolves, IoDone p Resolves]"
    by (simp add: numeral_eq_Suc)
  have own: "h = p" if "handle_of (attempts g ! p) = Some h" for h
    using guard_inv_handle [OF inv p that] .
  from ok own p show ?thesis
    unfolding six
    by (cases "attempts g ! p") (simp_all add: io_done_resolves)
qed

lemma run_call:
  "run (es @ [CallInitDatabase])
     = (snd (call_initDatabase (fst (run es))),
        snd (run es) @ [fst (call_initDatabase (fst (run es)))])"
  "run (es @ [CallGetDatabase])
     = (snd (call_getDatabase (fst (run es))),
        snd (run es) @ [fst (call_getDatabase (fst (run es)))])"
  by (cases "run es"; simp add: run_snoc split_beta)+

lemma foldl_step_io:
  "snd (foldl step s (replicate n (IoDone p out))) = snd s"
  by (induction n arbitrary: s) (auto simp: split_beta)

text \<open>
  C1, as amended. In every state that a schedule of calls of \<^verbatim>\<open>initDatabase\<close> and
  \<^verbatim>\<open>getDatabase\<close> and of completions reaches from the uninitialised guard: at most
  one closure is between its open call and its return or catch block; at most one closure
  has returned; all callers that have received a handle have received the same handle;
  as long as no closure has failed, at most one open-and-create sequence has been started
  and all callers have the same result; once a closure has returned, no later call
  starts another; and there is one entry per call. Every closure but the last one
  started has failed. Callers that wait for the same closure have the same result, be it
  the handle, the error or nothing yet, and of two callers that wait for different
  closures the closure of the first has failed. A caller that arrives while a closure
  has not failed waits for that closure and starts nothing; a caller that arrives when
  every closure has failed, or none was started, starts a new sequence at the open call.
  What a caller has received it keeps, whatever follows. When six awaited calls of a
  closure that has not failed succeed, every caller that waits for it has received its
  handle.
\<close>

theorem one_initialisation_at_a_time:
  "length (filter in_progress (attempts (fst (run es)))) \<le> 1
   \<and> length (filter succeeded (attempts (fst (run es)))) \<le> 1
   \<and> (\<forall>w1\<in>set (snd (run es)). \<forall>w2\<in>set (snd (run es)). \<forall>h1 h2.
         caller_result (fst (run es)) w1 = Returns h1
         \<and> caller_result (fst (run es)) w2 = Returns h2 \<longrightarrow> h1 = h2)
   \<and> (list_all (\<lambda>a. \<not> failed a) (attempts (fst (run es)))
        \<longrightarrow> length (attempts (fst (run es))) \<le> 1
          \<and> (\<forall>w1\<in>set (snd (run es)). \<forall>w2\<in>set (snd (run es)).
                caller_result (fst (run es)) w1 = caller_result (fst (run es)) w2))
   \<and> (list_ex succeeded (attempts (fst (run es)))
        \<longrightarrow> length (attempts (fst (run (es @ later)))) = length (attempts (fst (run es))))
   \<and> length (snd (run es)) = length (filter is_call es)
   \<and> (\<forall>q. Suc q < length (attempts (fst (run es))) \<longrightarrow> failed (attempts (fst (run es)) ! q))
   \<and> (\<forall>w1\<in>set (snd (run es)). \<forall>w2\<in>set (snd (run es)).
         (target w1 = target w2
            \<longrightarrow> caller_result (fst (run es)) w1 = caller_result (fst (run es)) w2)
         \<and> (target w1 < target w2 \<longrightarrow> failed (attempts (fst (run es)) ! target w1)))
   \<and> (\<forall>p<length (attempts (fst (run es))). \<not> failed (attempts (fst (run es)) ! p) \<longrightarrow>
         attempts (fst (run (es @ [CallInitDatabase]))) = attempts (fst (run es))
         \<and> target (last (snd (run (es @ [CallInitDatabase])))) = p
         \<and> attempts (fst (run (es @ [CallGetDatabase]))) = attempts (fst (run es))
         \<and> target (last (snd (run (es @ [CallGetDatabase])))) = p)
   \<and> (list_all failed (attempts (fst (run es))) \<longrightarrow>
         attempts (fst (run (es @ [CallInitDatabase])))
           = attempts (fst (run es)) @ [AwaitOpen]
         \<and> last (snd (run (es @ [CallInitDatabase])))
             = Awaiting (length (attempts (fst (run es))))
         \<and> attempts (fst (run (es @ [CallGetDatabase])))
             = attempts (fst (run es)) @ [AwaitOpen]
         \<and> last (snd (run (es @ [CallGetDatabase])))
             = Awaiting (length (attempts (fst (run es)))))
   \<and> (\<forall>w\<in>set (snd (run es)). caller_result (fst (run es)) w \<noteq> Pending \<longrightarrow>
         caller_result (fst (run (es @ later))) w = caller_result (fst (run es)) w)
   \<and> (\<forall>p<length (attempts (fst (run es))). \<not> failed (attempts (fst (run es)) ! p) \<longrightarrow>
         (\<forall>w\<in>set (snd (run es)). target w = p \<longrightarrow>
            caller_result (fst (run (es @ replicate 6 (IoDone p Resolves)))) w = Returns p))"
proof -
  let ?g = "fst (run es)" and ?ws = "snd (run es)"
  from run_inv [of es] have inv: "guard_inv ?g" and ws: "\<forall>w\<in>set ?ws. wait_inv ?g w"
    by simp_all
  have a: "length (filter in_progress (attempts ?g)) \<le> 1"
  proof (rule at_most_one_filter)
    fix i j
    assume "i < length (attempts ?g)" "j < length (attempts ?g)"
      "in_progress (attempts ?g ! i)" "in_progress (attempts ?g ! j)"
    with guard_inv_in_progress [OF inv, of i] guard_inv_in_progress [OF inv, of j]
    show "i = j" by simp
  qed
  have b: "length (filter succeeded (attempts ?g)) \<le> 1"
  proof (rule at_most_one_filter)
    fix i j
    assume "i < length (attempts ?g)" "j < length (attempts ?g)"
      "succeeded (attempts ?g ! i)" "succeeded (attempts ?g ! j)"
    with guard_inv_succeeded [OF inv, of i] guard_inv_succeeded [OF inv, of j]
    show "i = j" by simp
  qed
  have c: "\<forall>w1\<in>set ?ws. \<forall>w2\<in>set ?ws. \<forall>h1 h2.
         caller_result ?g w1 = Returns h1 \<and> caller_result ?g w2 = Returns h2 \<longrightarrow> h1 = h2"
  proof (intro ballI allI impI, elim conjE)
    fix w1 w2 h1 h2
    assume "w1 \<in> set ?ws" "w2 \<in> set ?ws"
      and r: "caller_result ?g w1 = Returns h1" "caller_result ?g w2 = Returns h2"
    with ws have "wait_inv ?g w1" "wait_inv ?g w2" by simp_all
    from returned_handle_is_db [OF inv this(1) r(1)] returned_handle_is_db [OF inv this(2) r(2)]
    show "h1 = h2" by simp
  qed
  have d: "list_all (\<lambda>a. \<not> failed a) (attempts ?g)
        \<longrightarrow> length (attempts ?g) \<le> 1
          \<and> (\<forall>w1\<in>set ?ws. \<forall>w2\<in>set ?ws. caller_result ?g w1 = caller_result ?g w2)"
    using no_failure_single [OF inv] no_failure_same_result [OF inv] ws by blast
  have e: "list_ex succeeded (attempts ?g)
        \<longrightarrow> length (attempts (fst (run (es @ later)))) = length (attempts ?g)"
    using succeeded_foldl_step [OF inv ws, of later] by (simp add: run_append)
  have f: "length ?ws = length (filter is_call es)"
    using callers_counted [of "(uninitialized, [])" es] by (simp add: run_def)
  have g: "\<forall>q. Suc q < length (attempts ?g) \<longrightarrow> failed (attempts ?g ! q)"
    using run_older_failed [of _ es] by blast
  have h: "\<forall>w1\<in>set ?ws. \<forall>w2\<in>set ?ws.
         (target w1 = target w2 \<longrightarrow> caller_result ?g w1 = caller_result ?g w2)
         \<and> (target w1 < target w2 \<longrightarrow> failed (attempts ?g ! target w1))"
  proof (intro ballI)
    fix w1 w2
    assume "w1 \<in> set ?ws" "w2 \<in> set ?ws"
    with ws have w: "wait_inv ?g w1" "wait_inv ?g w2" by simp_all
    have same: "target w1 = target w2 \<longrightarrow> caller_result ?g w1 = caller_result ?g w2"
      using result_by_target [OF w(1)] result_by_target [OF w(2)] by simp
    have earlier: "target w1 < target w2 \<longrightarrow> failed (attempts ?g ! target w1)"
    proof
      assume "target w1 < target w2"
      with target_bound [OF w(2)] have "Suc (target w1) < length (attempts ?g)" by simp
      from run_older_failed [OF this] show "failed (attempts ?g ! target w1)" .
    qed
    from same earlier
    show "(target w1 = target w2 \<longrightarrow> caller_result ?g w1 = caller_result ?g w2)
          \<and> (target w1 < target w2 \<longrightarrow> failed (attempts ?g ! target w1))"
      by (rule conjI)
  qed
  have i: "\<forall>p<length (attempts ?g). \<not> failed (attempts ?g ! p) \<longrightarrow>
         attempts (fst (run (es @ [CallInitDatabase]))) = attempts ?g
         \<and> target (last (snd (run (es @ [CallInitDatabase])))) = p
         \<and> attempts (fst (run (es @ [CallGetDatabase]))) = attempts ?g
         \<and> target (last (snd (run (es @ [CallGetDatabase])))) = p"
    using join_unfailed [OF inv] by (simp add: run_call)
  have j: "list_all failed (attempts ?g) \<longrightarrow>
         attempts (fst (run (es @ [CallInitDatabase]))) = attempts ?g @ [AwaitOpen]
         \<and> last (snd (run (es @ [CallInitDatabase]))) = Awaiting (length (attempts ?g))
         \<and> attempts (fst (run (es @ [CallGetDatabase]))) = attempts ?g @ [AwaitOpen]
         \<and> last (snd (run (es @ [CallGetDatabase]))) = Awaiting (length (attempts ?g))"
    using start_after_failures [OF inv] by (simp add: run_call)
  have k: "\<forall>w\<in>set ?ws. caller_result ?g w \<noteq> Pending \<longrightarrow>
         caller_result (fst (run (es @ later))) w = caller_result ?g w"
    using settled_foldl_step [of "run es" _ later] by (simp add: run_append)
  have l: "\<forall>p<length (attempts ?g). \<not> failed (attempts ?g ! p) \<longrightarrow>
         (\<forall>w\<in>set ?ws. target w = p \<longrightarrow>
            caller_result (fst (run (es @ replicate 6 (IoDone p Resolves)))) w = Returns p)"
  proof (intro allI impI ballI)
    fix p w
    assume p: "p < length (attempts ?g)" and ok: "\<not> failed (attempts ?g ! p)"
      and w: "w \<in> set ?ws" and t: "target w = p"
    obtain g0 ws0 where r: "run es = (g0, ws0)" by (cases "run es")
    from six_successes [of g0 p ws0] inv p ok r
    have reached: "attempts (fst (run (es @ replicate 6 (IoDone p Resolves)))) ! p = Fulfilled p"
      "length (attempts (fst (run (es @ replicate 6 (IoDone p Resolves)))))
         = length (attempts ?g)"
      by (simp_all add: run_append)
    show "caller_result (fst (run (es @ replicate 6 (IoDone p Resolves)))) w = Returns p"
    proof (cases w)
      case (Immediate h)
      with t show ?thesis by simp
    next
      case (Awaiting q)
      with t reached p show ?thesis by simp
    qed
  qed
  show ?thesis
    by (intro conjI)
       (rule a, rule b, rule c, rule d, rule e, rule f, rule g, rule h, rule i, rule j,
        rule k, rule l)
qed

lemma str_includes_longer: "str_includes s (a @ b) \<Longrightarrow> str_includes s a"
proof -
  assume "str_includes s (a @ b)"
  then obtain pre suf where "s = pre @ (a @ b) @ suf" by (auto simp: str_includes_iff)
  then have "s = pre @ a @ (b @ suf)" by simp
  then show "str_includes s a" unfolding str_includes_iff by blast
qed

lemma example_run:
  "run example_schedule =
     (\<lparr>db = Some 0, initPromise = Some 0, attempts = [Fulfilled 0],
       console = console (fst (run example_schedule))\<rparr>,
      [Awaiting 0, Awaiting 0, Awaiting 0, Immediate 0])"
  by (simp add: run_def example_schedule_def uninitialized_def call_initDatabase_def
      call_getDatabase_def alter_failed_def io_done_def enter_catch_def console_log_def
      console_error_def set_attempt_def Let_def)

lemma example_run_later:
  "attempts (fst (run (example_schedule @ [CallInitDatabase]))) = [Fulfilled 0]"
  by (simp add: run_def example_schedule_def uninitialized_def call_initDatabase_def
      call_getDatabase_def alter_failed_def io_done_def enter_catch_def console_log_def
      console_error_def set_attempt_def Let_def)

lemma example_retry_run:
  "run example_retry_schedule =
     (\<lparr>db = Some 1, initPromise = Some 1,
       attempts = [Rejected (init_failure example_error), Fulfilled 1],
       console = console (fst (run example_retry_schedule))\<rparr>,
      [Awaiting 0, Awaiting 1])"
  by (simp add: run_def example_retry_schedule_def uninitialized_def call_initDatabase_def
      io_done_def enter_catch_def console_log_def console_error_def set_attempt_def Let_def)

lemma example_failing_run:
  "run example_failing_schedule =
     (\<lparr>db = None, initPromise = None,
       attempts = [Rejected (JsError ''Database initialization failed: disk I/O error'' None)],
       console = console (fst (run example_failing_schedule))\<rparr>,
      [Awaiting 0, Awaiting 0, Awaiting 0])"
  by (simp add: run_def example_failing_schedule_def uninitialized_def call_initDatabase_def
      call_getDatabase_def io_done_def enter_catch_def console_log_def console_error_def
      set_attempt_def Let_def init_failure_def errorMsg_def example_error_def)

lemma example_waiting_run:
  "run example_waiting_schedule =
     (\<lparr>db = None, initPromise = Some 0, attempts = [AwaitOpen],
       console = console (fst (run example_waiting_schedule))\<rparr>,
      [Awaiting 0, Awaiting 0])"
  by (simp add: run_def example_waiting_schedule_def uninitialized_def call_initDatabase_def
      call_getDatabase_def console_log_def Let_def)

theorem one_initialisation_at_a_time_witness:
  "list_all (\<lambda>a. \<not> failed a) (attempts (fst (run example_schedule)))
   \<and> attempts (fst (run example_schedule)) = [Fulfilled 0]
   \<and> length (attempts (fst (run example_schedule))) \<le> 1
   \<and> length (filter in_progress (attempts (fst (run example_schedule)))) \<le> 1
   \<and> length (filter succeeded (attempts (fst (run example_schedule)))) \<le> 1
   \<and> map (caller_result (fst (run example_schedule))) (snd (run example_schedule))
       = [Returns 0, Returns 0, Returns 0, Returns 0]
   \<and> list_ex succeeded (attempts (fst (run example_schedule)))
   \<and> length (attempts (fst (run (example_schedule @ [CallInitDatabase]))))
       = length (attempts (fst (run example_schedule)))
   \<and> length (snd (run example_schedule)) = length (filter is_call example_schedule)
   \<and> snd (run example_failing_schedule) = [Awaiting 0, Awaiting 0, Awaiting 0]
   \<and> map (caller_result (fst (run example_failing_schedule)))
         (snd (run example_failing_schedule))
       = [Throws (JsError ''Database initialization failed: disk I/O error'' None),
          Throws (JsError ''Database initialization failed: disk I/O error'' None),
          Throws (JsError ''Database initialization failed: disk I/O error'' None)]
   \<and> list_all failed (attempts (fst (run example_failing_schedule)))
   \<and> attempts (fst (run (example_failing_schedule @ [CallGetDatabase])))
       = attempts (fst (run example_failing_schedule)) @ [AwaitOpen]
   \<and> last (snd (run (example_failing_schedule @ [CallGetDatabase]))) = Awaiting 1
   \<and> caller_result
        (fst (run (example_failing_schedule @ [CallGetDatabase, IoDone 1 Resolves])))
        (Awaiting 0)
       = Throws (JsError ''Database initialization failed: disk I/O error'' None)
   \<and> snd (run example_waiting_schedule) = [Awaiting 0, Awaiting 0]
   \<and> \<not> failed (attempts (fst (run example_waiting_schedule)) ! 0)
   \<and> attempts (fst (run (example_waiting_schedule @ [CallInitDatabase])))
       = attempts (fst (run example_waiting_schedule))
   \<and> target (last (snd (run (example_waiting_schedule @ [CallInitDatabase])))) = 0
   \<and> target (last (snd (run (example_waiting_schedule @ [CallGetDatabase])))) = 0
   \<and> map (caller_result
             (fst (run (example_waiting_schedule @ replicate 6 (IoDone 0 Resolves)))))
         (snd (run example_waiting_schedule))
       = [Returns 0, Returns 0]
   \<and> snd (run example_retry_schedule) = [Awaiting 0, Awaiting 1]
   \<and> failed (attempts (fst (run example_retry_schedule)) ! 0)"
proof -
  have atts: "attempts (fst (run example_schedule)) = [Fulfilled 0]"
    by (subst example_run) simp
  have ws: "snd (run example_schedule) = [Awaiting 0, Awaiting 0, Awaiting 0, Immediate 0]"
    by (subst example_run) simp
  have ok: "list_all (\<lambda>a. \<not> failed a) (attempts (fst (run example_schedule)))"
    and won: "list_ex succeeded (attempts (fst (run example_schedule)))"
    by (simp_all add: atts)
  have results: "map (caller_result (fst (run example_schedule))) (snd (run example_schedule))
       = [Returns 0, Returns 0, Returns 0, Returns 0]"
    by (simp add: ws atts)
  from one_initialisation_at_a_time [of example_schedule "[CallInitDatabase]"] ok won
  have success: "length (attempts (fst (run example_schedule))) \<le> 1"
    "length (filter in_progress (attempts (fst (run example_schedule)))) \<le> 1"
    "length (filter succeeded (attempts (fst (run example_schedule)))) \<le> 1"
    "length (attempts (fst (run (example_schedule @ [CallInitDatabase]))))
       = length (attempts (fst (run example_schedule)))"
    "length (snd (run example_schedule)) = length (filter is_call example_schedule)"
    by blast+
  let ?E = "JsError ''Database initialization failed: disk I/O error'' None"
  have f_atts: "attempts (fst (run example_failing_schedule)) = [Rejected ?E]"
    by (subst example_failing_run) simp
  have f_ws: "snd (run example_failing_schedule) = [Awaiting 0, Awaiting 0, Awaiting 0]"
    by (subst example_failing_run) simp
  have f_all: "list_all failed (attempts (fst (run example_failing_schedule)))"
    by (simp add: f_atts)
  have f_first: "caller_result (fst (run example_failing_schedule)) (Awaiting 0) = Throws ?E"
    by (simp add: f_atts)
  note failing =
    one_initialisation_at_a_time
      [of example_failing_schedule "[CallGetDatabase, IoDone 1 Resolves]"]
  from failing
  have f_same: "\<forall>w1\<in>set (snd (run example_failing_schedule)).
         \<forall>w2\<in>set (snd (run example_failing_schedule)).
         (target w1 = target w2
            \<longrightarrow> caller_result (fst (run example_failing_schedule)) w1
                = caller_result (fst (run example_failing_schedule)) w2)
         \<and> (target w1 < target w2
            \<longrightarrow> failed (attempts (fst (run example_failing_schedule)) ! target w1))"
    by (elim conjE)
  from f_same f_ws f_first
  have f_results: "map (caller_result (fst (run example_failing_schedule)))
         (snd (run example_failing_schedule)) = [Throws ?E, Throws ?E, Throws ?E]"
    by simp
  from failing f_all
  have f_start: "attempts (fst (run (example_failing_schedule @ [CallGetDatabase])))
       = attempts (fst (run example_failing_schedule)) @ [AwaitOpen]"
    "last (snd (run (example_failing_schedule @ [CallGetDatabase])))
       = Awaiting (length (attempts (fst (run example_failing_schedule))))"
    by blast+
  from f_start(2) have f_new: "last (snd (run (example_failing_schedule @ [CallGetDatabase])))
       = Awaiting 1"
    by (simp add: f_atts)
  from failing
  have "\<forall>w\<in>set (snd (run example_failing_schedule)).
          caller_result (fst (run example_failing_schedule)) w \<noteq> Pending \<longrightarrow>
          caller_result
            (fst (run (example_failing_schedule @ [CallGetDatabase, IoDone 1 Resolves]))) w
            = caller_result (fst (run example_failing_schedule)) w"
    by (elim conjE)
  with f_ws f_first
  have f_kept: "caller_result
        (fst (run (example_failing_schedule @ [CallGetDatabase, IoDone 1 Resolves])))
        (Awaiting 0) = Throws ?E"
    by simp
  have w_atts: "attempts (fst (run example_waiting_schedule)) = [AwaitOpen]"
    by (subst example_waiting_run) simp
  have w_ws: "snd (run example_waiting_schedule) = [Awaiting 0, Awaiting 0]"
    by (subst example_waiting_run) simp
  have w_ok: "\<not> failed (attempts (fst (run example_waiting_schedule)) ! 0)"
    by (simp add: w_atts)
  note waiting = one_initialisation_at_a_time [of example_waiting_schedule "[]"]
  from waiting
  have "\<forall>p<length (attempts (fst (run example_waiting_schedule))).
          \<not> failed (attempts (fst (run example_waiting_schedule)) ! p) \<longrightarrow>
          attempts (fst (run (example_waiting_schedule @ [CallInitDatabase])))
            = attempts (fst (run example_waiting_schedule))
          \<and> target (last (snd (run (example_waiting_schedule @ [CallInitDatabase])))) = p
          \<and> attempts (fst (run (example_waiting_schedule @ [CallGetDatabase])))
              = attempts (fst (run example_waiting_schedule))
          \<and> target (last (snd (run (example_waiting_schedule @ [CallGetDatabase])))) = p"
    by (elim conjE)
  with w_ok w_atts
  have w_join: "attempts (fst (run (example_waiting_schedule @ [CallInitDatabase])))
       = attempts (fst (run example_waiting_schedule))"
    "target (last (snd (run (example_waiting_schedule @ [CallInitDatabase])))) = 0"
    "target (last (snd (run (example_waiting_schedule @ [CallGetDatabase])))) = 0"
    by simp_all
  from waiting
  have "\<forall>p<length (attempts (fst (run example_waiting_schedule))).
          \<not> failed (attempts (fst (run example_waiting_schedule)) ! p) \<longrightarrow>
          (\<forall>w\<in>set (snd (run example_waiting_schedule)). target w = p \<longrightarrow>
             caller_result
               (fst (run (example_waiting_schedule @ replicate 6 (IoDone p Resolves)))) w
               = Returns p)"
    by (elim conjE)
  with w_ok w_atts w_ws
  have w_handles: "map (caller_result
             (fst (run (example_waiting_schedule @ replicate 6 (IoDone 0 Resolves)))))
         (snd (run example_waiting_schedule)) = [Returns 0, Returns 0]"
    by simp
  have r_atts: "attempts (fst (run example_retry_schedule))
                  = [Rejected (init_failure example_error), Fulfilled 1]"
    by (subst example_retry_run) simp
  have r_ws: "snd (run example_retry_schedule) = [Awaiting 0, Awaiting 1]"
    by (subst example_retry_run) simp
  from one_initialisation_at_a_time [of example_retry_schedule "[]"]
  have "\<forall>q. Suc q < length (attempts (fst (run example_retry_schedule)))
          \<longrightarrow> failed (attempts (fst (run example_retry_schedule)) ! q)"
    by (elim conjE)
  with r_atts have r_failed: "failed (attempts (fst (run example_retry_schedule)) ! 0)"
    by simp
  from atts ok won results success f_ws f_results f_all f_start(1) f_new f_kept
    w_ws w_ok w_join w_handles r_ws r_failed
  show ?thesis by blast
qed

text \<open>
  C1 as it is written fails when the first initialisation fails: a caller that arrives
  afterwards starts a second open-and-create sequence, and the two callers receive a
  failure and a handle.
\<close>

theorem retry_after_failure_counterexample:
  "length (attempts (fst (run example_retry_schedule))) = 2
   \<and> map (caller_result (fst (run example_retry_schedule))) (snd (run example_retry_schedule))
       = [Throws (JsError ''Database initialization failed: disk I/O error'' None),
          Returns 1]"
proof -
  have atts: "attempts (fst (run example_retry_schedule))
                = [Rejected (init_failure example_error), Fulfilled 1]"
    by (subst example_retry_run) simp
  have ws: "snd (run example_retry_schedule) = [Awaiting 0, Awaiting 1]"
    by (subst example_retry_run) simp
  show ?thesis
    by (simp add: atts ws init_failure_def errorMsg_def example_error_def)
qed

lemma fatal_io_done:
  assumes "p < length (attempts g)" and "fatal_failure (attempts g ! p) out = Some error"
  shows "db (io_done p out g) = None \<and> initPromise (io_done p out g) = None
       \<and> attempts (io_done p out g) ! p
           = (case handle_of (attempts g ! p) of
                None \<Rightarrow> Rejected (init_failure error)
              | Some h \<Rightarrow> AwaitClose h error)"
  using assms
  by (cases "attempts g ! p"; cases out)
     (simp_all add: io_done_def enter_catch_def Let_def)

lemma close_io_done:
  assumes "p < length (attempts g)"
    and "attempts g ! p = Rejected (init_failure error) \<or> attempts g ! p = AwaitClose h error"
  shows "attempts (io_done p closeOut g) ! p = Rejected (init_failure error)
       \<and> db (io_done p closeOut g) = db g \<and> initPromise (io_done p closeOut g) = initPromise g"
  using assms by (cases closeOut) (auto simp: io_done_def)

text \<open>
  Once a closure has entered the catch block, whatever turns follow leave it awaiting its
  close call or rejected with its error.
\<close>

lemma closing_step:
  assumes "p < length (attempts (fst s))"
    and "attempts (fst s) ! p = Rejected (init_failure error)
         \<or> attempts (fst s) ! p = AwaitClose h error"
  shows "p < length (attempts (fst (step s e)))
       \<and> (attempts (fst (step s e)) ! p = Rejected (init_failure error)
          \<or> attempts (fst (step s e)) ! p = AwaitClose h error)"
proof (cases s)
  case (Pair g ws)
  show ?thesis
  proof (cases e)
    case CallInitDatabase
    with Pair assms call_initDatabase_attempts [of g] show ?thesis
      by (auto simp: split_beta nth_append)
  next
    case CallGetDatabase
    with Pair assms call_getDatabase_attempts [of g] show ?thesis
      by (auto simp: split_beta nth_append)
  next
    case (IoDone q out)
    show ?thesis
    proof (cases "q = p")
      case True
      from Pair assms close_io_done [of p g error h out]
      have "attempts (io_done p out g) ! p = Rejected (init_failure error)" by simp
      with Pair IoDone True assms(1) show ?thesis by simp
    next
      case False
      then have "attempts (io_done q out g) ! p = attempts g ! p"
        by (simp add: io_done_other)
      with Pair IoDone assms show ?thesis by simp
    qed
  qed
qed

lemma closing_foldl_step:
  "p < length (attempts (fst s)) \<Longrightarrow>
   attempts (fst s) ! p = Rejected (init_failure error)
     \<or> attempts (fst s) ! p = AwaitClose h error \<Longrightarrow>
   p < length (attempts (fst (foldl step s es)))
   \<and> (attempts (fst (foldl step s es)) ! p = Rejected (init_failure error)
      \<or> attempts (fst (foldl step s es)) ! p = AwaitClose h error)"
proof (induction es arbitrary: s)
  case Nil
  then show ?case by simp
next
  case (Cons e es)
  from closing_step [OF Cons.prems, of e]
  have "p < length (attempts (fst (step s e)))"
    "attempts (fst (step s e)) ! p = Rejected (init_failure error)
     \<or> attempts (fst (step s e)) ! p = AwaitClose h error"
    by simp_all
  from Cons.IH [OF this] show ?case by simp
qed

text \<open>A guard that is reset stays reset until the next call.\<close>

lemma idle_io_done:
  assumes inv: "guard_inv g" and idle: "db g = None" "initPromise g = None"
  shows "db (io_done q out g) = None \<and> initPromise (io_done q out g) = None"
proof (cases "q < length (attempts g)")
  case False
  with idle show ?thesis by (simp add: io_done_def)
next
  case True
  from guard_inv_idle [OF inv idle(2) True] idle True show ?thesis
    by (cases "attempts g ! q"; cases out) (simp_all add: io_done_def)
qed

lemma idle_foldl_step:
  "guard_inv (fst s) \<Longrightarrow> db (fst s) = None \<Longrightarrow> initPromise (fst s) = None \<Longrightarrow>
   list_all (\<lambda>e. \<not> is_call e) es \<Longrightarrow>
   guard_inv (fst (foldl step s es)) \<and> db (fst (foldl step s es)) = None
   \<and> initPromise (fst (foldl step s es)) = None
   \<and> length (attempts (fst (foldl step s es))) = length (attempts (fst s))"
proof (induction es arbitrary: s)
  case Nil
  then show ?case by simp
next
  case (Cons e es)
  from Cons.prems(4) obtain q out where e: "e = IoDone q out" and rest: "list_all (\<lambda>e. \<not> is_call e) es"
    by (cases e) simp_all
  obtain g ws where s: "s = (g, ws)" by (cases s)
  from Cons.prems(1-3) s
  have inv: "guard_inv g" and idle: "db g = None" "initPromise g = None" by simp_all
  from idle_io_done [OF inv idle, of q out] guard_inv_io_done [OF inv, of q out] s e
  have "guard_inv (fst (step s e))" "db (fst (step s e)) = None"
    "initPromise (fst (step s e)) = None"
    "length (attempts (fst (step s e))) = length (attempts (fst s))"
    by simp_all
  with Cons.IH [OF this(1-3) rest] show ?case by simp
qed

text \<open>
  C2, as amended. When the awaited call of a closure ends in a failure that reaches the
  outer catch block (any rejection but that of the \<^verbatim>\<open>ALTER TABLE\<close> statement, or a
  \<^verbatim>\<open>null\<close> handle), that turn resets \<^verbatim>\<open>db\<close> and \<^verbatim>\<open>initPromise\<close>; a closure
  that holds a handle awaits \<^verbatim>\<open>closeAsync\<close> on it, and a closure without one is
  rejected in that turn. A call of \<^verbatim>\<open>initDatabase\<close> or \<^verbatim>\<open>getDatabase\<close> that
  arrives next, also while the close call is awaited, starts a new closure at the open
  call. Whatever turns follow the failure, and however the close call ends, the turn in
  which it ends changes neither \<^verbatim>\<open>db\<close> nor \<^verbatim>\<open>initPromise\<close> and leaves the
  promise rejected with a new error, whose message is
  \<^verbatim>\<open>Database initialization failed: \<close> followed by the message of the failure, or by
  \<^verbatim>\<open>Error\<close> when that message is empty. When no call arrives between the failure and
  the end of the close call, in a state that a schedule reaches, the guard is reset at that
  moment and the next \<^verbatim>\<open>initDatabase\<close> starts a new closure at the open call.
\<close>

theorem failed_initialisation_resets_guard:
  assumes "p < length (attempts g)" and "fatal_failure (attempts g ! p) out = Some error"
  shows "db (io_done p out g) = None \<and> initPromise (io_done p out g) = None
       \<and> attempts (io_done p out g) ! p
           = (case handle_of (attempts g ! p) of
                None \<Rightarrow>
                  Rejected (JsError (''Database initialization failed: '' @
                                      (if message error = [] then ''Error'' else message error))
                              None)
              | Some h \<Rightarrow> AwaitClose h error)
       \<and> fst (call_initDatabase (io_done p out g)) = Awaiting (length (attempts g))
       \<and> attempts (snd (call_initDatabase (io_done p out g)))
           = attempts (io_done p out g) @ [AwaitOpen]
       \<and> fst (call_getDatabase (io_done p out g)) = Awaiting (length (attempts g))
       \<and> attempts (snd (call_getDatabase (io_done p out g)))
           = attempts (io_done p out g) @ [AwaitOpen]
       \<and> caller_result (io_done p closeOut (fst (foldl step (io_done p out g, ws) es)))
            (Awaiting p)
           = Throws (JsError (''Database initialization failed: '' @
                               (if message error = [] then ''Error'' else message error))
                       None)
       \<and> db (io_done p closeOut (fst (foldl step (io_done p out g, ws) es)))
           = db (fst (foldl step (io_done p out g, ws) es))
       \<and> initPromise (io_done p closeOut (fst (foldl step (io_done p out g, ws) es)))
           = initPromise (fst (foldl step (io_done p out g, ws) es))
       \<and> (guard_inv g \<and> list_all (\<lambda>e. \<not> is_call e) es \<longrightarrow>
            db (io_done p closeOut (fst (foldl step (io_done p out g, ws) es))) = None
          \<and> initPromise (io_done p closeOut (fst (foldl step (io_done p out g, ws) es))) = None
          \<and> fst (call_initDatabase
                   (io_done p closeOut (fst (foldl step (io_done p out g, ws) es))))
              = Awaiting (length (attempts g))
          \<and> attempts (snd (call_initDatabase
                   (io_done p closeOut (fst (foldl step (io_done p out g, ws) es)))))
              = attempts (io_done p closeOut (fst (foldl step (io_done p out g, ws) es)))
                @ [AwaitOpen]
          \<and> initPromise (snd (call_initDatabase
                   (io_done p closeOut (fst (foldl step (io_done p out g, ws) es)))))
              = Some (length (attempts g)))
       \<and> caller_result (io_done p closeOut (io_done p out g)) (Awaiting p)
           = Throws (JsError (''Database initialization failed: '' @
                               (if message error = [] then ''Error'' else message error))
                       None)
       \<and> db (io_done p closeOut (io_done p out g)) = None
       \<and> initPromise (io_done p closeOut (io_done p out g)) = None
       \<and> fst (call_initDatabase (io_done p closeOut (io_done p out g)))
           = Awaiting (length (attempts g))
       \<and> attempts (snd (call_initDatabase (io_done p closeOut (io_done p out g))))
           = attempts (io_done p closeOut (io_done p out g)) @ [AwaitOpen]
       \<and> initPromise (snd (call_initDatabase (io_done p closeOut (io_done p out g))))
           = Some (length (attempts g))"
proof -
  let ?E = "JsError (''Database initialization failed: '' @
                      (if message error = [] then ''Error'' else message error)) None"
  let ?g1 = "io_done p out g"
  let ?g' = "fst (foldl step (io_done p out g, ws) es)"
  let ?g2 = "io_done p closeOut ?g'"
  let ?g3 = "io_done p closeOut ?g1"
  have E: "init_failure error = ?E"
    by (simp add: init_failure_def errorMsg_def toString_def)
  from fatal_io_done [OF assms]
  have g1: "db ?g1 = None" "initPromise ?g1 = None"
    and at: "attempts ?g1 ! p
               = (case handle_of (attempts g ! p) of
                    None \<Rightarrow> Rejected (init_failure error)
                  | Some h \<Rightarrow> AwaitClose h error)"
    by simp_all
  from assms(1) have p1: "p < length (attempts ?g1)" by simp
  from at have closing: "attempts ?g1 ! p = Rejected (init_failure error)
                \<or> attempts ?g1 ! p = AwaitClose (the (handle_of (attempts g ! p))) error"
    by (cases "handle_of (attempts g ! p)") simp_all
  have c1: "db ?g1 = None" and c2: "initPromise ?g1 = None" by (rule g1)+
  have c3: "attempts ?g1 ! p
           = (case handle_of (attempts g ! p) of
                None \<Rightarrow> Rejected ?E
              | Some h \<Rightarrow> AwaitClose h error)"
    using at unfolding E .
  from call_initDatabase_idle [OF g1] assms(1)
  have c4: "fst (call_initDatabase ?g1) = Awaiting (length (attempts g))"
    and c5: "attempts (snd (call_initDatabase ?g1)) = attempts ?g1 @ [AwaitOpen]"
    by simp_all
  let ?l = "console_log [''Database not initialized, initializing now...''] ?g1"
  have "call_getDatabase ?g1 = call_initDatabase ?l"
    using g1 by (simp add: call_getDatabase_def)
  with call_initDatabase_idle [of ?l] g1 assms(1)
  have c6: "fst (call_getDatabase ?g1) = Awaiting (length (attempts g))"
    and c7: "attempts (snd (call_getDatabase ?g1)) = attempts ?g1 @ [AwaitOpen]"
    by simp_all
  from closing_foldl_step [of p "(?g1, ws)" error _ es] p1 closing
  have p': "p < length (attempts ?g')"
    and closing': "attempts ?g' ! p = Rejected (init_failure error)
                   \<or> attempts ?g' ! p = AwaitClose (the (handle_of (attempts g ! p))) error"
    by simp_all
  from close_io_done [OF p' closing', of closeOut]
  have g2: "attempts ?g2 ! p = Rejected (init_failure error)" "db ?g2 = db ?g'"
    "initPromise ?g2 = initPromise ?g'"
    by simp_all
  from g2(1) p' have c8: "caller_result ?g2 (Awaiting p) = Throws ?E"
    by (simp add: E)
  have c9: "db ?g2 = db ?g'" and c10: "initPromise ?g2 = initPromise ?g'" by (rule g2)+
  have c11: "guard_inv g \<and> list_all (\<lambda>e. \<not> is_call e) es \<longrightarrow>
            db ?g2 = None \<and> initPromise ?g2 = None
          \<and> fst (call_initDatabase ?g2) = Awaiting (length (attempts g))
          \<and> attempts (snd (call_initDatabase ?g2)) = attempts ?g2 @ [AwaitOpen]
          \<and> initPromise (snd (call_initDatabase ?g2)) = Some (length (attempts g))"
  proof (intro impI, elim conjE)
    assume inv: "guard_inv g" and io: "list_all (\<lambda>e. \<not> is_call e) es"
    from guard_inv_io_done [OF inv, of p out]
    have "guard_inv (fst (?g1, ws))" by simp
    from idle_foldl_step [OF this _ _ io] g1 assms(1)
    have idle': "db ?g' = None" "initPromise ?g' = None"
      and len': "length (attempts ?g') = length (attempts g)"
      by simp_all
    with g2 have idle2: "db ?g2 = None" "initPromise ?g2 = None" by simp_all
    from call_initDatabase_idle [OF idle2] len' idle2
    show "db ?g2 = None \<and> initPromise ?g2 = None
          \<and> fst (call_initDatabase ?g2) = Awaiting (length (attempts g))
          \<and> attempts (snd (call_initDatabase ?g2)) = attempts ?g2 @ [AwaitOpen]
          \<and> initPromise (snd (call_initDatabase ?g2)) = Some (length (attempts g))"
      by simp
  qed
  from close_io_done [OF p1 closing, of closeOut] g1
  have g3: "attempts ?g3 ! p = Rejected (init_failure error)" "db ?g3 = None"
    "initPromise ?g3 = None"
    by simp_all
  from assms(1) have len: "length (attempts ?g3) = length (attempts g)" by simp
  with g3(1) assms(1)
  have c12: "caller_result ?g3 (Awaiting p) = Throws ?E" by (simp add: E)
  have c13: "db ?g3 = None" and c14: "initPromise ?g3 = None" by (rule g3)+
  from call_initDatabase_idle [OF g3(2,3)] len
  have c15: "fst (call_initDatabase ?g3) = Awaiting (length (attempts g))"
    and c16: "attempts (snd (call_initDatabase ?g3)) = attempts ?g3 @ [AwaitOpen]"
    and c17: "initPromise (snd (call_initDatabase ?g3)) = Some (length (attempts g))"
    by simp_all
  show ?thesis
    by (intro conjI)
       (rule c1, rule c2, rule c3, rule c4, rule c5, rule c6, rule c7, rule c8, rule c9,
        rule c10, rule c11, rule c12, rule c13, rule c14, rule c15, rule c16, rule c17)
qed

lemma example_creating_guard_inv: "guard_inv example_creating_guard"
  by (simp add: guard_inv_def example_creating_guard_def)

lemma example_window_run:
  "run example_window_schedule =
     (\<lparr>db = None, initPromise = Some 1,
       attempts = [Rejected (JsError ''Database initialization failed: disk I/O error'' None),
                   AwaitOpen],
       console = console (fst (run example_window_schedule))\<rparr>,
      [Awaiting 0, Awaiting 1])"
  by (simp add: run_def example_window_schedule_def uninitialized_def call_initDatabase_def
      call_getDatabase_def io_done_def enter_catch_def console_log_def console_error_def
      set_attempt_def Let_def init_failure_def errorMsg_def example_error_def)

theorem failed_initialisation_resets_guard_witness:
  "0 < length (attempts example_creating_guard)
   \<and> fatal_failure (attempts example_creating_guard ! 0) (Rejects example_error)
       = Some example_error
   \<and> db (io_done 0 (Rejects example_error) example_creating_guard) = None
   \<and> initPromise (io_done 0 (Rejects example_error) example_creating_guard) = None
   \<and> attempts (io_done 0 (Rejects example_error) example_creating_guard) ! 0
       = AwaitClose 0 example_error
   \<and> fst (call_getDatabase (io_done 0 (Rejects example_error) example_creating_guard))
       = Awaiting 1
   \<and> initPromise
        (fst (foldl step (io_done 0 (Rejects example_error) example_creating_guard,
                          [Awaiting 0]) [CallGetDatabase]))
       = Some 1
   \<and> caller_result
        (io_done 0 (Rejects (JsError ''cannot close'' None))
           (fst (foldl step (io_done 0 (Rejects example_error) example_creating_guard,
                             [Awaiting 0]) [CallGetDatabase])))
        (Awaiting 0)
       = Throws (JsError ''Database initialization failed: disk I/O error'' None)
   \<and> initPromise
        (io_done 0 (Rejects (JsError ''cannot close'' None))
           (fst (foldl step (io_done 0 (Rejects example_error) example_creating_guard,
                             [Awaiting 0]) [CallGetDatabase])))
       = Some 1
   \<and> guard_inv example_creating_guard
   \<and> list_all (\<lambda>e. \<not> is_call e) []
   \<and> caller_result
        (io_done 0 (Rejects (JsError ''cannot close'' None))
           (io_done 0 (Rejects example_error) example_creating_guard)) (Awaiting 0)
       = Throws (JsError ''Database initialization failed: disk I/O error'' None)
   \<and> db (io_done 0 (Rejects (JsError ''cannot close'' None))
           (io_done 0 (Rejects example_error) example_creating_guard)) = None
   \<and> initPromise
        (io_done 0 (Rejects (JsError ''cannot close'' None))
           (io_done 0 (Rejects example_error) example_creating_guard)) = None
   \<and> fst (call_initDatabase
        (io_done 0 (Rejects (JsError ''cannot close'' None))
           (io_done 0 (Rejects example_error) example_creating_guard)))
       = Awaiting 1"
proof -
  have p: "0 < length (attempts example_creating_guard)"
    and f: "fatal_failure (attempts example_creating_guard ! 0) (Rejects example_error)
              = Some example_error"
    by (simp_all add: example_creating_guard_def)
  have h: "handle_of (attempts example_creating_guard ! 0) = Some 0"
    "length (attempts example_creating_guard) = 1"
    by (simp_all add: example_creating_guard_def)
  have m: "message example_error = ''disk I/O error''"
    by (simp add: example_error_def)
  have io: "list_all (\<lambda>e. \<not> is_call e) []" by simp
  have named:
    "initPromise
       (fst (foldl step (io_done 0 (Rejects example_error) example_creating_guard,
                         [Awaiting 0]) [CallGetDatabase])) = Some 1"
    by (simp add: example_creating_guard_def io_done_def enter_catch_def
        call_getDatabase_def call_initDatabase_def Let_def split_beta)
  note window =
    failed_initialisation_resets_guard
      [OF p f, of "Rejects (JsError ''cannot close'' None)" "[Awaiting 0]"
         "[CallGetDatabase]"]
  note quiet =
    failed_initialisation_resets_guard
      [OF p f, of "Rejects (JsError ''cannot close'' None)" "[]" "[]"]
  from window h m named
  have a: "db (io_done 0 (Rejects example_error) example_creating_guard) = None"
    "initPromise (io_done 0 (Rejects example_error) example_creating_guard) = None"
    "attempts (io_done 0 (Rejects example_error) example_creating_guard) ! 0
       = AwaitClose 0 example_error"
    "fst (call_getDatabase (io_done 0 (Rejects example_error) example_creating_guard))
       = Awaiting 1"
    "caller_result
        (io_done 0 (Rejects (JsError ''cannot close'' None))
           (fst (foldl step (io_done 0 (Rejects example_error) example_creating_guard,
                             [Awaiting 0]) [CallGetDatabase])))
        (Awaiting 0)
       = Throws (JsError ''Database initialization failed: disk I/O error'' None)"
    "initPromise
        (io_done 0 (Rejects (JsError ''cannot close'' None))
           (fst (foldl step (io_done 0 (Rejects example_error) example_creating_guard,
                             [Awaiting 0]) [CallGetDatabase])))
       = Some 1"
    by simp_all
  from quiet example_creating_guard_inv io h m
  have b: "caller_result
        (io_done 0 (Rejects (JsError ''cannot close'' None))
           (io_done 0 (Rejects example_error) example_creating_guard)) (Awaiting 0)
       = Throws (JsError ''Database initialization failed: disk I/O error'' None)"
    "db (io_done 0 (Rejects (JsError ''cannot close'' None))
           (io_done 0 (Rejects example_error) example_creating_guard)) = None"
    "initPromise
        (io_done 0 (Rejects (JsError ''cannot close'' None))
           (io_done 0 (Rejects example_error) example_creating_guard)) = None"
    "fst (call_initDatabase
        (io_done 0 (Rejects (JsError ''cannot close'' None))
           (io_done 0 (Rejects example_error) example_creating_guard)))
       = Awaiting 1"
    by simp_all
  from p f a named example_creating_guard_inv io b show ?thesis by blast
qed

text \<open>
  C2 as it is written fails when a caller arrives while the close call is awaited: when
  the first caller receives its error, \<^verbatim>\<open>initPromise\<close> holds the promise of the second
  closure, and a call of \<^verbatim>\<open>initDatabase\<close> after that awaits that promise and starts
  nothing.
\<close>

theorem call_during_close_counterexample:
  "map (caller_result (fst (run example_window_schedule))) (snd (run example_window_schedule))
     = [Throws (JsError ''Database initialization failed: disk I/O error'' None), Pending]
   \<and> initPromise (fst (run example_window_schedule)) = Some 1
   \<and> attempts (fst (run example_window_schedule))
       = [Rejected (JsError ''Database initialization failed: disk I/O error'' None),
          AwaitOpen]
   \<and> fst (call_initDatabase (fst (run example_window_schedule))) = Awaiting 1
   \<and> attempts (snd (call_initDatabase (fst (run example_window_schedule))))
       = attempts (fst (run example_window_schedule))"
proof -
  have atts: "attempts (fst (run example_window_schedule))
       = [Rejected (JsError ''Database initialization failed: disk I/O error'' None),
          AwaitOpen]"
    by (subst example_window_run) simp
  have ws: "snd (run example_window_schedule) = [Awaiting 0, Awaiting 1]"
    by (subst example_window_run) simp
  have named: "initPromise (fst (run example_window_schedule)) = Some 1"
    by (subst example_window_run) simp
  show ?thesis
    by (simp add: atts ws named call_initDatabase_def)
qed

text \<open>
  C8. When the \<^verbatim>\<open>ALTER TABLE\<close> statement of a closure is rejected, with whatever
  error, nothing is thrown: the closure goes on to \<^verbatim>\<open>CREATE TABLE prodi\<close> exactly as
  after a success, \<^verbatim>\<open>db\<close> and \<^verbatim>\<open>initPromise\<close> are untouched, and when the two
  remaining statements succeed the closure returns its handle. A message that contains
  \<^verbatim>\<open>duplicate column name\<close> or \<^verbatim>\<open>already exists\<close> gives an ordinary console
  line; every other failure, so every failure whose message contains neither
  \<^verbatim>\<open>duplicate column\<close> nor \<^verbatim>\<open>already exists\<close>, gives a console error line.
\<close>

theorem alter_failure_is_not_fatal:
  assumes "p < length (attempts g)" and "attempts g ! p = AwaitAlter h"
  shows "attempts (io_done p (Rejects alterError) g) = attempts (io_done p Resolves g)
       \<and> attempts (io_done p (Rejects alterError) g) ! p = AwaitCreateProdi h
       \<and> db (io_done p (Rejects alterError) g) = db g
       \<and> initPromise (io_done p (Rejects alterError) g) = initPromise g
       \<and> console (io_done p (Rejects alterError) g)
           = console g
             @ [if str_includes (message alterError) ''duplicate column name''
                   \<or> str_includes (message alterError) ''already exists''
                then ConsoleLog ''Fakultas column already exists in mahasiswa table''
                else ConsoleError ''Error ensuring fakultas column on mahasiswa table:'',
                ConsoleLog ''Creating prodi table...'']
       \<and> (\<not> str_includes (message alterError) ''duplicate column''
            \<and> \<not> str_includes (message alterError) ''already exists''
           \<longrightarrow> ConsoleError ''Error ensuring fakultas column on mahasiswa table:''
                 \<in> set (console (io_done p (Rejects alterError) g)))
       \<and> caller_result
            (io_done p Resolves (io_done p Resolves (io_done p (Rejects alterError) g)))
            (Awaiting p) = Returns h
       \<and> db (io_done p Resolves (io_done p Resolves (io_done p (Rejects alterError) g)))
           = Some h"
proof -
  let ?g1 = "io_done p (Rejects alterError) g"
  have step1: "?g1 = console_log [''Creating prodi table...'']
                       (alter_failed alterError (set_attempt p (AwaitCreateProdi h) g))"
    using assms by (simp add: io_done_def)
  have atts: "attempts ?g1 = (attempts g)[p := AwaitCreateProdi h]"
    and same: "attempts ?g1 = attempts (io_done p Resolves g)"
    and vars: "db ?g1 = db g" "initPromise ?g1 = initPromise g"
    using assms by (simp_all add: step1, simp_all add: io_done_def)
  have cons: "console ?g1
           = console g
             @ [if str_includes (message alterError) ''duplicate column name''
                   \<or> str_includes (message alterError) ''already exists''
                then ConsoleLog ''Fakultas column already exists in mahasiswa table''
                else ConsoleError ''Error ensuring fakultas column on mahasiswa table:'',
                ConsoleLog ''Creating prodi table...'']"
    by (simp add: step1 alter_failed_def console_log_def console_error_def)
  have shorter: "str_includes (message alterError) ''duplicate column''"
    if "str_includes (message alterError) ''duplicate column name''"
    using str_includes_longer [of "message alterError" "''duplicate column''" "'' name''"] that
    by simp
  have logged: "\<not> str_includes (message alterError) ''duplicate column''
            \<and> \<not> str_includes (message alterError) ''already exists''
           \<longrightarrow> ConsoleError ''Error ensuring fakultas column on mahasiswa table:''
                 \<in> set (console ?g1)"
    using shorter by (auto simp: cons)
  have at1: "attempts ?g1 ! p = AwaitCreateProdi h" and p1: "p < length (attempts ?g1)"
    using assms(1) by (simp_all add: atts)
  let ?g2 = "io_done p Resolves ?g1"
  have at2: "attempts ?g2 ! p = AwaitCreateFakultas h" and p2: "p < length (attempts ?g2)"
    using p1 at1 by (simp_all add: io_done_def [of p Resolves ?g1])
  let ?g3 = "io_done p Resolves ?g2"
  have at3: "attempts ?g3 ! p = Fulfilled h" "p < length (attempts ?g3)" "db ?g3 = Some h"
    using p2 at2 by (simp_all add: io_done_def [of p Resolves ?g2])
  then have res: "caller_result ?g3 (Awaiting p) = Returns h" by simp
  from same at1 vars cons logged res at3(3) show ?thesis by blast
qed

theorem alter_failure_is_not_fatal_witness:
  "0 < length (attempts example_altering_guard)
   \<and> attempts example_altering_guard ! 0 = AwaitAlter 0
   \<and> attempts (io_done 0 (Rejects (JsError ''duplicate column name: fakultas'' None))
                 example_altering_guard) = [AwaitCreateProdi 0]
   \<and> console (io_done 0 (Rejects (JsError ''duplicate column name: fakultas'' None))
                 example_altering_guard)
       = [ConsoleLog ''Fakultas column already exists in mahasiswa table'',
          ConsoleLog ''Creating prodi table...'']
   \<and> \<not> str_includes (message (JsError ''no such table: mahasiswa'' None)) ''duplicate column''
   \<and> \<not> str_includes (message (JsError ''no such table: mahasiswa'' None)) ''already exists''
   \<and> ConsoleError ''Error ensuring fakultas column on mahasiswa table:''
        \<in> set (console (io_done 0 (Rejects (JsError ''no such table: mahasiswa'' None))
                          example_altering_guard))
   \<and> caller_result
        (io_done 0 Resolves (io_done 0 Resolves
           (io_done 0 (Rejects (JsError ''no such table: mahasiswa'' None))
              example_altering_guard)))
        (Awaiting 0) = Returns 0"
proof -
  have p: "0 < length (attempts example_altering_guard)"
    and a: "attempts example_altering_guard ! 0 = AwaitAlter 0"
    by (simp_all add: example_altering_guard_def)
  have dup: "str_includes (message (JsError ''duplicate column name: fakultas'' None))
               ''duplicate column name''"
    by simp
  have other: "\<not> str_includes (message (JsError ''no such table: mahasiswa'' None))
                   ''duplicate column''"
    "\<not> str_includes (message (JsError ''no such table: mahasiswa'' None)) ''already exists''"
    by simp_all
  have g: "attempts example_altering_guard = [AwaitAlter 0]" "console example_altering_guard = []"
    by (simp_all add: example_altering_guard_def)
  note dup_case = alter_failure_is_not_fatal
         [OF p a, of "JsError ''duplicate column name: fakultas'' None"]
  from dup_case
  have same: "attempts (io_done 0 (Rejects (JsError ''duplicate column name: fakultas'' None))
                 example_altering_guard) = attempts (io_done 0 Resolves example_altering_guard)"
    by blast
  from dup_case
  have "console (io_done 0 (Rejects (JsError ''duplicate column name: fakultas'' None))
                 example_altering_guard)
          = console example_altering_guard
            @ [if str_includes (message (JsError ''duplicate column name: fakultas'' None))
                    ''duplicate column name''
                  \<or> str_includes (message (JsError ''duplicate column name: fakultas'' None))
                       ''already exists''
               then ConsoleLog ''Fakultas column already exists in mahasiswa table''
               else ConsoleError ''Error ensuring fakultas column on mahasiswa table:'',
               ConsoleLog ''Creating prodi table...'']"
    by blast
  with dup g(2)
  have lines: "console (io_done 0 (Rejects (JsError ''duplicate column name: fakultas'' None))
                 example_altering_guard)
       = [ConsoleLog ''Fakultas column already exists in mahasiswa table'',
          ConsoleLog ''Creating prodi table...'']"
    by (simp only: if_True append_Nil simp_thms)
  have "attempts (io_done 0 Resolves example_altering_guard) = [AwaitCreateProdi 0]"
    by (simp add: io_done_def example_altering_guard_def)
  with same have first: "attempts (io_done 0 (Rejects (JsError
      ''duplicate column name: fakultas'' None)) example_altering_guard) = [AwaitCreateProdi 0]"
    by simp
  from alter_failure_is_not_fatal [OF p a, of "JsError ''no such table: mahasiswa'' None"] other
  have two: "ConsoleError ''Error ensuring fakultas column on mahasiswa table:''
        \<in> set (console (io_done 0 (Rejects (JsError ''no such table: mahasiswa'' None))
                          example_altering_guard))"
    "caller_result
        (io_done 0 Resolves (io_done 0 Resolves
           (io_done 0 (Rejects (JsError ''no such table: mahasiswa'' None))
              example_altering_guard)))
        (Awaiting 0) = Returns 0"
    by blast+
  from p a first lines other two show ?thesis by blast
qed

section \<open>Failures\<close>

lemma drive_settled:
  "caller_result g (Awaiting p) \<noteq> Pending \<Longrightarrow> drive p outs g = (outs, g)"
  by (cases outs) simp_all

lemma drive_pending:
  "caller_result g (Awaiting p) = Pending
   \<Longrightarrow> drive p (out # outs) g = drive p outs (io_done p out g)"
  by simp

lemma fatal_pending:
  assumes "p < length (attempts g)" and "fatal_failure (attempts g ! p) out = Some error"
  shows "caller_result g (Awaiting p) = Pending"
  using assms by (cases "attempts g ! p") simp_all

lemma await_fatal:
  assumes p: "p < length (attempts (guard w))"
    and fatal: "fatal_failure (attempts (guard w) ! p) out = Some error"
    and tape: "tape w = out # closeOut # outs"
  shows "fst (await_caller (Awaiting p) w) = Throws (init_failure error)"
proof -
  let ?g = "guard w"
  let ?g1 = "io_done p out ?g"
  let ?g2 = "io_done p closeOut ?g1"
  have p1: "p < length (attempts ?g1)" using p by (simp add: io_done_length)
  have p2: "p < length (attempts ?g2)" using p1 by (simp add: io_done_length)
  have first: "drive p (out # closeOut # outs) ?g = drive p (closeOut # outs) ?g1"
    using fatal_pending [OF p fatal] by simp
  from fatal_io_done [OF p fatal]
  have g1: "attempts ?g1 ! p
              = (case handle_of (attempts ?g ! p) of
                   None \<Rightarrow> Rejected (init_failure error)
                 | Some h \<Rightarrow> AwaitClose h error)"
    by blast
  show ?thesis
  proof (cases "handle_of (attempts ?g ! p)")
    case None
    with g1 p1 have "caller_result ?g1 (Awaiting p) = Throws (init_failure error)" by simp
    with first tape show ?thesis by (simp add: await_caller_def)
  next
    case (Some h)
    with g1 have a1: "attempts ?g1 ! p = AwaitClose h error" by simp
    with p1 have pend: "caller_result ?g1 (Awaiting p) = Pending" by simp
    from a1 have "attempts ?g1 ! p = Rejected (init_failure error)
                  \<or> attempts ?g1 ! p = AwaitClose h error" by simp
    from close_io_done [OF p1 this, of closeOut]
    have "attempts ?g2 ! p = Rejected (init_failure error)" by blast
    with p2 have settled: "caller_result ?g2 (Awaiting p) = Throws (init_failure error)"
      by simp
    have "drive p (closeOut # outs) ?g1 = (outs, ?g2)"
      using drive_pending [OF pend, of closeOut outs] drive_settled [of ?g2 p outs] settled
      by simp
    with first tape settled show ?thesis by (simp add: await_caller_def)
  qed
qed

lemma call_initDatabase_idle_guard:
  assumes "db g = None" and "initPromise g = None"
  shows "call_initDatabase g =
           (Awaiting (length (attempts g)),
            (console_log [''Opening database...''] g)
              \<lparr>attempts := attempts g @ [AwaitOpen],
                initPromise := Some (length (attempts g))\<rparr>)"
  using assms by (simp add: call_initDatabase_def Let_def)

lemma io_done_at:
  "p < length (attempts g) \<Longrightarrow> io_done p out g = resume p (attempts g ! p) out g"
  by (simp add: io_done_def)

lemma initDatabase_alter_rejected:
  assumes "db (guard w) = None" and "initPromise (guard w) = None"
    and "tape w = Resolves # Resolves # Resolves # Rejects alterError # Resolves # Resolves # outs"
  shows "fst (initDatabase w) = Returns (length (attempts (guard w)))
       \<and> tape (snd (initDatabase w)) = outs
       \<and> db (guard (snd (initDatabase w))) = Some (length (attempts (guard w)))"
proof -
  let ?p = "length (attempts (guard w))"
  let ?g0 = "(console_log [''Opening database...''] (guard w))
              \<lparr>attempts := attempts (guard w) @ [AwaitOpen], initPromise := Some ?p\<rparr>"
  let ?g1 = "io_done ?p Resolves ?g0"
  let ?g2 = "io_done ?p Resolves ?g1"
  let ?g3 = "io_done ?p Resolves ?g2"
  let ?g4 = "io_done ?p (Rejects alterError) ?g3"
  let ?g5 = "io_done ?p Resolves ?g4"
  let ?g6 = "io_done ?p Resolves ?g5"
  have g0: "attempts ?g0 ! ?p = AwaitOpen" "length (attempts ?g0) = Suc ?p" by simp_all
  have g1: "attempts ?g1 ! ?p = AwaitCreateMahasiswa ?p" "length (attempts ?g1) = Suc ?p"
    using g0 by (simp_all add: io_done_at set_attempt_def)
  have g2: "attempts ?g2 ! ?p = AwaitCreateUsers ?p" "length (attempts ?g2) = Suc ?p"
    using g1 by (simp_all add: io_done_at [of ?p ?g1] set_attempt_def)
  have g3: "attempts ?g3 ! ?p = AwaitAlter ?p" "length (attempts ?g3) = Suc ?p"
    using g2 by (simp_all add: io_done_at [of ?p ?g2] set_attempt_def)
  have g4: "attempts ?g4 ! ?p = AwaitCreateProdi ?p" "length (attempts ?g4) = Suc ?p"
    using g3 by (simp_all add: io_done_at [of ?p ?g3] set_attempt_def alter_failed_def)
  have g5: "attempts ?g5 ! ?p = AwaitCreateFakultas ?p" "length (attempts ?g5) = Suc ?p"
    using g4 by (simp_all add: io_done_at [of ?p ?g4] set_attempt_def)
  have g6: "attempts ?g6 ! ?p = Fulfilled ?p" "length (attempts ?g6) = Suc ?p"
    "db ?g6 = Some ?p"
    using g5 by (simp_all add: io_done_at [of ?p ?g5] set_attempt_def)
  have "drive ?p (Resolves # Resolves # Resolves # Rejects alterError # Resolves # Resolves #
      outs) ?g0
          = (outs, ?g6)"
    using g0 g1 g2 g3 g4 g5 g6 drive_settled [of ?g6 ?p outs]
    by (simp del: io_done_def)
  with assms g6 show ?thesis
    by (simp add: initDatabase_def call_initDatabase_idle_guard await_caller_def)
qed

lemma initDatabase_open_rejected:
  assumes "db (guard w) = None" and "initPromise (guard w) = None"
    and "tape w = Rejects e # outs"
  shows "fst (initDatabase w) = Throws (init_failure e)
       \<and> tape (snd (initDatabase w)) = outs
       \<and> db (guard (snd (initDatabase w))) = None
       \<and> initPromise (guard (snd (initDatabase w))) = None"
proof -
  let ?p = "length (attempts (guard w))"
  let ?g1 = "(console_log [''Opening database...''] (guard w))
              \<lparr>attempts := attempts (guard w) @ [AwaitOpen], initPromise := Some ?p\<rparr>"
  let ?g2 = "io_done ?p (Rejects e) ?g1"
  have pend: "caller_result ?g1 (Awaiting ?p) = Pending" by simp
  have g2: "attempts ?g2 ! ?p = Rejected (init_failure e)" "length (attempts ?g2) = Suc ?p"
    "db ?g2 = None" "initPromise ?g2 = None"
    by (simp_all add: io_done_def enter_catch_def Let_def)
  then have settled: "caller_result ?g2 (Awaiting ?p) = Throws (init_failure e)" by simp
  have "drive ?p (Rejects e # outs) ?g1 = (outs, ?g2)"
    using drive_pending [OF pend, of "Rejects e" outs] drive_settled [of ?g2 ?p outs] settled
    by simp
  with assms settled g2 show ?thesis
    by (simp add: initDatabase_def call_initDatabase_idle_guard await_caller_def)
qed

lemma getDatabase_open_rejected:
  assumes "db (guard w) = None" and "initPromise (guard w) = None"
    and "tape w = Rejects e # outs"
  shows "fst (getDatabase w) = Throws (init_failure e)"
proof -
  let ?w = "w\<lparr>guard := console_log [''Database not initialized, initializing now...'']
                          (guard w)\<rparr>"
  have "getDatabase w = initDatabase ?w"
    using assms(1) by (simp add: getDatabase_def initDatabase_def call_getDatabase_def)
  with initDatabase_open_rejected [of ?w e outs] assms show ?thesis by simp
qed

lemma example_faulty_ready: "db (guard example_faulty_world) = Some 0"
  by (simp add: example_faulty_world_def example_world_ready)

lemma example_faulty_tape: "tape example_faulty_world = [Rejects example_error]"
  by (simp add: example_faulty_world_def)

text \<open>
  C5, as amended. No failure is retried or suppressed. When
      \<^verbatim>\<open>getDatabase\<close> throws
  inside a data-access function, or the library call that the function makes through an
  initialised connection throws, the function logs one line and throws: the caught error
  itself in every function but two, and in \<^verbatim>\<open>addProdi\<close> and
      \<^verbatim>\<open>addFakultas\<close> a
  new error whose message is \<^verbatim>\<open>Failed to add prodi: \<close> or
  \<^verbatim>\<open>Failed to add fakultas: \<close> followed by the message of the caught
      error, or by
  the text \<^verbatim>\<open>Error\<close> when that message is empty, with the caught error
      attached. Nothing further is asked of the library after the failing call.
  A caller that awaits a closure whose step fails fatally receives a new error whose
  message is \<^verbatim>\<open>Database initialization failed: \<close> followed by the message
      of the
  failure, or the text \<^verbatim>\<open>Error\<close> when that message is empty. A rejection
      of the \<^verbatim>\<open>ALTER TABLE\<close> statement is not thrown:
  \<^verbatim>\<open>initDatabase\<close> returns the handle when the other steps succeed.
\<close>

theorem failures_propagate:
  shows
    "(getDatabase w = (Throws e, wa) \<longrightarrow> addMahasiswa mahasiswa w = (Throws e,
         wa\<lparr>guard := console_error [''Error adding mahasiswa:''] (guard wa)\<rparr>))
     \<and> (db (guard v) = Some h \<and> runAsync h (sql_insert_mahasiswa (m_nim mahasiswa) (m_nama
         mahasiswa) (m_jurusan mahasiswa) (nullish_null (m_fakultas mahasiswa)) (m_semester
         mahasiswa) (m_email mahasiswa)) v = (Throws cause, va) \<longrightarrow>
         addMahasiswa mahasiswa v = (Throws cause, va\<lparr>guard := console_error
         [''Error adding mahasiswa:''] (guard va)\<rparr>))
     \<and> (getDatabase w = (Throws e, wa) \<longrightarrow> getAllMahasiswa w = (Throws e,
         wa\<lparr>guard := console_error [''Error getting all mahasiswa:''] (guard
         wa)\<rparr>))
     \<and> (db (guard v) = Some h \<and> getAllAsync h sql_select_mahasiswa_all v = (Throws cause,
         va) \<longrightarrow> getAllMahasiswa v = (Throws cause, va\<lparr>guard :=
         console_error [''Error getting all mahasiswa:''] (guard va)\<rparr>))
     \<and> (getDatabase w = (Throws e, wa) \<longrightarrow> getMahasiswaById i w = (Throws e,
         wa\<lparr>guard := console_error [''Error getting mahasiswa by id:''] (guard
         wa)\<rparr>))
     \<and> (db (guard v) = Some h \<and> getFirstAsync h (sql_select_mahasiswa_by_id i) v = (Throws
         cause, va) \<longrightarrow> getMahasiswaById i v = (Throws cause, va\<lparr>guard
         := console_error [''Error getting mahasiswa by id:''] (guard va)\<rparr>))
     \<and> (getDatabase w = (Throws e, wa) \<longrightarrow> updateMahasiswa i mahasiswa w =
         (Throws e, wa\<lparr>guard := console_error [''Error updating mahasiswa:''] (guard
         wa)\<rparr>))
     \<and> (db (guard v) = Some h \<and> runAsync h (sql_update_mahasiswa (m_nim mahasiswa) (m_nama
         mahasiswa) (m_jurusan mahasiswa) (nullish_null (m_fakultas mahasiswa)) (m_semester
         mahasiswa) (m_email mahasiswa) i) v = (Throws cause, va) \<longrightarrow>
         updateMahasiswa i mahasiswa v = (Throws cause, va\<lparr>guard := console_error
         [''Error updating mahasiswa:''] (guard va)\<rparr>))
     \<and> (getDatabase w = (Throws e, wa) \<longrightarrow> deleteMahasiswa i w = (Throws e,
         wa\<lparr>guard := console_error [''Error deleting mahasiswa:''] (guard
         wa)\<rparr>))
     \<and> (db (guard v) = Some h \<and> runAsync h (sql_delete_mahasiswa i) v = (Throws cause, va)
         \<longrightarrow> deleteMahasiswa i v = (Throws cause, va\<lparr>guard :=
         console_error [''Error deleting mahasiswa:''] (guard va)\<rparr>))
     \<and> (getDatabase w = (Throws e, wa) \<longrightarrow> searchMahasiswa keyword w = (Throws e,
         wa\<lparr>guard := console_error [''Error searching mahasiswa:''] (guard
         wa)\<rparr>))
     \<and> (db (guard v) = Some h \<and> getAllAsync h (sql_search_mahasiswa (like_pattern keyword)
         (like_pattern keyword) (like_pattern keyword) (like_pattern keyword) (like_pattern
         keyword)) v = (Throws cause, va) \<longrightarrow> searchMahasiswa keyword v =
         (Throws cause, va\<lparr>guard := console_error [''Error searching mahasiswa:'']
         (guard va)\<rparr>))
     \<and> (getDatabase w = (Throws e, wa) \<longrightarrow> getRecentMahasiswa limit w = (Throws
         e, wa\<lparr>guard := console_error [''Error getting recent mahasiswa:''] (guard
         wa)\<rparr>))
     \<and> (db (guard v) = Some h \<and> getAllAsync h (sql_select_mahasiswa_recent limit) v =
         (Throws cause, va) \<longrightarrow> getRecentMahasiswa limit v = (Throws cause,
         va\<lparr>guard := console_error [''Error getting recent mahasiswa:''] (guard
         va)\<rparr>))
     \<and> (getDatabase w = (Throws e, wa) \<longrightarrow> addUser user w = (Throws e,
         wa\<lparr>guard := console_error [''Error adding user:''] (guard wa)\<rparr>))
     \<and> (db (guard v) = Some h \<and> runAsync h (sql_insert_user (u_name user) (toLowerCase
         (u_email user)) (u_password user)) v = (Throws cause, va) \<longrightarrow> addUser
         user v = (Throws cause, va\<lparr>guard := console_error [''Error adding user:'']
         (guard va)\<rparr>))
     \<and> (getDatabase w = (Throws e, wa) \<longrightarrow> getUserByEmail email w = (Throws e,
         wa\<lparr>guard := console_error [''Error getting user by email:''] (guard
         wa)\<rparr>))
     \<and> (db (guard v) = Some h \<and> getFirstAsync h (sql_select_user_by_email (toLowerCase
         email)) v = (Throws cause, va) \<longrightarrow> getUserByEmail email v = (Throws
         cause, va\<lparr>guard := console_error [''Error getting user by email:''] (guard
         va)\<rparr>))
     \<and> (getDatabase w = (Throws e, wa) \<longrightarrow> deleteUser i w = (Throws e,
         wa\<lparr>guard := console_error [''Error deleting user:''] (guard wa)\<rparr>))
     \<and> (db (guard v) = Some h \<and> runAsync h (sql_delete_user i) v = (Throws cause, va)
         \<longrightarrow> deleteUser i v = (Throws cause, va\<lparr>guard := console_error
         [''Error deleting user:''] (guard va)\<rparr>))
     \<and> (getDatabase (w\<lparr>guard := console_log [''Getting database in addProdi...''] (guard
         w)\<rparr>) = (Throws e, wa) \<longrightarrow> addProdi prodi w = (Throws (JsError
         (''Failed to add prodi: '' @ (if message e = [] then ''Error'' else message e))
         (Some e)), wa\<lparr>guard := console_error [''Error adding prodi:''] (guard
         wa)\<rparr>))
     \<and> (db (guard v) = Some h \<and> runAsync h (sql_insert_prodi (p_kode_prodi prodi)
         (p_nama_prodi prodi) (p_fakultas prodi) (or_null (p_akreditasi prodi)) (or_null
         (p_deskripsi prodi))) (v\<lparr>guard := console_log
         [''Getting database in addProdi...'',
         ''Database object retrieved, inserting prodi data...'', ''Prodi data:''] (guard
         v)\<rparr>) = (Throws cause, va) \<longrightarrow> addProdi prodi v = (Throws
         (JsError (''Failed to add prodi: '' @ (if message cause = [] then ''Error'' else
         message cause)) (Some cause)), va\<lparr>guard := console_error
         [''Error adding prodi:''] (guard va)\<rparr>))
     \<and> (getDatabase w = (Throws e, wa) \<longrightarrow> getAllProdi w = (Throws e,
         wa\<lparr>guard := console_error [''Error getting all prodi:''] (guard wa)\<rparr>))
     \<and> (db (guard v) = Some h \<and> getAllAsync h sql_select_prodi_all v = (Throws cause, va)
         \<longrightarrow> getAllProdi v = (Throws cause, va\<lparr>guard := console_error
         [''Error getting all prodi:''] (guard va)\<rparr>))
     \<and> (getDatabase w = (Throws e, wa) \<longrightarrow> getProdiById i w = (Throws e,
         wa\<lparr>guard := console_error [''Error getting prodi by id:''] (guard
         wa)\<rparr>))
     \<and> (db (guard v) = Some h \<and> getFirstAsync h (sql_select_prodi_by_id i) v = (Throws
         cause, va) \<longrightarrow> getProdiById i v = (Throws cause, va\<lparr>guard :=
         console_error [''Error getting prodi by id:''] (guard va)\<rparr>))
     \<and> (getDatabase w = (Throws e, wa) \<longrightarrow> updateProdi i prodi w = (Throws e,
         wa\<lparr>guard := console_error [''Error updating prodi:''] (guard wa)\<rparr>))
     \<and> (db (guard v) = Some h \<and> runAsync h (sql_update_prodi (p_kode_prodi prodi)
         (p_nama_prodi prodi) (p_fakultas prodi) (or_null (p_akreditasi prodi)) (or_null
         (p_deskripsi prodi)) i) v = (Throws cause, va) \<longrightarrow> updateProdi i prodi
         v = (Throws cause, va\<lparr>guard := console_error [''Error updating prodi:'']
         (guard va)\<rparr>))
     \<and> (getDatabase w = (Throws e, wa) \<longrightarrow> deleteProdi i w = (Throws e,
         wa\<lparr>guard := console_error [''Error deleting prodi:''] (guard wa)\<rparr>))
     \<and> (db (guard v) = Some h \<and> runAsync h (sql_delete_prodi i) v = (Throws cause, va)
         \<longrightarrow> deleteProdi i v = (Throws cause, va\<lparr>guard := console_error
         [''Error deleting prodi:''] (guard va)\<rparr>))
     \<and> (getDatabase w = (Throws e, wa) \<longrightarrow> searchProdi keyword w = (Throws e,
         wa\<lparr>guard := console_error [''Error searching prodi:''] (guard wa)\<rparr>))
     \<and> (db (guard v) = Some h \<and> getAllAsync h (sql_search_prodi (like_pattern keyword)
         (like_pattern keyword) (like_pattern keyword) (like_pattern keyword)) v = (Throws
         cause, va) \<longrightarrow> searchProdi keyword v = (Throws cause, va\<lparr>guard
         := console_error [''Error searching prodi:''] (guard va)\<rparr>))
     \<and> (getDatabase (w\<lparr>guard := console_log [''Getting database in addFakultas...'']
         (guard w)\<rparr>) = (Throws e, wa) \<longrightarrow> addFakultas fakultas w =
         (Throws (JsError (''Failed to add fakultas: '' @ (if message e = [] then ''Error''
         else message e)) (Some e)), wa\<lparr>guard := console_error
         [''Error adding fakultas:''] (guard wa)\<rparr>))
     \<and> (db (guard v) = Some h \<and> runAsync h (sql_insert_fakultas (f_kode_fakultas fakultas)
         (f_nama_fakultas fakultas) (or_null (f_deskripsi fakultas))) (v\<lparr>guard :=
         console_log [''Getting database in addFakultas...'',
         ''Database object retrieved, inserting fakultas data...'', ''Fakultas data:'']
         (guard v)\<rparr>) = (Throws cause, va) \<longrightarrow> addFakultas fakultas v =
         (Throws (JsError (''Failed to add fakultas: '' @ (if message cause = [] then
         ''Error'' else message cause)) (Some cause)), va\<lparr>guard := console_error
         [''Error adding fakultas:''] (guard va)\<rparr>))
     \<and> (getDatabase w = (Throws e, wa) \<longrightarrow> getAllFakultas w = (Throws e,
         wa\<lparr>guard := console_error [''Error getting all fakultas:''] (guard
         wa)\<rparr>))
     \<and> (db (guard v) = Some h \<and> getAllAsync h sql_select_fakultas_all v = (Throws cause,
         va) \<longrightarrow> getAllFakultas v = (Throws cause, va\<lparr>guard :=
         console_error [''Error getting all fakultas:''] (guard va)\<rparr>))
     \<and> (getDatabase w = (Throws e, wa) \<longrightarrow> getFakultasById i w = (Throws e,
         wa\<lparr>guard := console_error [''Error getting fakultas by id:''] (guard
         wa)\<rparr>))
     \<and> (db (guard v) = Some h \<and> getFirstAsync h (sql_select_fakultas_by_id i) v = (Throws
         cause, va) \<longrightarrow> getFakultasById i v = (Throws cause, va\<lparr>guard :=
         console_error [''Error getting fakultas by id:''] (guard va)\<rparr>))
     \<and> (getDatabase w = (Throws e, wa) \<longrightarrow> updateFakultas i fakultas w = (Throws
         e, wa\<lparr>guard := console_error [''Error updating fakultas:''] (guard
         wa)\<rparr>))
     \<and> (db (guard v) = Some h \<and> runAsync h (sql_update_fakultas (f_kode_fakultas fakultas)
         (f_nama_fakultas fakultas) (or_null (f_deskripsi fakultas)) i) v = (Throws cause,
         va) \<longrightarrow> updateFakultas i fakultas v = (Throws cause, va\<lparr>guard
         := console_error [''Error updating fakultas:''] (guard va)\<rparr>))
     \<and> (getDatabase w = (Throws e, wa) \<longrightarrow> deleteFakultas i w = (Throws e,
         wa\<lparr>guard := console_error [''Error deleting fakultas:''] (guard wa)\<rparr>))
     \<and> (db (guard v) = Some h \<and> runAsync h (sql_delete_fakultas i) v = (Throws cause, va)
         \<longrightarrow> deleteFakultas i v = (Throws cause, va\<lparr>guard :=
         console_error [''Error deleting fakultas:''] (guard va)\<rparr>))
     \<and> (getDatabase w = (Throws e, wa) \<longrightarrow> searchFakultas keyword w = (Throws e,
         wa\<lparr>guard := console_error [''Error searching fakultas:''] (guard
         wa)\<rparr>))
     \<and> (db (guard v) = Some h \<and> getAllAsync h (sql_search_fakultas (like_pattern keyword)
         (like_pattern keyword) (like_pattern keyword)) v = (Throws cause, va)
         \<longrightarrow> searchFakultas keyword v = (Throws cause, va\<lparr>guard :=
         console_error [''Error searching fakultas:''] (guard va)\<rparr>))
     \<and> (getUserByEmail email w = (Throws e, wa) \<longrightarrow> authenticateUser email
         password w = (Throws e, wa\<lparr>guard := console_error
         [''Error authenticating user:''] (guard wa)\<rparr>))
     \<and> (p < length (attempts (guard w)) \<and> fatal_failure (attempts (guard w) ! p) out =
         Some error \<and> tape w = out # closeOut # outs \<longrightarrow> fst (await_caller
         (Awaiting p) w) = Throws (JsError (''Database initialization failed: '' @ (if
         message error = [] then ''Error'' else message error)) None))
     \<and> (db (guard w) = None \<and> initPromise (guard w) = None \<and> tape w = Rejects error #
         outs \<longrightarrow> fst (initDatabase w) = Throws (JsError
         (''Database initialization failed: '' @ (if message error = [] then ''Error'' else
         message error)) None) \<and> fst (getDatabase w) = Throws (JsError
         (''Database initialization failed: '' @ (if message error = [] then ''Error'' else
         message error)) None) \<and> tape (snd (initDatabase w)) = outs)
     \<and> (db (guard w) = None \<and> initPromise (guard w) = None \<and> tape w = Resolves #
         Resolves # Resolves # Rejects alterError # Resolves # Resolves # outs
         \<longrightarrow> fst (initDatabase w) = Returns (length (attempts (guard w)))
         \<and> db (guard (snd (initDatabase w))) = Some (length (attempts (guard w))) \<and>
         tape (snd (initDatabase w)) = outs)"
proof -
  have c1: "(getDatabase w = (Throws e, wa) \<longrightarrow> addMahasiswa mahasiswa w = (Throws e,
      wa\<lparr>guard := console_error [''Error adding mahasiswa:''] (guard wa)\<rparr>))"
    by (simp add: addMahasiswa_def try_catch_def await_def console_error_line_def throw_def
        console_log_line_def formattedError_def errorMsg_def toString_def)
  have c2: "(db (guard v) = Some h \<and> runAsync h (sql_insert_mahasiswa (m_nim mahasiswa) (m_nama
      mahasiswa) (m_jurusan mahasiswa) (nullish_null (m_fakultas mahasiswa)) (m_semester
      mahasiswa) (m_email mahasiswa)) v = (Throws cause, va) \<longrightarrow>
      addMahasiswa mahasiswa v = (Throws cause, va\<lparr>guard := console_error
      [''Error adding mahasiswa:''] (guard va)\<rparr>))"
    by (simp add: addMahasiswa_def try_catch_def await_def console_error_line_def throw_def
        console_log_line_def formattedError_def errorMsg_def toString_def getDatabase_ready)
  have c3: "(getDatabase w = (Throws e, wa) \<longrightarrow> getAllMahasiswa w = (Throws e,
      wa\<lparr>guard := console_error [''Error getting all mahasiswa:''] (guard
      wa)\<rparr>))"
    by (simp add: getAllMahasiswa_def try_catch_def await_def console_error_line_def throw_def
        console_log_line_def formattedError_def errorMsg_def toString_def)
  have c4: "(db (guard v) = Some h \<and> getAllAsync h sql_select_mahasiswa_all v = (Throws cause,
      va) \<longrightarrow> getAllMahasiswa v = (Throws cause, va\<lparr>guard :=
      console_error [''Error getting all mahasiswa:''] (guard va)\<rparr>))"
    by (simp add: getAllMahasiswa_def try_catch_def await_def console_error_line_def throw_def
        console_log_line_def formattedError_def errorMsg_def toString_def getDatabase_ready)
  have c5: "(getDatabase w = (Throws e, wa) \<longrightarrow> getMahasiswaById i w = (Throws e,
      wa\<lparr>guard := console_error [''Error getting mahasiswa by id:''] (guard
      wa)\<rparr>))"
    by (simp add: getMahasiswaById_def try_catch_def await_def console_error_line_def throw_def
        console_log_line_def formattedError_def errorMsg_def toString_def)
  have c6: "(db (guard v) = Some h \<and> getFirstAsync h (sql_select_mahasiswa_by_id i) v = (Throws
      cause, va) \<longrightarrow> getMahasiswaById i v = (Throws cause, va\<lparr>guard
      := console_error [''Error getting mahasiswa by id:''] (guard va)\<rparr>))"
    by (simp add: getMahasiswaById_def try_catch_def await_def console_error_line_def throw_def
        console_log_line_def formattedError_def errorMsg_def toString_def getDatabase_ready)
  have c7: "(getDatabase w = (Throws e, wa) \<longrightarrow> updateMahasiswa i mahasiswa w =
      (Throws e, wa\<lparr>guard := console_error [''Error updating mahasiswa:''] (guard
      wa)\<rparr>))"
    by (simp add: updateMahasiswa_def try_catch_def await_def console_error_line_def throw_def
        console_log_line_def formattedError_def errorMsg_def toString_def)
  have c8: "(db (guard v) = Some h \<and> runAsync h (sql_update_mahasiswa (m_nim mahasiswa) (m_nama
      mahasiswa) (m_jurusan mahasiswa) (nullish_null (m_fakultas mahasiswa)) (m_semester
      mahasiswa) (m_email mahasiswa) i) v = (Throws cause, va) \<longrightarrow>
      updateMahasiswa i mahasiswa v = (Throws cause, va\<lparr>guard := console_error
      [''Error updating mahasiswa:''] (guard va)\<rparr>))"
    by (simp add: updateMahasiswa_def try_catch_def await_def console_error_line_def throw_def
        console_log_line_def formattedError_def errorMsg_def toString_def getDatabase_ready)
  have c9: "(getDatabase w = (Throws e, wa) \<longrightarrow> deleteMahasiswa i w = (Throws e,
      wa\<lparr>guard := console_error [''Error deleting mahasiswa:''] (guard
      wa)\<rparr>))"
    by (simp add: deleteMahasiswa_def try_catch_def await_def console_error_line_def throw_def
        console_log_line_def formattedError_def errorMsg_def toString_def)
  have c10: "(db (guard v) = Some h \<and> runAsync h (sql_delete_mahasiswa i) v = (Throws
      cause, va)
      \<longrightarrow> deleteMahasiswa i v = (Throws cause, va\<lparr>guard :=
      console_error [''Error deleting mahasiswa:''] (guard va)\<rparr>))"
    by (simp add: deleteMahasiswa_def try_catch_def await_def console_error_line_def throw_def
        console_log_line_def formattedError_def errorMsg_def toString_def getDatabase_ready)
  have c11: "(getDatabase w = (Throws e, wa) \<longrightarrow> searchMahasiswa keyword w =
      (Throws e,
      wa\<lparr>guard := console_error [''Error searching mahasiswa:''] (guard
      wa)\<rparr>))"
    by (simp add: searchMahasiswa_def try_catch_def await_def console_error_line_def throw_def
        console_log_line_def formattedError_def errorMsg_def toString_def)
  have c12: "(db (guard v) = Some h \<and> getAllAsync h (sql_search_mahasiswa (like_pattern
      keyword)
      (like_pattern keyword) (like_pattern keyword) (like_pattern keyword) (like_pattern
      keyword)) v = (Throws cause, va) \<longrightarrow> searchMahasiswa keyword v =
      (Throws cause, va\<lparr>guard := console_error [''Error searching mahasiswa:'']
      (guard va)\<rparr>))"
    by (simp add: searchMahasiswa_def try_catch_def await_def console_error_line_def throw_def
        console_log_line_def formattedError_def errorMsg_def toString_def getDatabase_ready)
  have c13: "(getDatabase w = (Throws e, wa) \<longrightarrow> getRecentMahasiswa limit w = (Throws
      e, wa\<lparr>guard := console_error [''Error getting recent mahasiswa:''] (guard
      wa)\<rparr>))"
    by (simp add: getRecentMahasiswa_def try_catch_def await_def console_error_line_def
        throw_def console_log_line_def formattedError_def errorMsg_def toString_def)
  have c14: "(db (guard v) = Some h \<and> getAllAsync h (sql_select_mahasiswa_recent limit) v =
      (Throws cause, va) \<longrightarrow> getRecentMahasiswa limit v = (Throws cause,
      va\<lparr>guard := console_error [''Error getting recent mahasiswa:''] (guard
      va)\<rparr>))"
    by (simp add: getRecentMahasiswa_def try_catch_def await_def console_error_line_def
        throw_def console_log_line_def formattedError_def errorMsg_def toString_def
        getDatabase_ready)
  have c15: "(getDatabase w = (Throws e, wa) \<longrightarrow> addUser user w = (Throws e,
      wa\<lparr>guard := console_error [''Error adding user:''] (guard wa)\<rparr>))"
    by (simp add: addUser_def try_catch_def await_def console_error_line_def throw_def
        console_log_line_def formattedError_def errorMsg_def toString_def)
  have c16: "(db (guard v) = Some h \<and> runAsync h (sql_insert_user (u_name user) (toLowerCase
      (u_email user)) (u_password user)) v = (Throws cause, va) \<longrightarrow> addUser
      user v = (Throws cause, va\<lparr>guard := console_error [''Error adding user:'']
      (guard va)\<rparr>))"
    by (simp add: addUser_def try_catch_def await_def console_error_line_def throw_def
        console_log_line_def formattedError_def errorMsg_def toString_def getDatabase_ready)
  have c17: "(getDatabase w = (Throws e, wa) \<longrightarrow> getUserByEmail email w = (Throws e,
      wa\<lparr>guard := console_error [''Error getting user by email:''] (guard
      wa)\<rparr>))"
    by (simp add: getUserByEmail_def try_catch_def await_def console_error_line_def throw_def
        console_log_line_def formattedError_def errorMsg_def toString_def)
  have c18: "(db (guard v) = Some h \<and> getFirstAsync h (sql_select_user_by_email (toLowerCase
      email)) v = (Throws cause, va) \<longrightarrow> getUserByEmail email v = (Throws
      cause, va\<lparr>guard := console_error [''Error getting user by email:''] (guard
      va)\<rparr>))"
    by (simp add: getUserByEmail_def try_catch_def await_def console_error_line_def throw_def
        console_log_line_def formattedError_def errorMsg_def toString_def getDatabase_ready)
  have c19: "(getDatabase w = (Throws e, wa) \<longrightarrow> deleteUser i w = (Throws e,
      wa\<lparr>guard := console_error [''Error deleting user:''] (guard wa)\<rparr>))"
    by (simp add: deleteUser_def try_catch_def await_def console_error_line_def throw_def
        console_log_line_def formattedError_def errorMsg_def toString_def)
  have c20: "(db (guard v) = Some h \<and> runAsync h (sql_delete_user i) v = (Throws cause, va)
      \<longrightarrow> deleteUser i v = (Throws cause, va\<lparr>guard := console_error
      [''Error deleting user:''] (guard va)\<rparr>))"
    by (simp add: deleteUser_def try_catch_def await_def console_error_line_def throw_def
        console_log_line_def formattedError_def errorMsg_def toString_def getDatabase_ready)
  have c21: "(getDatabase (w\<lparr>guard := console_log [''Getting database in addProdi...'']
      (guard
      w)\<rparr>) = (Throws e, wa) \<longrightarrow> addProdi prodi w = (Throws (JsError
      (''Failed to add prodi: '' @ (if message e = [] then ''Error'' else message e))
      (Some e)), wa\<lparr>guard := console_error [''Error adding prodi:''] (guard
      wa)\<rparr>))"
    by (simp add: addProdi_def try_catch_def await_def console_error_line_def throw_def
        console_log_line_def formattedError_def errorMsg_def toString_def)
  have c22: "(db (guard v) = Some h \<and> runAsync h (sql_insert_prodi (p_kode_prodi prodi)
      (p_nama_prodi prodi) (p_fakultas prodi) (or_null (p_akreditasi prodi)) (or_null
      (p_deskripsi prodi))) (v\<lparr>guard := console_log
      [''Getting database in addProdi...'',
      ''Database object retrieved, inserting prodi data...'', ''Prodi data:''] (guard
      v)\<rparr>) = (Throws cause, va) \<longrightarrow> addProdi prodi v = (Throws
      (JsError (''Failed to add prodi: '' @ (if message cause = [] then ''Error'' else
      message cause)) (Some cause)), va\<lparr>guard := console_error
      [''Error adding prodi:''] (guard va)\<rparr>))"
    by (simp add: addProdi_def try_catch_def await_def console_error_line_def throw_def
        console_log_line_def formattedError_def errorMsg_def toString_def getDatabase_ready
        console_log_def)
  have c23: "(getDatabase w = (Throws e, wa) \<longrightarrow> getAllProdi w = (Throws e,
      wa\<lparr>guard := console_error [''Error getting all prodi:''] (guard wa)\<rparr>))"
    by (simp add: getAllProdi_def try_catch_def await_def console_error_line_def throw_def
        console_log_line_def formattedError_def errorMsg_def toString_def)
  have c24: "(db (guard v) = Some h \<and> getAllAsync h sql_select_prodi_all v = (Throws cause, va)
      \<longrightarrow> getAllProdi v = (Throws cause, va\<lparr>guard := console_error
      [''Error getting all prodi:''] (guard va)\<rparr>))"
    by (simp add: getAllProdi_def try_catch_def await_def console_error_line_def throw_def
        console_log_line_def formattedError_def errorMsg_def toString_def getDatabase_ready)
  have c25: "(getDatabase w = (Throws e, wa) \<longrightarrow> getProdiById i w = (Throws e,
      wa\<lparr>guard := console_error [''Error getting prodi by id:''] (guard
      wa)\<rparr>))"
    by (simp add: getProdiById_def try_catch_def await_def console_error_line_def throw_def
        console_log_line_def formattedError_def errorMsg_def toString_def)
  have c26: "(db (guard v) = Some h \<and> getFirstAsync h (sql_select_prodi_by_id i) v = (Throws
      cause, va) \<longrightarrow> getProdiById i v = (Throws cause, va\<lparr>guard :=
      console_error [''Error getting prodi by id:''] (guard va)\<rparr>))"
    by (simp add: getProdiById_def try_catch_def await_def console_error_line_def throw_def
        console_log_line_def formattedError_def errorMsg_def toString_def getDatabase_ready)
  have c27: "(getDatabase w = (Throws e, wa) \<longrightarrow> updateProdi i prodi w = (Throws e,
      wa\<lparr>guard := console_error [''Error updating prodi:''] (guard wa)\<rparr>))"
    by (simp add: updateProdi_def try_catch_def await_def console_error_line_def throw_def
        console_log_line_def formattedError_def errorMsg_def toString_def)
  have c28: "(db (guard v) = Some h \<and> runAsync h (sql_update_prodi (p_kode_prodi prodi)
      (p_nama_prodi prodi) (p_fakultas prodi) (or_null (p_akreditasi prodi)) (or_null
      (p_deskripsi prodi)) i) v = (Throws cause, va) \<longrightarrow> updateProdi i prodi
      v = (Throws cause, va\<lparr>guard := console_error [''Error updating prodi:'']
      (guard va)\<rparr>))"
    by (simp add: updateProdi_def try_catch_def await_def console_error_line_def throw_def
        console_log_line_def formattedError_def errorMsg_def toString_def getDatabase_ready)
  have c29: "(getDatabase w = (Throws e, wa) \<longrightarrow> deleteProdi i w = (Throws e,
      wa\<lparr>guard := console_error [''Error deleting prodi:''] (guard wa)\<rparr>))"
    by (simp add: deleteProdi_def try_catch_def await_def console_error_line_def throw_def
        console_log_line_def formattedError_def errorMsg_def toString_def)
  have c30: "(db (guard v) = Some h \<and> runAsync h (sql_delete_prodi i) v = (Throws cause, va)
      \<longrightarrow> deleteProdi i v = (Throws cause, va\<lparr>guard := console_error
      [''Error deleting prodi:''] (guard va)\<rparr>))"
    by (simp add: deleteProdi_def try_catch_def await_def console_error_line_def throw_def
        console_log_line_def formattedError_def errorMsg_def toString_def getDatabase_ready)
  have c31: "(getDatabase w = (Throws e, wa) \<longrightarrow> searchProdi keyword w = (Throws e,
      wa\<lparr>guard := console_error [''Error searching prodi:''] (guard wa)\<rparr>))"
    by (simp add: searchProdi_def try_catch_def await_def console_error_line_def throw_def
        console_log_line_def formattedError_def errorMsg_def toString_def)
  have c32: "(db (guard v) = Some h \<and> getAllAsync h (sql_search_prodi (like_pattern keyword)
      (like_pattern keyword) (like_pattern keyword) (like_pattern keyword)) v = (Throws
      cause, va) \<longrightarrow> searchProdi keyword v = (Throws cause, va\<lparr>guard
      := console_error [''Error searching prodi:''] (guard va)\<rparr>))"
    by (simp add: searchProdi_def try_catch_def await_def console_error_line_def throw_def
        console_log_line_def formattedError_def errorMsg_def toString_def getDatabase_ready)
  have c33: "(getDatabase (w\<lparr>guard := console_log [''Getting database in addFakultas...'']
      (guard w)\<rparr>) = (Throws e, wa) \<longrightarrow> addFakultas fakultas w =
      (Throws (JsError (''Failed to add fakultas: '' @ (if message e = [] then ''Error''
      else message e)) (Some e)), wa\<lparr>guard := console_error
      [''Error adding fakultas:''] (guard wa)\<rparr>))"
    by (simp add: addFakultas_def try_catch_def await_def console_error_line_def throw_def
        console_log_line_def formattedError_def errorMsg_def toString_def)
  have c34: "(db (guard v) = Some h \<and> runAsync h (sql_insert_fakultas (f_kode_fakultas
      fakultas)
      (f_nama_fakultas fakultas) (or_null (f_deskripsi fakultas))) (v\<lparr>guard :=
      console_log [''Getting database in addFakultas...'',
      ''Database object retrieved, inserting fakultas data...'', ''Fakultas data:'']
      (guard v)\<rparr>) = (Throws cause, va) \<longrightarrow> addFakultas fakultas v =
      (Throws (JsError (''Failed to add fakultas: '' @ (if message cause = [] then
      ''Error'' else message cause)) (Some cause)), va\<lparr>guard := console_error
      [''Error adding fakultas:''] (guard va)\<rparr>))"
    by (simp add: addFakultas_def try_catch_def await_def console_error_line_def throw_def
        console_log_line_def formattedError_def errorMsg_def toString_def getDatabase_ready
        console_log_def)
  have c35: "(getDatabase w = (Throws e, wa) \<longrightarrow> getAllFakultas w = (Throws e,
      wa\<lparr>guard := console_error [''Error getting all fakultas:''] (guard
      wa)\<rparr>))"
    by (simp add: getAllFakultas_def try_catch_def await_def console_error_line_def throw_def
        console_log_line_def formattedError_def errorMsg_def toString_def)
  have c36: "(db (guard v) = Some h \<and> getAllAsync h sql_select_fakultas_all v = (Throws cause,
      va) \<longrightarrow> getAllFakultas v = (Throws cause, va\<lparr>guard :=
      console_error [''Error getting all fakultas:''] (guard va)\<rparr>))"
    by (simp add: getAllFakultas_def try_catch_def await_def console_error_line_def throw_def
        console_log_line_def formattedError_def errorMsg_def toString_def getDatabase_ready)
  have c37: "(getDatabase w = (Throws e, wa) \<longrightarrow> getFakultasById i w = (Throws e,
      wa\<lparr>guard := console_error [''Error getting fakultas by id:''] (guard
      wa)\<rparr>))"
    by (simp add: getFakultasById_def try_catch_def await_def console_error_line_def throw_def
        console_log_line_def formattedError_def errorMsg_def toString_def)
  have c38: "(db (guard v) = Some h \<and> getFirstAsync h (sql_select_fakultas_by_id i) v = (Throws
      cause, va) \<longrightarrow> getFakultasById i v = (Throws cause, va\<lparr>guard :=
      console_error [''Error getting fakultas by id:''] (guard va)\<rparr>))"
    by (simp add: getFakultasById_def try_catch_def await_def console_error_line_def throw_def
        console_log_line_def formattedError_def errorMsg_def toString_def getDatabase_ready)
  have c39: "(getDatabase w = (Throws e, wa) \<longrightarrow> updateFakultas i fakultas w = (Throws
      e, wa\<lparr>guard := console_error [''Error updating fakultas:''] (guard
      wa)\<rparr>))"
    by (simp add: updateFakultas_def try_catch_def await_def console_error_line_def throw_def
        console_log_line_def formattedError_def errorMsg_def toString_def)
  have c40: "(db (guard v) = Some h \<and> runAsync h (sql_update_fakultas (f_kode_fakultas
      fakultas)
      (f_nama_fakultas fakultas) (or_null (f_deskripsi fakultas)) i) v = (Throws cause,
      va) \<longrightarrow> updateFakultas i fakultas v = (Throws cause, va\<lparr>guard
      := console_error [''Error updating fakultas:''] (guard va)\<rparr>))"
    by (simp add: updateFakultas_def try_catch_def await_def console_error_line_def throw_def
        console_log_line_def formattedError_def errorMsg_def toString_def getDatabase_ready)
  have c41: "(getDatabase w = (Throws e, wa) \<longrightarrow> deleteFakultas i w = (Throws e,
      wa\<lparr>guard := console_error [''Error deleting fakultas:''] (guard wa)\<rparr>))"
    by (simp add: deleteFakultas_def try_catch_def await_def console_error_line_def throw_def
        console_log_line_def formattedError_def errorMsg_def toString_def)
  have c42: "(db (guard v) = Some h \<and> runAsync h (sql_delete_fakultas i) v = (Throws cause, va)
      \<longrightarrow> deleteFakultas i v = (Throws cause, va\<lparr>guard :=
      console_error [''Error deleting fakultas:''] (guard va)\<rparr>))"
    by (simp add: deleteFakultas_def try_catch_def await_def console_error_line_def throw_def
        console_log_line_def formattedError_def errorMsg_def toString_def getDatabase_ready)
  have c43: "(getDatabase w = (Throws e, wa) \<longrightarrow> searchFakultas keyword w = (Throws e,
      wa\<lparr>guard := console_error [''Error searching fakultas:''] (guard
      wa)\<rparr>))"
    by (simp add: searchFakultas_def try_catch_def await_def console_error_line_def throw_def
        console_log_line_def formattedError_def errorMsg_def toString_def)
  have c44: "(db (guard v) = Some h \<and> getAllAsync h (sql_search_fakultas (like_pattern keyword)
      (like_pattern keyword) (like_pattern keyword)) v = (Throws cause, va)
      \<longrightarrow> searchFakultas keyword v = (Throws cause, va\<lparr>guard :=
      console_error [''Error searching fakultas:''] (guard va)\<rparr>))"
    by (simp add: searchFakultas_def try_catch_def await_def console_error_line_def throw_def
        console_log_line_def formattedError_def errorMsg_def toString_def getDatabase_ready)
  have c45: "(getUserByEmail email w = (Throws e, wa) \<longrightarrow> authenticateUser email
      password w = (Throws e, wa\<lparr>guard := console_error
      [''Error authenticating user:''] (guard wa)\<rparr>))"
    by (simp add: authenticateUser_def try_catch_def await_def console_error_line_def throw_def
        console_log_line_def formattedError_def errorMsg_def toString_def)
  have c46: "(p < length (attempts (guard w)) \<and> fatal_failure (attempts (guard w) ! p) out =
      Some error \<and> tape w = out # closeOut # outs \<longrightarrow> fst (await_caller
      (Awaiting p) w) = Throws (JsError (''Database initialization failed: '' @ (if
      message error = [] then ''Error'' else message error)) None))"
    using await_fatal [of p w out error closeOut outs] by (simp add: init_failure_def
        errorMsg_def toString_def)
  have c47: "(db (guard w) = None \<and> initPromise (guard w) = None \<and> tape w = Rejects
      error #
      outs \<longrightarrow> fst (initDatabase w) = Throws (JsError
      (''Database initialization failed: '' @ (if message error = [] then ''Error'' else
      message error)) None) \<and> fst (getDatabase w) = Throws (JsError
      (''Database initialization failed: '' @ (if message error = [] then ''Error'' else
      message error)) None) \<and> tape (snd (initDatabase w)) = outs)"
    using initDatabase_open_rejected [of w error outs] getDatabase_open_rejected [of w error
        outs] by (simp add: init_failure_def errorMsg_def toString_def)
  have c48: "(db (guard w) = None \<and> initPromise (guard w) = None \<and> tape w = Resolves #
      Resolves # Resolves # Rejects alterError # Resolves # Resolves # outs
      \<longrightarrow> fst (initDatabase w) = Returns (length (attempts (guard w)))
      \<and> db (guard (snd (initDatabase w))) = Some (length (attempts (guard w))) \<and>
      tape (snd (initDatabase w)) = outs)"
    using initDatabase_alter_rejected [of w alterError outs] by simp
  show ?thesis
    by (intro conjI)
       (rule c1,
        rule c2,
        rule c3,
        rule c4,
        rule c5,
        rule c6,
        rule c7,
        rule c8,
        rule c9,
        rule c10,
        rule c11,
        rule c12,
        rule c13,
        rule c14,
        rule c15,
        rule c16,
        rule c17,
        rule c18,
        rule c19,
        rule c20,
        rule c21,
        rule c22,
        rule c23,
        rule c24,
        rule c25,
        rule c26,
        rule c27,
        rule c28,
        rule c29,
        rule c30,
        rule c31,
        rule c32,
        rule c33,
        rule c34,
        rule c35,
        rule c36,
        rule c37,
        rule c38,
        rule c39,
        rule c40,
        rule c41,
        rule c42,
        rule c43,
        rule c44,
        rule c45,
        rule c46,
        rule c47,
        rule c48)
qed

text \<open>
  The theorem at a connection that was never opened and whose open call is rejected, at
  an initialised connection whose next statement is rejected, at a closure whose
  \<^verbatim>\<open>CREATE TABLE mahasiswa\<close> is rejected, and at an initialisation whose
  \<^verbatim>\<open>ALTER TABLE\<close> statement alone is rejected.
\<close>

theorem failures_propagate_witness:
  "addMahasiswa example_new_mahasiswa example_idle_world = (Throws (JsError
       ''Database initialization failed: disk I/O error'' None), (snd (getDatabase
       example_idle_world))\<lparr>guard := console_error [''Error adding mahasiswa:'']
       (guard (snd (getDatabase example_idle_world)))\<rparr>)
   \<and> addMahasiswa example_new_mahasiswa example_faulty_world = (Throws example_error,
       (example_faulty_world\<lparr>tape := []\<rparr>)\<lparr>guard := console_error
       [''Error adding mahasiswa:''] (guard (example_faulty_world\<lparr>tape :=
       []\<rparr>))\<rparr>)
   \<and> getAllMahasiswa example_idle_world = (Throws (JsError
       ''Database initialization failed: disk I/O error'' None), (snd (getDatabase
       example_idle_world))\<lparr>guard := console_error
       [''Error getting all mahasiswa:''] (guard (snd (getDatabase
       example_idle_world)))\<rparr>)
   \<and> getAllMahasiswa example_faulty_world = (Throws example_error,
       (example_faulty_world\<lparr>tape := []\<rparr>)\<lparr>guard := console_error
       [''Error getting all mahasiswa:''] (guard (example_faulty_world\<lparr>tape :=
       []\<rparr>))\<rparr>)
   \<and> getMahasiswaById 2 example_idle_world = (Throws (JsError
       ''Database initialization failed: disk I/O error'' None), (snd (getDatabase
       example_idle_world))\<lparr>guard := console_error
       [''Error getting mahasiswa by id:''] (guard (snd (getDatabase
       example_idle_world)))\<rparr>)
   \<and> getMahasiswaById 2 example_faulty_world = (Throws example_error,
       (example_faulty_world\<lparr>tape := []\<rparr>)\<lparr>guard := console_error
       [''Error getting mahasiswa by id:''] (guard (example_faulty_world\<lparr>tape :=
       []\<rparr>))\<rparr>)
   \<and> updateMahasiswa 2 example_new_mahasiswa example_idle_world = (Throws (JsError
       ''Database initialization failed: disk I/O error'' None), (snd (getDatabase
       example_idle_world))\<lparr>guard := console_error [''Error updating mahasiswa:'']
       (guard (snd (getDatabase example_idle_world)))\<rparr>)
   \<and> updateMahasiswa 2 example_new_mahasiswa example_faulty_world = (Throws example_error,
       (example_faulty_world\<lparr>tape := []\<rparr>)\<lparr>guard := console_error
       [''Error updating mahasiswa:''] (guard (example_faulty_world\<lparr>tape :=
       []\<rparr>))\<rparr>)
   \<and> deleteMahasiswa 2 example_idle_world = (Throws (JsError
       ''Database initialization failed: disk I/O error'' None), (snd (getDatabase
       example_idle_world))\<lparr>guard := console_error [''Error deleting mahasiswa:'']
       (guard (snd (getDatabase example_idle_world)))\<rparr>)
   \<and> deleteMahasiswa 2 example_faulty_world = (Throws example_error,
       (example_faulty_world\<lparr>tape := []\<rparr>)\<lparr>guard := console_error
       [''Error deleting mahasiswa:''] (guard (example_faulty_world\<lparr>tape :=
       []\<rparr>))\<rparr>)
   \<and> searchMahasiswa ''x'' example_idle_world = (Throws (JsError
       ''Database initialization failed: disk I/O error'' None), (snd (getDatabase
       example_idle_world))\<lparr>guard := console_error [''Error searching mahasiswa:'']
       (guard (snd (getDatabase example_idle_world)))\<rparr>)
   \<and> searchMahasiswa ''x'' example_faulty_world = (Throws example_error,
       (example_faulty_world\<lparr>tape := []\<rparr>)\<lparr>guard := console_error
       [''Error searching mahasiswa:''] (guard (example_faulty_world\<lparr>tape :=
       []\<rparr>))\<rparr>)
   \<and> getRecentMahasiswa 5 example_idle_world = (Throws (JsError
       ''Database initialization failed: disk I/O error'' None), (snd (getDatabase
       example_idle_world))\<lparr>guard := console_error
       [''Error getting recent mahasiswa:''] (guard (snd (getDatabase
       example_idle_world)))\<rparr>)
   \<and> getRecentMahasiswa 5 example_faulty_world = (Throws example_error,
       (example_faulty_world\<lparr>tape := []\<rparr>)\<lparr>guard := console_error
       [''Error getting recent mahasiswa:''] (guard (example_faulty_world\<lparr>tape :=
       []\<rparr>))\<rparr>)
   \<and> addUser example_user example_idle_world = (Throws (JsError
       ''Database initialization failed: disk I/O error'' None), (snd (getDatabase
       example_idle_world))\<lparr>guard := console_error [''Error adding user:''] (guard
       (snd (getDatabase example_idle_world)))\<rparr>)
   \<and> addUser example_user example_faulty_world = (Throws example_error,
       (example_faulty_world\<lparr>tape := []\<rparr>)\<lparr>guard := console_error
       [''Error adding user:''] (guard (example_faulty_world\<lparr>tape :=
       []\<rparr>))\<rparr>)
   \<and> getUserByEmail ''a@x.com'' example_idle_world = (Throws (JsError
       ''Database initialization failed: disk I/O error'' None), (snd (getDatabase
       example_idle_world))\<lparr>guard := console_error
       [''Error getting user by email:''] (guard (snd (getDatabase
       example_idle_world)))\<rparr>)
   \<and> getUserByEmail ''a@x.com'' example_faulty_world = (Throws example_error,
       (example_faulty_world\<lparr>tape := []\<rparr>)\<lparr>guard := console_error
       [''Error getting user by email:''] (guard (example_faulty_world\<lparr>tape :=
       []\<rparr>))\<rparr>)
   \<and> deleteUser 2 example_idle_world = (Throws (JsError
       ''Database initialization failed: disk I/O error'' None), (snd (getDatabase
       example_idle_world))\<lparr>guard := console_error [''Error deleting user:''] (guard
       (snd (getDatabase example_idle_world)))\<rparr>)
   \<and> deleteUser 2 example_faulty_world = (Throws example_error,
       (example_faulty_world\<lparr>tape := []\<rparr>)\<lparr>guard := console_error
       [''Error deleting user:''] (guard (example_faulty_world\<lparr>tape :=
       []\<rparr>))\<rparr>)
   \<and> addProdi example_new_prodi example_idle_world = (Throws (JsError
       ''Failed to add prodi: Database initialization failed: disk I/O error'' (Some
       (JsError ''Database initialization failed: disk I/O error'' None))), (snd
       (getDatabase (example_idle_world\<lparr>guard := console_log
       [''Getting database in addProdi...''] (guard
       example_idle_world)\<rparr>)))\<lparr>guard := console_error
       [''Error adding prodi:''] (guard (snd (getDatabase (example_idle_world\<lparr>guard
       := console_log [''Getting database in addProdi...''] (guard
       example_idle_world)\<rparr>))))\<rparr>)
   \<and> addProdi example_new_prodi example_faulty_world = (Throws (JsError
       ''Failed to add prodi: disk I/O error'' (Some example_error)),
       ((example_faulty_world\<lparr>guard := console_log
       [''Getting database in addProdi...'',
       ''Database object retrieved, inserting prodi data...'', ''Prodi data:''] (guard
       example_faulty_world)\<rparr>)\<lparr>tape := []\<rparr>)\<lparr>guard :=
       console_error [''Error adding prodi:''] (guard ((example_faulty_world\<lparr>guard
       := console_log [''Getting database in addProdi...'',
       ''Database object retrieved, inserting prodi data...'', ''Prodi data:''] (guard
       example_faulty_world)\<rparr>)\<lparr>tape := []\<rparr>))\<rparr>)
   \<and> getAllProdi example_idle_world = (Throws (JsError
       ''Database initialization failed: disk I/O error'' None), (snd (getDatabase
       example_idle_world))\<lparr>guard := console_error [''Error getting all prodi:'']
       (guard (snd (getDatabase example_idle_world)))\<rparr>)
   \<and> getAllProdi example_faulty_world = (Throws example_error,
       (example_faulty_world\<lparr>tape := []\<rparr>)\<lparr>guard := console_error
       [''Error getting all prodi:''] (guard (example_faulty_world\<lparr>tape :=
       []\<rparr>))\<rparr>)
   \<and> getProdiById 2 example_idle_world = (Throws (JsError
       ''Database initialization failed: disk I/O error'' None), (snd (getDatabase
       example_idle_world))\<lparr>guard := console_error [''Error getting prodi by id:'']
       (guard (snd (getDatabase example_idle_world)))\<rparr>)
   \<and> getProdiById 2 example_faulty_world = (Throws example_error,
       (example_faulty_world\<lparr>tape := []\<rparr>)\<lparr>guard := console_error
       [''Error getting prodi by id:''] (guard (example_faulty_world\<lparr>tape :=
       []\<rparr>))\<rparr>)
   \<and> updateProdi 2 example_new_prodi example_idle_world = (Throws (JsError
       ''Database initialization failed: disk I/O error'' None), (snd (getDatabase
       example_idle_world))\<lparr>guard := console_error [''Error updating prodi:'']
       (guard (snd (getDatabase example_idle_world)))\<rparr>)
   \<and> updateProdi 2 example_new_prodi example_faulty_world = (Throws example_error,
       (example_faulty_world\<lparr>tape := []\<rparr>)\<lparr>guard := console_error
       [''Error updating prodi:''] (guard (example_faulty_world\<lparr>tape :=
       []\<rparr>))\<rparr>)
   \<and> deleteProdi 2 example_idle_world = (Throws (JsError
       ''Database initialization failed: disk I/O error'' None), (snd (getDatabase
       example_idle_world))\<lparr>guard := console_error [''Error deleting prodi:'']
       (guard (snd (getDatabase example_idle_world)))\<rparr>)
   \<and> deleteProdi 2 example_faulty_world = (Throws example_error,
       (example_faulty_world\<lparr>tape := []\<rparr>)\<lparr>guard := console_error
       [''Error deleting prodi:''] (guard (example_faulty_world\<lparr>tape :=
       []\<rparr>))\<rparr>)
   \<and> searchProdi ''x'' example_idle_world = (Throws (JsError
       ''Database initialization failed: disk I/O error'' None), (snd (getDatabase
       example_idle_world))\<lparr>guard := console_error [''Error searching prodi:'']
       (guard (snd (getDatabase example_idle_world)))\<rparr>)
   \<and> searchProdi ''x'' example_faulty_world = (Throws example_error,
       (example_faulty_world\<lparr>tape := []\<rparr>)\<lparr>guard := console_error
       [''Error searching prodi:''] (guard (example_faulty_world\<lparr>tape :=
       []\<rparr>))\<rparr>)
   \<and> addFakultas example_new_fakultas example_idle_world = (Throws (JsError
       ''Failed to add fakultas: Database initialization failed: disk I/O error'' (Some
       (JsError ''Database initialization failed: disk I/O error'' None))), (snd
       (getDatabase (example_idle_world\<lparr>guard := console_log
       [''Getting database in addFakultas...''] (guard
       example_idle_world)\<rparr>)))\<lparr>guard := console_error
       [''Error adding fakultas:''] (guard (snd (getDatabase
       (example_idle_world\<lparr>guard := console_log
       [''Getting database in addFakultas...''] (guard
       example_idle_world)\<rparr>))))\<rparr>)
   \<and> addFakultas example_new_fakultas example_faulty_world = (Throws (JsError
       ''Failed to add fakultas: disk I/O error'' (Some example_error)),
       ((example_faulty_world\<lparr>guard := console_log
       [''Getting database in addFakultas...'',
       ''Database object retrieved, inserting fakultas data...'', ''Fakultas data:'']
       (guard example_faulty_world)\<rparr>)\<lparr>tape := []\<rparr>)\<lparr>guard :=
       console_error [''Error adding fakultas:''] (guard
       ((example_faulty_world\<lparr>guard := console_log
       [''Getting database in addFakultas...'',
       ''Database object retrieved, inserting fakultas data...'', ''Fakultas data:'']
       (guard example_faulty_world)\<rparr>)\<lparr>tape := []\<rparr>))\<rparr>)
   \<and> getAllFakultas example_idle_world = (Throws (JsError
       ''Database initialization failed: disk I/O error'' None), (snd (getDatabase
       example_idle_world))\<lparr>guard := console_error [''Error getting all fakultas:'']
       (guard (snd (getDatabase example_idle_world)))\<rparr>)
   \<and> getAllFakultas example_faulty_world = (Throws example_error,
       (example_faulty_world\<lparr>tape := []\<rparr>)\<lparr>guard := console_error
       [''Error getting all fakultas:''] (guard (example_faulty_world\<lparr>tape :=
       []\<rparr>))\<rparr>)
   \<and> getFakultasById 2 example_idle_world = (Throws (JsError
       ''Database initialization failed: disk I/O error'' None), (snd (getDatabase
       example_idle_world))\<lparr>guard := console_error
       [''Error getting fakultas by id:''] (guard (snd (getDatabase
       example_idle_world)))\<rparr>)
   \<and> getFakultasById 2 example_faulty_world = (Throws example_error,
       (example_faulty_world\<lparr>tape := []\<rparr>)\<lparr>guard := console_error
       [''Error getting fakultas by id:''] (guard (example_faulty_world\<lparr>tape :=
       []\<rparr>))\<rparr>)
   \<and> updateFakultas 2 example_new_fakultas example_idle_world = (Throws (JsError
       ''Database initialization failed: disk I/O error'' None), (snd (getDatabase
       example_idle_world))\<lparr>guard := console_error [''Error updating fakultas:'']
       (guard (snd (getDatabase example_idle_world)))\<rparr>)
   \<and> updateFakultas 2 example_new_fakultas example_faulty_world = (Throws example_error,
       (example_faulty_world\<lparr>tape := []\<rparr>)\<lparr>guard := console_error
       [''Error updating fakultas:''] (guard (example_faulty_world\<lparr>tape :=
       []\<rparr>))\<rparr>)
   \<and> deleteFakultas 2 example_idle_world = (Throws (JsError
       ''Database initialization failed: disk I/O error'' None), (snd (getDatabase
       example_idle_world))\<lparr>guard := console_error [''Error deleting fakultas:'']
       (guard (snd (getDatabase example_idle_world)))\<rparr>)
   \<and> deleteFakultas 2 example_faulty_world = (Throws example_error,
       (example_faulty_world\<lparr>tape := []\<rparr>)\<lparr>guard := console_error
       [''Error deleting fakultas:''] (guard (example_faulty_world\<lparr>tape :=
       []\<rparr>))\<rparr>)
   \<and> searchFakultas ''x'' example_idle_world = (Throws (JsError
       ''Database initialization failed: disk I/O error'' None), (snd (getDatabase
       example_idle_world))\<lparr>guard := console_error [''Error searching fakultas:'']
       (guard (snd (getDatabase example_idle_world)))\<rparr>)
   \<and> searchFakultas ''x'' example_faulty_world = (Throws example_error,
       (example_faulty_world\<lparr>tape := []\<rparr>)\<lparr>guard := console_error
       [''Error searching fakultas:''] (guard (example_faulty_world\<lparr>tape :=
       []\<rparr>))\<rparr>)
   \<and> authenticateUser ''a@x.com'' ''p'' example_faulty_world = (Throws example_error,
       ((example_faulty_world\<lparr>tape := []\<rparr>)\<lparr>guard := console_error
       [''Error getting user by email:''] (guard (example_faulty_world\<lparr>tape :=
       []\<rparr>))\<rparr>)\<lparr>guard := console_error [''Error authenticating user:'']
       (guard ((example_faulty_world\<lparr>tape := []\<rparr>)\<lparr>guard :=
       console_error [''Error getting user by email:''] (guard
       (example_faulty_world\<lparr>tape := []\<rparr>))\<rparr>))\<rparr>)
   \<and> fst (await_caller (Awaiting 0) example_creating_world) = Throws (JsError
       ''Database initialization failed: disk I/O error'' None)
   \<and> fst (initDatabase example_idle_world) = Throws (JsError
       ''Database initialization failed: disk I/O error'' None)
   \<and> fst (getDatabase example_idle_world) = Throws (JsError
       ''Database initialization failed: disk I/O error'' None)
   \<and> tape (snd (initDatabase example_idle_world)) = []
   \<and> fst (initDatabase example_alter_world) = Returns 0
   \<and> db (guard (snd (initDatabase example_alter_world))) = Some 0
   \<and> tape (snd (initDatabase example_alter_world)) = []"
proof -
  have idle: "db (guard example_idle_world) = None" "initPromise (guard example_idle_world) = None"
    "tape example_idle_world = Rejects example_error # []"
    by (simp_all add: example_idle_world_def uninitialized_def)
  have ready: "db (guard example_faulty_world) = Some 0"
    by (simp add: example_faulty_world_def example_world_ready)
  have faulty: "tape example_faulty_world = Rejects example_error # []"
    by (simp add: example_faulty_world_def)
  have run_rejected:
    "\<And>statement. runAsync 0 statement example_faulty_world
       = (Throws example_error, example_faulty_world\<lparr>tape := []\<rparr>)"
    by (simp add: runAsync_def execute_rejects [OF faulty])
  have all_rejected:
    "\<And>query. getAllAsync 0 query example_faulty_world
       = (Throws example_error, example_faulty_world\<lparr>tape := []\<rparr>)"
    by (simp add: getAllAsync_def execute_rejects [OF faulty])
  have first_rejected:
    "\<And>query. getFirstAsync 0 query example_faulty_world
       = (Throws example_error, example_faulty_world\<lparr>tape := []\<rparr>)"
    by (simp add: getFirstAsync_def execute_rejects [OF faulty])
  have life: "getDatabase example_idle_world = (Throws (JsError
      ''Database initialization failed: disk I/O error'' None), snd (getDatabase
      example_idle_world))"
    using getDatabase_open_rejected [OF idle]
    by (simp add: prod_eq_iff init_failure_def errorMsg_def example_error_def)
  have lifeProdi:
    "getDatabase (example_idle_world\<lparr>guard := console_log
        [''Getting database in addProdi...''] (guard example_idle_world)\<rparr>)
       = (Throws (JsError ''Database initialization failed: disk I/O error'' None),
          snd (getDatabase (example_idle_world\<lparr>guard := console_log
              [''Getting database in addProdi...''] (guard example_idle_world)\<rparr>)))"
    using getDatabase_open_rejected
            [of "example_idle_world\<lparr>guard := console_log
                [''Getting database in addProdi...''] (guard example_idle_world)\<rparr>"
                example_error "[]"] idle
    by (simp add: prod_eq_iff console_log_def init_failure_def errorMsg_def
                  example_error_def)
  have runProdi:
    "\<And>statement. runAsync 0 statement
        (example_faulty_world\<lparr>guard := console_log [''Getting database in addProdi...'',
            ''Database object retrieved, inserting prodi data...'', ''Prodi data:''] (guard
            example_faulty_world)\<rparr>)
       = (Throws example_error, ((example_faulty_world\<lparr>guard := console_log
           [''Getting database in addProdi...'',
           ''Database object retrieved, inserting prodi data...'', ''Prodi data:''] (guard
           example_faulty_world)\<rparr>)\<lparr>tape := []\<rparr>))"
    using faulty by (simp add: runAsync_def execute_def)
  have lifeFakultas:
    "getDatabase (example_idle_world\<lparr>guard := console_log
        [''Getting database in addFakultas...''] (guard example_idle_world)\<rparr>)
       = (Throws (JsError ''Database initialization failed: disk I/O error'' None),
          snd (getDatabase (example_idle_world\<lparr>guard := console_log
              [''Getting database in addFakultas...''] (guard example_idle_world)\<rparr>)))"
    using getDatabase_open_rejected
            [of "example_idle_world\<lparr>guard := console_log
                [''Getting database in addFakultas...''] (guard example_idle_world)\<rparr>"
                example_error "[]"] idle
    by (simp add: prod_eq_iff console_log_def init_failure_def errorMsg_def
                  example_error_def)
  have runFakultas:
    "\<And>statement. runAsync 0 statement
        (example_faulty_world\<lparr>guard := console_log
            [''Getting database in addFakultas...'',
            ''Database object retrieved, inserting fakultas data...'', ''Fakultas data:'']
            (guard example_faulty_world)\<rparr>)
       = (Throws example_error, ((example_faulty_world\<lparr>guard := console_log
           [''Getting database in addFakultas...'',
           ''Database object retrieved, inserting fakultas data...'', ''Fakultas data:''] (guard
           example_faulty_world)\<rparr>)\<lparr>tape := []\<rparr>))"
    using faulty by (simp add: runAsync_def execute_def)
  have user_rejected:
    "getUserByEmail ''a@x.com'' example_faulty_world
       = (Throws example_error, ((example_faulty_world\<lparr>tape := []\<rparr>)\<lparr>guard
           := console_error [''Error getting user by email:''] (guard
           (example_faulty_world\<lparr>tape := []\<rparr>))\<rparr>))"
    by (simp add: getUserByEmail_def try_catch_def await_def console_error_line_def throw_def
                  getDatabase_ready [OF ready] first_rejected)
  have creating:
    "0 < length (attempts (guard example_creating_world))"
    "fatal_failure (attempts (guard example_creating_world) ! 0) (Rejects example_error) = Some
        example_error"
    "tape example_creating_world = Rejects example_error # Resolves # []"
    by (simp_all add: example_creating_world_def example_creating_guard_def)
  have altering: "db (guard example_alter_world) = None"
    "initPromise (guard example_alter_world) = None"
    "tape example_alter_world
       = Resolves # Resolves # Resolves # Rejects example_error # Resolves # Resolves # []"
    "length (attempts (guard example_alter_world)) = 0"
    by (simp_all add: example_alter_world_def uninitialized_def)
  have msg: "message example_error = ''disk I/O error''"
    by (simp add: example_error_def)
  note A = failures_propagate
    [where w = "example_idle_world" and e = "JsError
        ''Database initialization failed: disk I/O error'' None"
      and wa = "snd (getDatabase example_idle_world)"
      and v = "example_faulty_world" and h = 0 and cause = "example_error"
      and va = "example_faulty_world\<lparr>tape := []\<rparr>"
      and mahasiswa = example_new_mahasiswa and i = 2 and keyword = "''x''" and limit = 5
      and user = example_user and email = "''a@x.com''" and password = "''p''"
      and prodi = example_new_prodi and fakultas = example_new_fakultas and error =
          example_error and outs = "[]"]
  note Prodi = failures_propagate
    [where w = "example_idle_world" and e = "JsError
        ''Database initialization failed: disk I/O error'' None"
      and wa = "snd (getDatabase (example_idle_world\<lparr>guard := console_log
          [''Getting database in addProdi...''] (guard example_idle_world)\<rparr>))"
      and v = "example_faulty_world" and h = 0 and cause = "example_error"
      and va = "(example_faulty_world\<lparr>guard := console_log
          [''Getting database in addProdi...'',
          ''Database object retrieved, inserting prodi data...'', ''Prodi data:''] (guard
          example_faulty_world)\<rparr>)\<lparr>tape := []\<rparr>"
      and mahasiswa = example_new_mahasiswa and i = 2 and keyword = "''x''" and limit = 5
      and user = example_user and email = "''a@x.com''" and password = "''p''"
      and prodi = example_new_prodi and fakultas = example_new_fakultas]
  note Fakultas = failures_propagate
    [where w = "example_idle_world" and e = "JsError
        ''Database initialization failed: disk I/O error'' None"
      and wa = "snd (getDatabase (example_idle_world\<lparr>guard := console_log
          [''Getting database in addFakultas...''] (guard example_idle_world)\<rparr>))"
      and v = "example_faulty_world" and h = 0 and cause = "example_error"
      and va = "(example_faulty_world\<lparr>guard := console_log
          [''Getting database in addFakultas...'',
          ''Database object retrieved, inserting fakultas data...'', ''Fakultas data:''] (guard
          example_faulty_world)\<rparr>)\<lparr>tape := []\<rparr>"
      and mahasiswa = example_new_mahasiswa and i = 2 and keyword = "''x''" and limit = 5
      and user = example_user and email = "''a@x.com''" and password = "''p''"
      and prodi = example_new_prodi and fakultas = example_new_fakultas]
  note U = failures_propagate
    [where w = "example_faulty_world" and e = "example_error"
      and wa = "(example_faulty_world\<lparr>tape := []\<rparr>)\<lparr>guard := console_error
          [''Error getting user by email:''] (guard (example_faulty_world\<lparr>tape :=
          []\<rparr>))\<rparr>"
      and v = "example_faulty_world" and h = 0 and cause = "example_error"
      and va = "example_faulty_world\<lparr>tape := []\<rparr>"
      and mahasiswa = example_new_mahasiswa and i = 2 and keyword = "''x''" and limit = 5
      and user = example_user and email = "''a@x.com''" and password = "''p''"
      and prodi = example_new_prodi and fakultas = example_new_fakultas]
  note L = failures_propagate
    [where w = "example_creating_world" and e = "example_error"
      and wa = "example_creating_world"
      and v = "example_faulty_world" and h = 0 and cause = "example_error"
      and va = "example_faulty_world\<lparr>tape := []\<rparr>"
      and mahasiswa = example_new_mahasiswa and i = 2 and keyword = "''x''" and limit = 5
      and user = example_user and email = "''a@x.com''" and password = "''p''"
      and prodi = example_new_prodi and fakultas = example_new_fakultas and p = 0 and out =
          "Rejects example_error" and error = example_error
      and closeOut = Resolves and outs = "[]" and alterError = example_error]
  note M = failures_propagate
    [where w = "example_alter_world" and e = "example_error"
      and wa = "example_alter_world"
      and v = "example_faulty_world" and h = 0 and cause = "example_error"
      and va = "example_faulty_world\<lparr>tape := []\<rparr>"
      and mahasiswa = example_new_mahasiswa and i = 2 and keyword = "''x''" and limit = 5
      and user = example_user and email = "''a@x.com''" and password = "''p''"
      and prodi = example_new_prodi and fakultas = example_new_fakultas and alterError =
          example_error and outs = "[]"]
  from L
  have fatal_step:
    "0 < length (attempts (guard example_creating_world))
     \<and> fatal_failure (attempts (guard example_creating_world) ! 0) (Rejects example_error)
         = Some example_error
     \<and> tape example_creating_world = Rejects example_error # Resolves # []
     \<longrightarrow> fst (await_caller (Awaiting 0) example_creating_world)
           = Throws (JsError (''Database initialization failed: '' @
                       (if message example_error = [] then ''Error'' else message
                           example_error)) None)"
    by (elim conjE)
  have k1: "addMahasiswa example_new_mahasiswa example_idle_world = (Throws (JsError
      ''Database initialization failed: disk I/O error'' None), (snd (getDatabase
      example_idle_world))\<lparr>guard := console_error [''Error adding mahasiswa:'']
      (guard (snd (getDatabase example_idle_world)))\<rparr>)"
    using A life by (simp add: ready run_rejected all_rejected first_rejected idle msg)
  have k2: "addMahasiswa example_new_mahasiswa example_faulty_world = (Throws example_error,
      (example_faulty_world\<lparr>tape := []\<rparr>)\<lparr>guard := console_error
      [''Error adding mahasiswa:''] (guard (example_faulty_world\<lparr>tape :=
      []\<rparr>))\<rparr>)"
    using A life by (simp add: ready run_rejected all_rejected first_rejected idle msg)
  have k3: "getAllMahasiswa example_idle_world = (Throws (JsError
      ''Database initialization failed: disk I/O error'' None), (snd (getDatabase
      example_idle_world))\<lparr>guard := console_error
      [''Error getting all mahasiswa:''] (guard (snd (getDatabase
      example_idle_world)))\<rparr>)"
    using A life by (simp add: ready run_rejected all_rejected first_rejected idle msg)
  have k4: "getAllMahasiswa example_faulty_world = (Throws example_error,
      (example_faulty_world\<lparr>tape := []\<rparr>)\<lparr>guard := console_error
      [''Error getting all mahasiswa:''] (guard (example_faulty_world\<lparr>tape :=
      []\<rparr>))\<rparr>)"
    using A life by (simp add: ready run_rejected all_rejected first_rejected idle msg)
  have k5: "getMahasiswaById 2 example_idle_world = (Throws (JsError
      ''Database initialization failed: disk I/O error'' None), (snd (getDatabase
      example_idle_world))\<lparr>guard := console_error
      [''Error getting mahasiswa by id:''] (guard (snd (getDatabase
      example_idle_world)))\<rparr>)"
    using A life by (simp add: ready run_rejected all_rejected first_rejected idle msg)
  have k6: "getMahasiswaById 2 example_faulty_world = (Throws example_error,
      (example_faulty_world\<lparr>tape := []\<rparr>)\<lparr>guard := console_error
      [''Error getting mahasiswa by id:''] (guard (example_faulty_world\<lparr>tape :=
      []\<rparr>))\<rparr>)"
    using A life by (simp add: ready run_rejected all_rejected first_rejected idle msg)
  have k7: "updateMahasiswa 2 example_new_mahasiswa example_idle_world = (Throws (JsError
      ''Database initialization failed: disk I/O error'' None), (snd (getDatabase
      example_idle_world))\<lparr>guard := console_error [''Error updating mahasiswa:'']
      (guard (snd (getDatabase example_idle_world)))\<rparr>)"
    using A life by (simp add: ready run_rejected all_rejected first_rejected idle msg)
  have k8: "updateMahasiswa 2 example_new_mahasiswa example_faulty_world = (Throws example_error,
      (example_faulty_world\<lparr>tape := []\<rparr>)\<lparr>guard := console_error
      [''Error updating mahasiswa:''] (guard (example_faulty_world\<lparr>tape :=
      []\<rparr>))\<rparr>)"
    using A life by (simp add: ready run_rejected all_rejected first_rejected idle msg)
  have k9: "deleteMahasiswa 2 example_idle_world = (Throws (JsError
      ''Database initialization failed: disk I/O error'' None), (snd (getDatabase
      example_idle_world))\<lparr>guard := console_error [''Error deleting mahasiswa:'']
      (guard (snd (getDatabase example_idle_world)))\<rparr>)"
    using A life by (simp add: ready run_rejected all_rejected first_rejected idle msg)
  have k10: "deleteMahasiswa 2 example_faulty_world = (Throws example_error,
      (example_faulty_world\<lparr>tape := []\<rparr>)\<lparr>guard := console_error
      [''Error deleting mahasiswa:''] (guard (example_faulty_world\<lparr>tape :=
      []\<rparr>))\<rparr>)"
    using A life by (simp add: ready run_rejected all_rejected first_rejected idle msg)
  have k11: "searchMahasiswa ''x'' example_idle_world = (Throws (JsError
      ''Database initialization failed: disk I/O error'' None), (snd (getDatabase
      example_idle_world))\<lparr>guard := console_error [''Error searching mahasiswa:'']
      (guard (snd (getDatabase example_idle_world)))\<rparr>)"
    using A life by (simp add: ready run_rejected all_rejected first_rejected idle msg)
  have k12: "searchMahasiswa ''x'' example_faulty_world = (Throws example_error,
      (example_faulty_world\<lparr>tape := []\<rparr>)\<lparr>guard := console_error
      [''Error searching mahasiswa:''] (guard (example_faulty_world\<lparr>tape :=
      []\<rparr>))\<rparr>)"
    using A life by (simp add: ready run_rejected all_rejected first_rejected idle msg)
  have k13: "getRecentMahasiswa 5 example_idle_world = (Throws (JsError
      ''Database initialization failed: disk I/O error'' None), (snd (getDatabase
      example_idle_world))\<lparr>guard := console_error
      [''Error getting recent mahasiswa:''] (guard (snd (getDatabase
      example_idle_world)))\<rparr>)"
    using A life by (simp add: ready run_rejected all_rejected first_rejected idle msg)
  have k14: "getRecentMahasiswa 5 example_faulty_world = (Throws example_error,
      (example_faulty_world\<lparr>tape := []\<rparr>)\<lparr>guard := console_error
      [''Error getting recent mahasiswa:''] (guard (example_faulty_world\<lparr>tape :=
      []\<rparr>))\<rparr>)"
    using A life by (simp add: ready run_rejected all_rejected first_rejected idle msg)
  have k15: "addUser example_user example_idle_world = (Throws (JsError
      ''Database initialization failed: disk I/O error'' None), (snd (getDatabase
      example_idle_world))\<lparr>guard := console_error [''Error adding user:''] (guard
      (snd (getDatabase example_idle_world)))\<rparr>)"
    using A life by (simp add: ready run_rejected all_rejected first_rejected idle msg)
  have k16: "addUser example_user example_faulty_world = (Throws example_error,
      (example_faulty_world\<lparr>tape := []\<rparr>)\<lparr>guard := console_error
      [''Error adding user:''] (guard (example_faulty_world\<lparr>tape :=
      []\<rparr>))\<rparr>)"
    using A life by (simp add: ready run_rejected all_rejected first_rejected idle msg)
  have k17: "getUserByEmail ''a@x.com'' example_idle_world = (Throws (JsError
      ''Database initialization failed: disk I/O error'' None), (snd (getDatabase
      example_idle_world))\<lparr>guard := console_error
      [''Error getting user by email:''] (guard (snd (getDatabase
      example_idle_world)))\<rparr>)"
    using A life by (simp add: ready run_rejected all_rejected first_rejected idle msg)
  have k18: "getUserByEmail ''a@x.com'' example_faulty_world = (Throws example_error,
      (example_faulty_world\<lparr>tape := []\<rparr>)\<lparr>guard := console_error
      [''Error getting user by email:''] (guard (example_faulty_world\<lparr>tape :=
      []\<rparr>))\<rparr>)"
    using A life by (simp add: ready run_rejected all_rejected first_rejected idle msg)
  have k19: "deleteUser 2 example_idle_world = (Throws (JsError
      ''Database initialization failed: disk I/O error'' None), (snd (getDatabase
      example_idle_world))\<lparr>guard := console_error [''Error deleting user:''] (guard
      (snd (getDatabase example_idle_world)))\<rparr>)"
    using A life by (simp add: ready run_rejected all_rejected first_rejected idle msg)
  have k20: "deleteUser 2 example_faulty_world = (Throws example_error,
      (example_faulty_world\<lparr>tape := []\<rparr>)\<lparr>guard := console_error
      [''Error deleting user:''] (guard (example_faulty_world\<lparr>tape :=
      []\<rparr>))\<rparr>)"
    using A life by (simp add: ready run_rejected all_rejected first_rejected idle msg)
  have k21: "addProdi example_new_prodi example_idle_world = (Throws (JsError
      ''Failed to add prodi: Database initialization failed: disk I/O error'' (Some
      (JsError ''Database initialization failed: disk I/O error'' None))), (snd
      (getDatabase (example_idle_world\<lparr>guard := console_log
      [''Getting database in addProdi...''] (guard
      example_idle_world)\<rparr>)))\<lparr>guard := console_error
      [''Error adding prodi:''] (guard (snd (getDatabase (example_idle_world\<lparr>guard
      := console_log [''Getting database in addProdi...''] (guard
      example_idle_world)\<rparr>))))\<rparr>)"
    using Prodi lifeProdi by (simp add: ready runProdi msg)
  have k22: "addProdi example_new_prodi example_faulty_world = (Throws (JsError
      ''Failed to add prodi: disk I/O error'' (Some example_error)),
      ((example_faulty_world\<lparr>guard := console_log
      [''Getting database in addProdi...'',
      ''Database object retrieved, inserting prodi data...'', ''Prodi data:''] (guard
      example_faulty_world)\<rparr>)\<lparr>tape := []\<rparr>)\<lparr>guard :=
      console_error [''Error adding prodi:''] (guard ((example_faulty_world\<lparr>guard
      := console_log [''Getting database in addProdi...'',
      ''Database object retrieved, inserting prodi data...'', ''Prodi data:''] (guard
      example_faulty_world)\<rparr>)\<lparr>tape := []\<rparr>))\<rparr>)"
    using Prodi lifeProdi by (simp add: ready runProdi msg)
  have k23: "getAllProdi example_idle_world = (Throws (JsError
      ''Database initialization failed: disk I/O error'' None), (snd (getDatabase
      example_idle_world))\<lparr>guard := console_error [''Error getting all prodi:'']
      (guard (snd (getDatabase example_idle_world)))\<rparr>)"
    using A life by (simp add: ready run_rejected all_rejected first_rejected idle msg)
  have k24: "getAllProdi example_faulty_world = (Throws example_error,
      (example_faulty_world\<lparr>tape := []\<rparr>)\<lparr>guard := console_error
      [''Error getting all prodi:''] (guard (example_faulty_world\<lparr>tape :=
      []\<rparr>))\<rparr>)"
    using A life by (simp add: ready run_rejected all_rejected first_rejected idle msg)
  have k25: "getProdiById 2 example_idle_world = (Throws (JsError
      ''Database initialization failed: disk I/O error'' None), (snd (getDatabase
      example_idle_world))\<lparr>guard := console_error [''Error getting prodi by id:'']
      (guard (snd (getDatabase example_idle_world)))\<rparr>)"
    using A life by (simp add: ready run_rejected all_rejected first_rejected idle msg)
  have k26: "getProdiById 2 example_faulty_world = (Throws example_error,
      (example_faulty_world\<lparr>tape := []\<rparr>)\<lparr>guard := console_error
      [''Error getting prodi by id:''] (guard (example_faulty_world\<lparr>tape :=
      []\<rparr>))\<rparr>)"
    using A life by (simp add: ready run_rejected all_rejected first_rejected idle msg)
  have k27: "updateProdi 2 example_new_prodi example_idle_world = (Throws (JsError
      ''Database initialization failed: disk I/O error'' None), (snd (getDatabase
      example_idle_world))\<lparr>guard := console_error [''Error updating prodi:'']
      (guard (snd (getDatabase example_idle_world)))\<rparr>)"
    using A life by (simp add: ready run_rejected all_rejected first_rejected idle msg)
  have k28: "updateProdi 2 example_new_prodi example_faulty_world = (Throws example_error,
      (example_faulty_world\<lparr>tape := []\<rparr>)\<lparr>guard := console_error
      [''Error updating prodi:''] (guard (example_faulty_world\<lparr>tape :=
      []\<rparr>))\<rparr>)"
    using A life by (simp add: ready run_rejected all_rejected first_rejected idle msg)
  have k29: "deleteProdi 2 example_idle_world = (Throws (JsError
      ''Database initialization failed: disk I/O error'' None), (snd (getDatabase
      example_idle_world))\<lparr>guard := console_error [''Error deleting prodi:'']
      (guard (snd (getDatabase example_idle_world)))\<rparr>)"
    using A life by (simp add: ready run_rejected all_rejected first_rejected idle msg)
  have k30: "deleteProdi 2 example_faulty_world = (Throws example_error,
      (example_faulty_world\<lparr>tape := []\<rparr>)\<lparr>guard := console_error
      [''Error deleting prodi:''] (guard (example_faulty_world\<lparr>tape :=
      []\<rparr>))\<rparr>)"
    using A life by (simp add: ready run_rejected all_rejected first_rejected idle msg)
  have k31: "searchProdi ''x'' example_idle_world = (Throws (JsError
      ''Database initialization failed: disk I/O error'' None), (snd (getDatabase
      example_idle_world))\<lparr>guard := console_error [''Error searching prodi:'']
      (guard (snd (getDatabase example_idle_world)))\<rparr>)"
    using A life by (simp add: ready run_rejected all_rejected first_rejected idle msg)
  have k32: "searchProdi ''x'' example_faulty_world = (Throws example_error,
      (example_faulty_world\<lparr>tape := []\<rparr>)\<lparr>guard := console_error
      [''Error searching prodi:''] (guard (example_faulty_world\<lparr>tape :=
      []\<rparr>))\<rparr>)"
    using A life by (simp add: ready run_rejected all_rejected first_rejected idle msg)
  have k33: "addFakultas example_new_fakultas example_idle_world = (Throws (JsError
      ''Failed to add fakultas: Database initialization failed: disk I/O error'' (Some
      (JsError ''Database initialization failed: disk I/O error'' None))), (snd
      (getDatabase (example_idle_world\<lparr>guard := console_log
      [''Getting database in addFakultas...''] (guard
      example_idle_world)\<rparr>)))\<lparr>guard := console_error
      [''Error adding fakultas:''] (guard (snd (getDatabase
      (example_idle_world\<lparr>guard := console_log
      [''Getting database in addFakultas...''] (guard
      example_idle_world)\<rparr>))))\<rparr>)"
    using Fakultas lifeFakultas by (simp add: ready runFakultas msg)
  have k34: "addFakultas example_new_fakultas example_faulty_world = (Throws (JsError
      ''Failed to add fakultas: disk I/O error'' (Some example_error)),
      ((example_faulty_world\<lparr>guard := console_log
      [''Getting database in addFakultas...'',
      ''Database object retrieved, inserting fakultas data...'', ''Fakultas data:'']
      (guard example_faulty_world)\<rparr>)\<lparr>tape := []\<rparr>)\<lparr>guard :=
      console_error [''Error adding fakultas:''] (guard
      ((example_faulty_world\<lparr>guard := console_log
      [''Getting database in addFakultas...'',
      ''Database object retrieved, inserting fakultas data...'', ''Fakultas data:'']
      (guard example_faulty_world)\<rparr>)\<lparr>tape := []\<rparr>))\<rparr>)"
    using Fakultas lifeFakultas by (simp add: ready runFakultas msg)
  have k35: "getAllFakultas example_idle_world = (Throws (JsError
      ''Database initialization failed: disk I/O error'' None), (snd (getDatabase
      example_idle_world))\<lparr>guard := console_error [''Error getting all fakultas:'']
      (guard (snd (getDatabase example_idle_world)))\<rparr>)"
    using A life by (simp add: ready run_rejected all_rejected first_rejected idle msg)
  have k36: "getAllFakultas example_faulty_world = (Throws example_error,
      (example_faulty_world\<lparr>tape := []\<rparr>)\<lparr>guard := console_error
      [''Error getting all fakultas:''] (guard (example_faulty_world\<lparr>tape :=
      []\<rparr>))\<rparr>)"
    using A life by (simp add: ready run_rejected all_rejected first_rejected idle msg)
  have k37: "getFakultasById 2 example_idle_world = (Throws (JsError
      ''Database initialization failed: disk I/O error'' None), (snd (getDatabase
      example_idle_world))\<lparr>guard := console_error
      [''Error getting fakultas by id:''] (guard (snd (getDatabase
      example_idle_world)))\<rparr>)"
    using A life by (simp add: ready run_rejected all_rejected first_rejected idle msg)
  have k38: "getFakultasById 2 example_faulty_world = (Throws example_error,
      (example_faulty_world\<lparr>tape := []\<rparr>)\<lparr>guard := console_error
      [''Error getting fakultas by id:''] (guard (example_faulty_world\<lparr>tape :=
      []\<rparr>))\<rparr>)"
    using A life by (simp add: ready run_rejected all_rejected first_rejected idle msg)
  have k39: "updateFakultas 2 example_new_fakultas example_idle_world = (Throws (JsError
      ''Database initialization failed: disk I/O error'' None), (snd (getDatabase
      example_idle_world))\<lparr>guard := console_error [''Error updating fakultas:'']
      (guard (snd (getDatabase example_idle_world)))\<rparr>)"
    using A life by (simp add: ready run_rejected all_rejected first_rejected idle msg)
  have k40: "updateFakultas 2 example_new_fakultas example_faulty_world = (Throws example_error,
      (example_faulty_world\<lparr>tape := []\<rparr>)\<lparr>guard := console_error
      [''Error updating fakultas:''] (guard (example_faulty_world\<lparr>tape :=
      []\<rparr>))\<rparr>)"
    using A life by (simp add: ready run_rejected all_rejected first_rejected idle msg)
  have k41: "deleteFakultas 2 example_idle_world = (Throws (JsError
      ''Database initialization failed: disk I/O error'' None), (snd (getDatabase
      example_idle_world))\<lparr>guard := console_error [''Error deleting fakultas:'']
      (guard (snd (getDatabase example_idle_world)))\<rparr>)"
    using A life by (simp add: ready run_rejected all_rejected first_rejected idle msg)
  have k42: "deleteFakultas 2 example_faulty_world = (Throws example_error,
      (example_faulty_world\<lparr>tape := []\<rparr>)\<lparr>guard := console_error
      [''Error deleting fakultas:''] (guard (example_faulty_world\<lparr>tape :=
      []\<rparr>))\<rparr>)"
    using A life by (simp add: ready run_rejected all_rejected first_rejected idle msg)
  have k43: "searchFakultas ''x'' example_idle_world = (Throws (JsError
      ''Database initialization failed: disk I/O error'' None), (snd (getDatabase
      example_idle_world))\<lparr>guard := console_error [''Error searching fakultas:'']
      (guard (snd (getDatabase example_idle_world)))\<rparr>)"
    using A life by (simp add: ready run_rejected all_rejected first_rejected idle msg)
  have k44: "searchFakultas ''x'' example_faulty_world = (Throws example_error,
      (example_faulty_world\<lparr>tape := []\<rparr>)\<lparr>guard := console_error
      [''Error searching fakultas:''] (guard (example_faulty_world\<lparr>tape :=
      []\<rparr>))\<rparr>)"
    using A life by (simp add: ready run_rejected all_rejected first_rejected idle msg)
  have k45: "authenticateUser ''a@x.com'' ''p'' example_faulty_world = (Throws example_error,
      ((example_faulty_world\<lparr>tape := []\<rparr>)\<lparr>guard := console_error
      [''Error getting user by email:''] (guard (example_faulty_world\<lparr>tape :=
      []\<rparr>))\<rparr>)\<lparr>guard := console_error [''Error authenticating user:'']
      (guard ((example_faulty_world\<lparr>tape := []\<rparr>)\<lparr>guard :=
      console_error [''Error getting user by email:''] (guard
      (example_faulty_world\<lparr>tape := []\<rparr>))\<rparr>))\<rparr>)"
    using U by (simp add: user_rejected)
  have k46: "fst (await_caller (Awaiting 0) example_creating_world) = Throws (JsError
      ''Database initialization failed: disk I/O error'' None)"
    using fatal_step creating by (simp add: msg)
  have k47: "fst (initDatabase example_idle_world) = Throws (JsError
      ''Database initialization failed: disk I/O error'' None)"
    using A life by (simp add: ready run_rejected all_rejected first_rejected idle msg)
  have k48: "fst (getDatabase example_idle_world) = Throws (JsError
      ''Database initialization failed: disk I/O error'' None)"
    using A life by (simp add: ready run_rejected all_rejected first_rejected idle msg)
  have k49: "tape (snd (initDatabase example_idle_world)) = []"
    using A life by (simp add: ready run_rejected all_rejected first_rejected idle msg)
  have k50: "fst (initDatabase example_alter_world) = Returns 0"
    using M by (simp add: altering)
  have k51: "db (guard (snd (initDatabase example_alter_world))) = Some 0"
    using M by (simp add: altering)
  have k52: "tape (snd (initDatabase example_alter_world)) = []"
    using M by (simp add: altering)
  show ?thesis
    by (intro conjI)
       (rule k1,
        rule k2,
        rule k3,
        rule k4,
        rule k5,
        rule k6,
        rule k7,
        rule k8,
        rule k9,
        rule k10,
        rule k11,
        rule k12,
        rule k13,
        rule k14,
        rule k15,
        rule k16,
        rule k17,
        rule k18,
        rule k19,
        rule k20,
        rule k21,
        rule k22,
        rule k23,
        rule k24,
        rule k25,
        rule k26,
        rule k27,
        rule k28,
        rule k29,
        rule k30,
        rule k31,
        rule k32,
        rule k33,
        rule k34,
        rule k35,
        rule k36,
        rule k37,
        rule k38,
        rule k39,
        rule k40,
        rule k41,
        rule k42,
        rule k43,
        rule k44,
        rule k45,
        rule k46,
        rule k47,
        rule k48,
        rule k49,
        rule k50,
        rule k51,
        rule k52)
qed

text \<open>
  C5 as stated fails for \<^verbatim>\<open>addProdi\<close>: on the initialised connection
      whose insert
  statement is rejected with \<^verbatim>\<open>disk I/O error\<close>, the caller receives
      another error
  object, with another message.
\<close>

theorem addProdi_wraps_counterexample:
  "runAsync 0
     (sql_insert_prodi (p_kode_prodi example_new_prodi) (p_nama_prodi example_new_prodi)
        (p_fakultas example_new_prodi) (or_null (p_akreditasi example_new_prodi))
        (or_null (p_deskripsi example_new_prodi)))
     (example_faulty_world
        \<lparr>guard := console_log [''Getting database in addProdi...'',
                              ''Database object retrieved, inserting prodi data...'',
                              ''Prodi data:''] (guard example_faulty_world)\<rparr>)
     = (Throws example_error,
        example_faulty_world
          \<lparr>guard := console_log [''Getting database in addProdi...'',
                                ''Database object retrieved, inserting prodi data...'',
                                ''Prodi data:''] (guard example_faulty_world),
            tape := []\<rparr>)
   \<and> fst (addProdi example_new_prodi example_faulty_world)
       = Throws (JsError ''Failed to add prodi: disk I/O error'' (Some example_error))
   \<and> fst (addProdi example_new_prodi example_faulty_world) \<noteq> Throws example_error
   \<and> message example_error = ''disk I/O error''"
proof -
  let ?w = "example_faulty_world
              \<lparr>guard := console_log [''Getting database in addProdi...'']
                         (guard example_faulty_world)\<rparr>"
  have "db (guard ?w) = Some 0"
    by (simp add: example_faulty_ready)
  then have "getDatabase ?w = (Returns 0, ?w)"
    by (rule getDatabase_ready)
  then show ?thesis
    by (simp add: addProdi_def try_catch_def await_def console_error_line_def throw_def
                  console_log_line_def console_log_def runAsync_def execute_def
                  example_faulty_tape formattedError_def errorMsg_def example_error_def)
qed

end
